theory Spec2Isabelle
  imports Main
begin

section \<open>Persistent element naming of Part::Feature (src/Mod/Part/App/PartFeature.cpp)\<close>

text \<open>
  The functions of \<^verbatim>\<open>PartFeature.cpp\<close> that name shape elements, trace their
  history and search corresponding elements are embedded below. The classes they call
  (\<^verbatim>\<open>TopoShape\<close>, \<^verbatim>\<open>ComplexGeoData\<close>, \<^verbatim>\<open>App::Document\<close>,
  \<^verbatim>\<open>App::DocumentObject\<close>) are not part of the sources at hand: a shape is a record
  of what those calls observe, and the document graph is a record of lookup functions.
\<close>

subsection \<open>Data model\<close>

text \<open>\<^verbatim>\<open>Data::MappedName\<close>: a durable name. The empty string is the null name
  (\<^verbatim>\<open>operator bool\<close> is false on it), and \<^verbatim>\<open>size()\<close> is the number of bytes.\<close>

type_synonym MappedName = string

datatype TopAbs_ShapeEnum =
    TopAbs_COMPOUND | TopAbs_COMPSOLID | TopAbs_SOLID | TopAbs_SHELL
  | TopAbs_FACE | TopAbs_WIRE | TopAbs_EDGE | TopAbs_VERTEX | TopAbs_SHAPE

text \<open>\<^verbatim>\<open>Data::IndexedName\<close>: a shape kind and an ordinal, as in section 3 of the
  specification. The null index name has the kind \<^verbatim>\<open>TopAbs_SHAPE\<close>.\<close>

record IndexedName =
  getType :: TopAbs_ShapeEnum
  getIndex :: int

definition IndexedName_null :: IndexedName where
  "IndexedName_null = \<lparr>getType = TopAbs_SHAPE, getIndex = 0\<rparr>"

definition IndexedName_valid :: "IndexedName \<Rightarrow> bool" where
  "IndexedName_valid i = (getType i \<noteq> TopAbs_SHAPE)"

definition fromConst :: "TopAbs_ShapeEnum \<Rightarrow> int \<Rightarrow> IndexedName" where
  "fromConst k i = \<lparr>getType = k, getIndex = i\<rparr>"

text \<open>\<^verbatim>\<open>Data::MappedElement\<close>: a durable name with its index name.\<close>

record MappedElement =
  name :: MappedName
  index :: IndexedName

text \<open>What the code observes of a \<^verbatim>\<open>TopoShape\<close>. The element map has the two tables
  of the specification (\<open>forward\<close> from durable names to index names, \<open>reverse\<close> the
  other way). Sub-shapes are addressed by kind and ordinal: \<open>subElements k i l\<close> lists,
  in the order of \<^verbatim>\<open>getSubTopoShapes\<close>, the ordinals of the sub-shapes of kind \<open>l\<close>
  of the sub-shape \<open>(k, i)\<close>, and \<open>ancestors l j k\<close> is what \<^verbatim>\<open>findAncestors\<close>
  returns for the sub-shape \<open>(l, j)\<close> and the kind \<open>k\<close>.\<close>

record TopoShape =
  isNull :: bool
  forward :: "MappedName \<rightharpoonup> IndexedName"
  reverse :: "IndexedName \<rightharpoonup> MappedName"
  subShapeCount :: "TopAbs_ShapeEnum \<Rightarrow> nat"
  subElements :: "TopAbs_ShapeEnum \<Rightarrow> int \<Rightarrow> TopAbs_ShapeEnum \<Rightarrow> int list"
  ancestors :: "TopAbs_ShapeEnum \<Rightarrow> int \<Rightarrow> TopAbs_ShapeEnum \<Rightarrow> int list"
  history :: "MappedName \<Rightarrow> int \<times> MappedName \<times> MappedName list"
  elementTypes :: "MappedName \<Rightarrow> char"
  traceSteps :: "MappedName \<Rightarrow> (MappedName \<times> int) list"
  comboParts :: "IndexedName \<Rightarrow> MappedName \<Rightarrow> MappedName list \<times> string"
  relatedCache :: "MappedName \<times> bool \<rightharpoonup> MappedElement list"

text \<open>The string constants and formatters of \<^verbatim>\<open>ComplexGeoData\<close> and
  \<^verbatim>\<open>TopoShape\<close> that the code uses; they are parameters of the model. \<open>NDEBUG\<close>
  says whether the file is compiled with the macro \<^verbatim>\<open>NDEBUG\<close>, which turns
  \<^verbatim>\<open>assert\<close> into nothing.\<close>

record Naming =
  indexPostfix :: string
  shapeName :: "TopAbs_ShapeEnum \<Rightarrow> string"
  elementNamePair :: "MappedElement \<Rightarrow> string \<times> string"
  indexedNameString :: "IndexedName \<Rightarrow> string"
  indexedNameOf :: "string \<Rightarrow> IndexedName"
  shapeTypeOfChar :: "char \<Rightarrow> TopAbs_ShapeEnum"
  shapeTypeOfName :: "string \<Rightarrow> TopAbs_ShapeEnum"
  noElementName :: "string \<Rightarrow> string"
  newElementName :: "string \<Rightarrow> string"
  isMappedElement :: "string \<Rightarrow> string option"
  findElementName :: "string \<Rightarrow> string"
  NDEBUG :: bool

text \<open>Document objects and documents are identities (the pointers of the code); a
  pointer that may be null is an \<open>option\<close>. The record holds what the code asks of
  the document graph and of the classes around it:
  \<^item> \<open>getLinkedObject o d\<close> is \<^verbatim>\<open>o->getLinkedObject(false,nullptr,false,d)\<close>, and
    \<open>getLinkedObjectRecursive o\<close> is \<^verbatim>\<open>o->getLinkedObject(true,&linkMat,false)\<close>, which
    may be null;
  \<^item> \<open>getNameInDocument o\<close> says whether \<^verbatim>\<open>o->getNameInDocument()\<close> is not null, that
    is, whether the object is attached to a document;
  \<^item> \<open>isPartFeature o\<close> says whether the object is a \<^verbatim>\<open>Part::Feature\<close>, whose
    \<^verbatim>\<open>getSubObject\<close> is the one of this file, and \<open>hasLinkExtension o\<close> whether it has
    the extension \<^verbatim>\<open>App::LinkBaseExtension\<close>;
  \<^item> \<open>withoutElement sub\<close> is the subname \<open>sub\<close> up to its element name,
    \<^verbatim>\<open>std::string(subname, Data::ComplexGeoData::findElementName(subname))\<close>, and
    \<open>isMappedElementName sub\<close> says whether
    \<^verbatim>\<open>Data::ComplexGeoData::isMappedElement(sub)\<close> is not null;
  \<^item> \<open>DocumentObject_getSubObject o sub\<close> is \<^verbatim>\<open>App::DocumentObject::getSubObject\<close>,
    and the \<^verbatim>\<open>getSubObject\<close> of an object that is no \<^verbatim>\<open>Part::Feature\<close>;
  \<^item> \<open>raisesStandardFailure o sub\<close> says whether the block under \<^verbatim>\<open>try\<close> of
    \<^verbatim>\<open>Feature::getSubObject\<close>, which takes the sub-shape and moves it with calls of
    the geometry kernel, raises \<^verbatim>\<open>Standard_Failure\<close>;
  \<^item> \<open>propertySubShape o sub\<close> is the sub-shape \<open>sub\<close> of the shape property of a
    \<^verbatim>\<open>Part::Feature\<close>, \<^verbatim>\<open>Shape.getShape()\<close> followed by
    \<^verbatim>\<open>getSubTopoShape(subname, true)\<close>;
  \<^item> \<open>cachedShape o sub\<close> is the shape after
    \<^verbatim>\<open>canCache(obj) && PropertyShapeCache::getShape(obj,shape,subname)\<close>: null when the
    object cannot be cached or the cache has no entry;
  \<^item> \<open>builtShape o sub e\<close> is the shape that the rest of \<^verbatim>\<open>_getTopoShape\<close> builds
    (from the Python object, a datum object, the linked object or the children) once the
    owner is known and the cache had no entry;
  \<^item> \<open>singleSubShape s\<close> is the shape after the last block of
    \<^verbatim>\<open>Feature::getTopoShape\<close>, which replaces a compound that has a single solid,
    comp-solid, face, shell, edge, wire or vertex by that sub-shape;
  \<^item> \<open>resolveLinkDefault\<close> is the default value of the parameter \<^verbatim>\<open>resolveLink\<close> of
    \<^verbatim>\<open>Feature::getTopoShape\<close>, which the header declares;
  \<^item> \<open>isLogEnabled\<close> is \<^verbatim>\<open>FC_LOG_INSTANCE.isEnabled(FC_LOGLEVEL_LOG)\<close>;
  \<^item> \<open>resolveElement\<close> is \<^verbatim>\<open>GeoFeature::resolveElement\<close> (the pair of the new and
    the old style name; the third argument is the fourth of the call, when the call has
    one), and \<open>searchSubShape\<close> is the geometric search of a shape for a sub-shape.\<close>

type_synonym DocumentObject = nat
type_synonym Document = nat

record Graph =
  getDocument :: "DocumentObject \<Rightarrow> Document"
  getID :: "DocumentObject \<Rightarrow> int"
  getLinkedObject :: "DocumentObject \<Rightarrow> nat \<Rightarrow> DocumentObject"
  getLinkedObjectRecursive :: "DocumentObject \<Rightarrow> DocumentObject option"
  isGeoFeature :: "DocumentObject \<Rightarrow> bool"
  getElementOwner :: "DocumentObject \<Rightarrow> MappedName \<Rightarrow> DocumentObject option"
  getObjectByID :: "Document \<Rightarrow> int \<Rightarrow> DocumentObject option"
  getNameInDocument :: "DocumentObject \<Rightarrow> bool"
  isPartFeature :: "DocumentObject \<Rightarrow> bool"
  hasLinkExtension :: "DocumentObject \<Rightarrow> bool"
  withoutElement :: "string \<Rightarrow> string"
  isMappedElementName :: "string \<Rightarrow> bool"
  DocumentObject_getSubObject :: "DocumentObject \<Rightarrow> string \<Rightarrow> DocumentObject option"
  raisesStandardFailure :: "DocumentObject \<Rightarrow> string \<Rightarrow> bool"
  propertySubShape :: "DocumentObject \<Rightarrow> string \<Rightarrow> TopoShape"
  cachedShape :: "DocumentObject \<Rightarrow> string \<Rightarrow> TopoShape"
  builtShape :: "DocumentObject \<Rightarrow> string \<Rightarrow> bool \<Rightarrow> TopoShape"
  singleSubShape :: "TopoShape \<Rightarrow> TopoShape"
  resolveLinkDefault :: bool
  isLogEnabled :: bool
  resolveElement :: "DocumentObject \<Rightarrow> string \<Rightarrow> bool option \<Rightarrow> string \<times> string"
  searchSubShape :: "TopoShape \<Rightarrow> TopoShape \<Rightarrow> string list"

datatype error = OutOfRange | AncestorNotFound | NullOwner

subsection \<open>Element map queries of TopoShape\<close>

text \<open>Modelled from the spec: \<^verbatim>\<open>TopoShape::getIndexedName\<close> is the lookup
  \<^verbatim>\<open>getIndexName(shape, durableName) -> indexName | not-found\<close> in the forward table,
  with the null index name for not-found.\<close>

definition getIndexedName :: "TopoShape \<Rightarrow> MappedName \<Rightarrow> IndexedName" where
  "getIndexedName sh n = (case forward sh n of None \<Rightarrow> IndexedName_null | Some i \<Rightarrow> i)"

text \<open>Modelled from the spec: \<^verbatim>\<open>TopoShape::getMappedName\<close> is the lookup in the reverse
  table, with the null name when the index name has no durable name.\<close>

definition getMappedName :: "TopoShape \<Rightarrow> IndexedName \<Rightarrow> MappedName" where
  "getMappedName sh i = (case reverse sh i of None \<Rightarrow> [] | Some n \<Rightarrow> n)"

text \<open>An element reference as \<^verbatim>\<open>getElementName\<close> receives it: an index name
  (\<^verbatim>\<open>Wire1\<close>), or a durable name, possibly followed by a dot and the index name the
  element had when the reference was stored (with the missing-element prefix, if any,
  already skipped).\<close>

datatype ElementRef =
    ByIndex IndexedName
  | ByName MappedName "IndexedName option"

text \<open>Modelled from the spec: \<^verbatim>\<open>TopoShape::getElementName\<close> pairs an index name with its
  durable name from the reverse table, and a durable name with its index name from the
  forward table.\<close>

fun getElementName :: "TopoShape \<Rightarrow> ElementRef \<Rightarrow> MappedElement" where
  "getElementName sh (ByIndex i) = \<lparr>name = getMappedName sh i, index = i\<rparr>"
| "getElementName sh (ByName n d) = \<lparr>name = n, index = getIndexedName sh n\<rparr>"

text \<open>\<^verbatim>\<open>strchr(name,'.')\<close> followed by \<^verbatim>\<open>++dot\<close>: the text after the first dot.\<close>

fun afterDot :: "ElementRef \<Rightarrow> IndexedName option" where
  "afterDot (ByIndex i) = None"
| "afterDot (ByName n d) = d"

text \<open>Modelled from the spec: \<^verbatim>\<open>TopoShape::shapeTypeAndIndex\<close> splits an index name into
  kind and ordinal; the ordinal is 0 when the index name is not valid.\<close>

definition shapeTypeAndIndex :: "IndexedName \<Rightarrow> TopAbs_ShapeEnum \<times> int" where
  "shapeTypeAndIndex i =
     (if getType i = TopAbs_SHAPE \<or> getIndex i \<le> 0 then (TopAbs_SHAPE, 0)
      else (getType i, getIndex i))"

text \<open>Modelled from the spec: an index name is a kind and an ordinal assigned by the
  kernel, and the ordinals of a kind run from 1 to the number of sub-shapes of that kind.
  \<^verbatim>\<open>getSubTopoShape(type, idx, true)\<close> and \<^verbatim>\<open>getSubShape(type, idx)\<close> are null
  when the shape has no sub-shape of that kind and ordinal.\<close>

definition subShapeIsNull :: "TopoShape \<Rightarrow> TopAbs_ShapeEnum \<Rightarrow> int \<Rightarrow> bool" where
  "subShapeIsNull sh k i = (isNull sh \<or> i < 1 \<or> int (subShapeCount sh k) < i)"

definition findAncestors :: "TopoShape \<Rightarrow> TopAbs_ShapeEnum \<times> int \<Rightarrow> TopAbs_ShapeEnum \<Rightarrow> int list" where
  "findAncestors sh s k = ancestors sh (fst s) (snd s) k"

text \<open>\<^verbatim>\<open>std::to_string\<close> on a position, which is never negative.\<close>

fun to_string :: "nat \<Rightarrow> string" where
  "to_string n =
     (if n < 10 then [''0123456789'' ! n]
      else to_string (n div 10) @ [''0123456789'' ! (n mod 10)])"

text \<open>Modelled from the spec: the combo name is the concatenation of the durable names
  with the operation code, followed by the disambiguation suffix.\<close>

definition comboName :: "MappedName list \<Rightarrow> string \<Rightarrow> string \<Rightarrow> MappedName" where
  "comboName names marker op = concat names @ marker @ op"

text \<open>Modelled from the spec: \<^verbatim>\<open>TopoShape::setElementComboName\<close> builds the combo
  name and stores it in both tables before returning it; without names it returns the
  null name.\<close>

definition setElementComboName ::
  "TopoShape \<Rightarrow> IndexedName \<Rightarrow> MappedName list \<Rightarrow> string \<Rightarrow> string \<Rightarrow> TopoShape \<times> MappedName" where
  "setElementComboName sh element names marker op =
     (if names = [] then (sh, [])
      else let n = comboName names marker op
           in (sh\<lparr>forward := (forward sh)(n \<mapsto> element),
                  reverse := (reverse sh)(element \<mapsto> n)\<rparr>, n))"

subsection \<open>Feature::getExportElementName\<close>

definition MinLowerTopoNames :: nat where
  "MinLowerTopoNames = 3"

definition MaxLowerTopoNames :: nat where
  "MaxLowerTopoNames = 10"

text \<open>The \<^verbatim>\<open>switch\<close> that picks the kind of the lower elements.\<close>

fun lowerKind :: "TopAbs_ShapeEnum \<Rightarrow> TopAbs_ShapeEnum" where
  "lowerKind TopAbs_WIRE = TopAbs_EDGE"
| "lowerKind TopAbs_SHELL = TopAbs_FACE"
| "lowerKind TopAbs_SOLID = TopAbs_FACE"
| "lowerKind TopAbs_COMPOUND = TopAbs_FACE"
| "lowerKind TopAbs_COMPSOLID = TopAbs_FACE"
| "lowerKind _ = TopAbs_SHAPE"

text \<open>\<^verbatim>\<open>NameEntry\<close> is \<^verbatim>\<open>std::pair<size_t, std::vector<int>>\<close>.\<close>

type_synonym NameEntry = "nat \<times> int list"

text \<open>The first loop, over \<^verbatim>\<open>subshape.getSubTopoShapes(lower)\<close>. The durable name
  of a lower element is the one it has in the element map of the shape. A lower element
  without a durable name is skipped. The entry pushed to \<^verbatim>\<open>indices\<close> holds
  \<^verbatim>\<open>name.size()\<close>, the length of the durable name just read, and the ancestors of the
  lower element. The loop leaves as soon as \<^verbatim>\<open>MinLowerTopoNames\<close> lower elements with
  exactly one ancestor have been seen.\<close>

fun collectLower ::
  "TopoShape \<Rightarrow> TopAbs_ShapeEnum \<Rightarrow> TopAbs_ShapeEnum \<Rightarrow> int list \<Rightarrow>
   NameEntry list \<Rightarrow> MappedName list \<Rightarrow> nat \<Rightarrow> NameEntry list \<times> MappedName list" where
  "collectLower sh kind lower [] indices names count = (indices, names)"
| "collectLower sh kind lower (ss # rest) indices names count =
     (let nm = getMappedName sh (fromConst lower ss) in
      if nm = [] then collectLower sh kind lower rest indices names count
      else
        let anc = findAncestors sh (lower, ss) kind;
            indices' = indices @ [(length nm, anc)];
            names' = names @ [nm]
        in if length anc = 1
           then (if MinLowerTopoNames \<le> count + 1 then (indices', names')
                 else collectLower sh kind lower rest indices' names' (count + 1))
           else collectLower sh kind lower rest indices' names' count)"

text \<open>The inner loop that erases from \<^verbatim>\<open>ancestors\<close> what is not in \<^verbatim>\<open>v.second\<close>:
  \<open>kept\<close> is the part before the iterator, the list argument the part from the iterator
  on. It leaves when an erasure brings the size down to one.\<close>

fun eraseMissing :: "int list \<Rightarrow> int list \<Rightarrow> int list \<Rightarrow> int list" where
  "eraseMissing cur kept [] = kept"
| "eraseMissing cur kept (a # rest) =
     (if a \<notin> set cur
      then (if length (kept @ rest) = 1 then kept @ rest else eraseMissing cur kept rest)
      else eraseMissing cur (kept @ [a]) rest)"

text \<open>The loop over the sorted \<^verbatim>\<open>indices\<close>. \<^verbatim>\<open>names[v.first]\<close> reads the vector
  at the stored name length; outside the vector the C++ behaviour is undefined, and the
  model stops with \<open>OutOfRange\<close>.\<close>

fun sortLoop ::
  "MappedName list \<Rightarrow> NameEntry list \<Rightarrow> int list \<Rightarrow> MappedName list \<Rightarrow> nat \<Rightarrow>
   error + (int list \<times> MappedName list)" where
  "sortLoop names [] anc srt pos = Inr (anc, srt)"
| "sortLoop names (v # vs) anc srt pos =
     (let sz = length anc;
          anc' = (if sz = 0 then snd v
                  else if 1 < sz then eraseMissing (snd v) [] anc
                  else anc);
          front = (sz = 1 \<or> sz \<noteq> length anc')
      in if length names \<le> fst v then Inl OutOfRange
         else
           let srt' = (if front then take pos srt @ [names ! fst v] @ drop pos srt
                          else srt @ [names ! fst v]);
               pos' = (if front then pos + 1 else pos)
           in if sz = 1 \<and> MinLowerTopoNames \<le> length srt' then Inr (anc', srt')
              else sortLoop names vs anc' srt' pos')"

text \<open>\<^verbatim>\<open>std::find\<close> on a vector: the position of the first occurrence.\<close>

fun find_pos :: "int list \<Rightarrow> int \<Rightarrow> nat option" where
  "find_pos [] x = None"
| "find_pos (a # as) x =
     (if a = x then Some 0 else map_option Suc (find_pos as x))"

text \<open>The names and the disambiguation postfix chosen for the higher element
  \<open>(kind, idx)\<close>: everything between the \<^verbatim>\<open>switch\<close> and the call of
  \<^verbatim>\<open>setElementComboName\<close>. \<^verbatim>\<open>std::stable_sort\<close> by the number of ancestors is
  \<open>sort_key\<close>, which is stable. The vector \<^verbatim>\<open>sorted\<close> is local to the block and not
  read afterwards. When the element is not among the ancestors left, \<^verbatim>\<open>assert(0)\<close>
  stops the program with the error \<open>AncestorNotFound\<close>; compiled with \<^verbatim>\<open>NDEBUG\<close>
  the assertion is nothing, and the code goes on with the empty postfix.\<close>

definition chooseLower ::
  "Naming \<Rightarrow> TopoShape \<Rightarrow> TopAbs_ShapeEnum \<Rightarrow> int \<Rightarrow> TopAbs_ShapeEnum \<Rightarrow>
   error + (MappedName list \<times> string)" where
  "chooseLower N sh kind idx lower =
     (let (indices, names) = collectLower sh kind lower (subElements sh kind idx lower) [] [] 0;
          res = (if MaxLowerTopoNames \<le> length names
                    then sortLoop names (sort_key (\<lambda>v. length (snd v)) indices) [] [] 0
                    else Inr ([], []))
      in case res of
           Inl e \<Rightarrow> Inl e
         | Inr (anc, _) \<Rightarrow>
             let names' = take (min (length names) MaxLowerTopoNames) names
             in if names' = [] then Inr ([], [])
                else if 1 < length anc
                then (case find_pos anc idx of
                        None \<Rightarrow> if NDEBUG N then Inr (names', []) else Inl AncestorNotFound
                      | Some p \<Rightarrow> Inr (names', indexPostfix N @ to_string p))
                else Inr (names', []))"

text \<open>Reading the disambiguation ordinal: \<^verbatim>\<open>std::istringstream iss(...); iss >> idx\<close>
  skips white space, takes an optional sign and the longest run of digits, and fails
  when there is no digit or the value does not fit an \<^verbatim>\<open>int\<close>.\<close>

definition isspace :: "char \<Rightarrow> bool" where
  "isspace c = (c \<in> set [CHR '' '', CHR 0x09, CHR 0x0A, CHR 0x0B, CHR 0x0C, CHR 0x0D])"

definition isdigit :: "char \<Rightarrow> bool" where
  "isdigit c = ((48::nat) \<le> of_char c \<and> of_char c \<le> (57::nat))"

definition digits_value :: "string \<Rightarrow> nat" where
  "digits_value ds = foldl (\<lambda>acc c. 10 * acc + (of_char c - (48::nat))) 0 ds"

definition read_int :: "string \<Rightarrow> int option" where
  "read_int s =
     (let t = dropWhile isspace s;
          neg = (t \<noteq> [] \<and> hd t = CHR ''-'');
          u = (if t \<noteq> [] \<and> (hd t = CHR ''-'' \<or> hd t = CHR ''+'') then tl t else t);
          ds = takeWhile isdigit u;
          v = (if neg then - int (digits_value ds) else int (digits_value ds))
      in if ds = [] then None
         else if v < - 2147483648 \<or> 2147483647 < v then None
         else Some v)"

text \<open>The loop of the decoding branch over the names encoded in a combo name.\<close>

fun decodeLoop :: "TopoShape \<Rightarrow> TopAbs_ShapeEnum \<Rightarrow> MappedName list \<Rightarrow> int list \<Rightarrow> int list" where
  "decodeLoop sh kind [] anc = anc"
| "decodeLoop sh kind (nm # rest) anc =
     (let idx = getIndexedName sh nm in
      if \<not> IndexedName_valid idx then []
      else
        let oidx = shapeTypeAndIndex idx in
        if subShapeIsNull sh (fst oidx) (snd oidx) then []
        else
          let current = findAncestors sh oidx kind in
          if anc = [] then decodeLoop sh kind rest current
          else
            let anc' = filter (\<lambda>a. a \<in> set current) anc
            in if anc' = [] then [] else decodeLoop sh kind rest anc')"

text \<open>\<^verbatim>\<open>boost::starts_with(s, p)\<close>.\<close>

definition starts_with :: "string \<Rightarrow> string \<Rightarrow> bool" where
  "starts_with s p = (take (length p) s = p)"

text \<open>The disambiguation ordinal of the postfix, read when several candidates are left.
  With an ordinal inside the vector the code calls
  \<^verbatim>\<open>ancestors.resize(1, ancestors[idx])\<close>. The vector has more than one element
  there, so \<^verbatim>\<open>std::vector::resize\<close> cuts it down to its first element; its second
  argument is the value of the elements appended when the vector grows, and none is
  appended.\<close>

definition applyOrdinal :: "Naming \<Rightarrow> string \<Rightarrow> int list \<Rightarrow> int list" where
  "applyOrdinal N postfix anc =
     (if 1 < length anc \<and> starts_with postfix (indexPostfix N)
      then (case read_int (drop (length (indexPostfix N)) postfix) of
              None \<Rightarrow> anc
            | Some i \<Rightarrow> if 0 \<le> i \<and> i < int (length anc) then take 1 anc else anc)
      else anc)"

text \<open>The body of \<^verbatim>\<open>Feature::getExportElementName\<close> up to its \<^verbatim>\<open>return\<close>: the
  shape, whose element map the call may have changed (the table is shared with the
  caller's shape), and the local \<^verbatim>\<open>mapped\<close>.\<close>

definition exportMappedElement ::
  "Naming \<Rightarrow> TopoShape \<Rightarrow> ElementRef \<Rightarrow> error + (TopoShape \<times> MappedElement)" where
  "exportMappedElement N shape nm =
     (let mapped = getElementName shape nm;
          res = shapeTypeAndIndex (index mapped)
      in if snd res \<noteq> 0 \<and> name mapped = [] then
           (if subShapeIsNull shape (fst res) (snd res) then Inr (shape, mapped)
            else
              let lower = lowerKind (fst res) in
              if lower = TopAbs_SHAPE then Inr (shape, mapped)
              else
                (case chooseLower N shape (fst res) (snd res) lower of
                   Inl e \<Rightarrow> Inl e
                 | Inr (names, op) \<Rightarrow>
                     if names = [] then Inr (shape, mapped)
                     else
                       let (shape', n) = setElementComboName shape (index mapped) names
                                           (shapeName N (getType (index mapped))) op
                       in Inr (shape', mapped\<lparr>name := n\<rparr>)))
         else if snd res = 0 \<and> name mapped \<noteq> [] then
           (case afterDot nm of
              None \<Rightarrow> Inr (shape, mapped)
            | Some dot \<Rightarrow>
                let occindex = shapeTypeAndIndex dot in
                if 0 < snd occindex then
                  let idxName = fromConst (fst occindex) (snd occindex);
                      (names, postfix) = comboParts shape idxName (name mapped);
                      anc = applyOrdinal N postfix (decodeLoop shape (fst occindex) names [])
                  in if length anc = 1
                     then Inr (shape, mapped\<lparr>index := idxName\<lparr>getIndex := hd anc\<rparr>\<rparr>)
                     else Inr (shape, mapped)
                else Inr (shape, mapped))
         else Inr (shape, mapped))"

text \<open>\<^verbatim>\<open>Feature::getExportElementName\<close>: the pair of names that
  \<^verbatim>\<open>App::GeoFeature::_getElementName\<close> builds from \<^verbatim>\<open>mapped\<close>.\<close>

definition getExportElementName ::
  "Naming \<Rightarrow> TopoShape \<Rightarrow> ElementRef \<Rightarrow> error + (TopoShape \<times> string \<times> string)" where
  "getExportElementName N shape nm =
     (case exportMappedElement N shape nm of
        Inl e \<Rightarrow> Inl e
      | Inr (shape', mapped) \<Rightarrow> Inr (shape', elementNamePair N mapped))"

subsection \<open>Feature::getElementName\<close>

datatype ElementNameType = Normal | Import | Export

text \<open>\<open>base\<close> is \<^verbatim>\<open>App::GeoFeature::getElementName\<close>; \<open>prop\<close> is the shape of the
  geometry property when \<^verbatim>\<open>freecad_dynamic_cast<PropertyPartShape>\<close> succeeds, and
  \<open>None\<close> when it returns null. The result carries the shape of the property after
  the call.\<close>

definition Feature_getElementName ::
  "Naming \<Rightarrow> (ElementRef \<Rightarrow> ElementNameType \<Rightarrow> string \<times> string) \<Rightarrow> TopoShape option \<Rightarrow>
   ElementRef \<Rightarrow> ElementNameType \<Rightarrow> error + (TopoShape option \<times> string \<times> string)" where
  "Feature_getElementName N base prop nm type =
     (if type \<noteq> Export then Inr (prop, base nm type)
      else case prop of
             None \<Rightarrow> Inr (prop, base nm type)
           | Some shape \<Rightarrow>
               (case getExportElementName N shape nm of
                  Inl e \<Rightarrow> Inl e
                | Inr (shape', r) \<Rightarrow> Inr (Some shape', r)))"

subsection \<open>Feature::getSubObject\<close>

text \<open>\<^verbatim>\<open>Feature::getSubObject(subname, pyObj, pmat, transform, depth)\<close>; \<open>pyObj\<close>
  says whether the pointer \<^verbatim>\<open>pyObj\<close> is not null. Leading dots are skipped. A
  subname that is not a mapped element name and has a dot names a child, and goes to
  \<^verbatim>\<open>App::DocumentObject::getSubObject\<close>. Without \<^verbatim>\<open>pyObj\<close> the feature itself is
  returned. With it the sub-shape is taken and moved under \<^verbatim>\<open>try\<close>; the handler of
  \<^verbatim>\<open>Standard_Failure\<close> writes to the log and returns null.\<close>

definition Feature_getSubObject ::
  "Graph \<Rightarrow> DocumentObject \<Rightarrow> string \<Rightarrow> bool \<Rightarrow> DocumentObject option" where
  "Feature_getSubObject G this subname pyObj =
     (let sub = dropWhile (\<lambda>c. c = CHR ''.'') subname in
      if \<not> isMappedElementName G sub \<and> CHR ''.'' \<in> set sub
      then DocumentObject_getSubObject G this sub
      else if \<not> pyObj then Some this
      else if raisesStandardFailure G this sub then None
      else Some this)"

text \<open>The virtual call \<^verbatim>\<open>obj->getSubObject(subname, pyObj, ...)\<close>.\<close>

definition getSubObject :: "Graph \<Rightarrow> DocumentObject \<Rightarrow> string \<Rightarrow> bool \<Rightarrow> DocumentObject option" where
  "getSubObject G ob subname pyObj =
     (if isPartFeature G ob then Feature_getSubObject G ob subname pyObj
      else DocumentObject_getSubObject G ob subname)"

subsection \<open>Feature::getTopoShape\<close>

text \<open>Modelled from the spec: \<^verbatim>\<open>TopoShape()\<close>, the shape that the constructor without
  arguments makes, is the null shape; a null shape has no sub-shape and no element, so
  that every query on it finds nothing.\<close>

definition TopoShape_null :: TopoShape where
  "TopoShape_null =
     \<lparr>isNull = True, forward = Map.empty, reverse = Map.empty,
      subShapeCount = (\<lambda>k. 0), subElements = (\<lambda>k i l. []), ancestors = (\<lambda>l j k. []),
      history = (\<lambda>n. (0, [], [])), elementTypes = (\<lambda>n. CHR 0x00), traceSteps = (\<lambda>n. []),
      comboParts = (\<lambda>i n. ([], [])), relatedCache = Map.empty\<rparr>"

text \<open>The strings that the loop of \<^verbatim>\<open>checkLinkVisibility\<close> hands to
  \<^verbatim>\<open>getSubObject\<close>: for every dot of \<open>sub\<close>, the text up to and including that dot.
  \<open>before\<close> is the text already passed.\<close>

fun dotPrefixes :: "string \<Rightarrow> string \<Rightarrow> string list" where
  "dotPrefixes before [] = []"
| "dotPrefixes before (c # cs) =
     (if c = CHR ''.'' then (before @ [c]) # dotPrefixes (before @ [c]) cs
      else dotPrefixes (before @ [c]) cs)"

text \<open>\<^verbatim>\<open>checkLinkVisibility\<close> as \<^verbatim>\<open>Feature::getTopoShape\<close> calls it, with
  \<^verbatim>\<open>check\<close> false, so that the test on the hidden subnames never returns. The call
  fails when the object is null or not attached to a document, and when a sub-object on
  the object path of the subname is null or not attached. The set \<^verbatim>\<open>hiddens\<close> and
  \<^verbatim>\<open>lastLink\<close>, which the call also computes, are read afterwards only to decide
  whether a shape may be cached.\<close>

definition checkLinkVisibility :: "Graph \<Rightarrow> DocumentObject option \<Rightarrow> string \<Rightarrow> bool" where
  "checkLinkVisibility G obj subname =
     (case obj of
        None \<Rightarrow> False
      | Some ob \<Rightarrow>
          if \<not> getNameInDocument G ob then False
          else if subname = [] then True
          else list_all (\<lambda>sub. case getSubObject G ob sub False of
                                 None \<Rightarrow> False
                               | Some sobj \<Rightarrow> getNameInDocument G sobj)
                 (dotPrefixes [] (withoutElement G subname)))"

text \<open>The static \<^verbatim>\<open>_getTopoShape\<close>: the shape and the value left in
  \<^verbatim>\<open>*powner\<close>, which holds \<open>powner\<close> before the call. For an object that is not
  null \<^verbatim>\<open>*powner\<close> is set to null first. The element name is cut off the subname
  when no sub-element is asked for. \<^verbatim>\<open>obj->getSubObject\<close> is called with a
  \<^verbatim>\<open>pyObj\<close> when the cache has given no shape, and when it returns null the function
  returns with \<^verbatim>\<open>*powner\<close> still null; only after that \<^verbatim>\<open>*powner\<close> is set to the
  owner, or to the object the owner links to. What follows in the function does not
  write \<^verbatim>\<open>*powner\<close> again.\<close>

definition underscore_getTopoShape ::
  "Graph \<Rightarrow> DocumentObject option \<Rightarrow> string \<Rightarrow> bool \<Rightarrow> DocumentObject option \<Rightarrow> bool \<Rightarrow>
   TopoShape \<times> DocumentObject option" where
  "underscore_getTopoShape G obj subname needSubElement powner resolveLink =
     (case obj of
        None \<Rightarrow> (TopoShape_null, powner)
      | Some ob \<Rightarrow>
          (let subname' = (if \<not> needSubElement then withoutElement G subname else subname);
               shape = cachedShape G ob subname'
           in case getSubObject G ob subname' (isNull shape) of
                None \<Rightarrow> (shape, None)
              | Some owner \<Rightarrow>
                  (let linked = (case getLinkedObjectRecursive G owner of
                                   None \<Rightarrow> owner
                                 | Some l \<Rightarrow> l);
                       powner' = Some (if resolveLink then linked else owner)
                   in if \<not> isNull shape then (shape, powner')
                      else (builtShape G ob subname' needSubElement, powner'))))"

text \<open>\<^verbatim>\<open>Feature::getTopoShape(obj, subname, needSubElement, pmat, powner, resolveLink)\<close>
  for a null \<^verbatim>\<open>pmat\<close>: the shape returned, and the value of the caller's variable
  that \<^verbatim>\<open>powner\<close> points to, which holds \<open>powner\<close> before the call. The first two
  returns leave that variable as it is. For a direct sub-shape of a \<^verbatim>\<open>Part::Feature\<close>
  (the subname is an element name and nothing else) the shape property is read, and
  \<^verbatim>\<open>_getTopoShape\<close> is called only when that gives the null shape. Placements are
  not part of a shape here, so the top level transformation has no effect.\<close>

definition Feature_getTopoShape ::
  "Graph \<Rightarrow> DocumentObject option \<Rightarrow> string \<Rightarrow> bool \<Rightarrow> DocumentObject option \<Rightarrow> bool \<Rightarrow>
   TopoShape \<times> DocumentObject option" where
  "Feature_getTopoShape G obj subname needSubElement powner resolveLink =
     (case obj of
        None \<Rightarrow> (TopoShape_null, powner)
      | Some ob \<Rightarrow>
          if \<not> getNameInDocument G ob then (TopoShape_null, powner)
          else if \<not> checkLinkVisibility G obj subname then (TopoShape_null, powner)
          else if needSubElement \<and> isPartFeature G ob \<and> \<not> hasLinkExtension G ob \<and>
                  subname \<noteq> [] \<and> withoutElement G subname = [] \<and>
                  \<not> isNull (propertySubShape G ob subname)
          then (propertySubShape G ob subname, Some ob)
          else
            (let r = underscore_getTopoShape G obj subname needSubElement powner resolveLink
             in (if needSubElement then singleSubShape G (fst r) else fst r, snd r)))"

text \<open>The calls of \<^verbatim>\<open>Feature::getTopoShape\<close> in this file.
  \<open>getTopoShape o\<close> is \<^verbatim>\<open>getTopoShape(o,0,false,0,&owner)\<close> with a variable
  \<^verbatim>\<open>owner\<close> that is null before the call, and the pair of the shape and that
  variable after the call; \<open>topoShape o sub\<close> is
  \<^verbatim>\<open>getTopoShape(o,sub,false,nullptr,nullptr,true,false)\<close>; \<open>topoShapeOwner o sub\<close> is
  \<^verbatim>\<open>getTopoShape(o,sub,false,nullptr,&owner)\<close>, again with a null \<^verbatim>\<open>owner\<close>
  before the call; \<open>subElementShape o sub\<close> is \<^verbatim>\<open>getTopoShape(o,sub,true)\<close>.\<close>

definition getTopoShape :: "Graph \<Rightarrow> DocumentObject \<Rightarrow> TopoShape \<times> DocumentObject option" where
  "getTopoShape G ob = Feature_getTopoShape G (Some ob) [] False None (resolveLinkDefault G)"

definition topoShape :: "Graph \<Rightarrow> DocumentObject \<Rightarrow> string \<Rightarrow> TopoShape" where
  "topoShape G ob sub = fst (Feature_getTopoShape G (Some ob) sub False None True)"

definition topoShapeOwner :: "Graph \<Rightarrow> DocumentObject \<Rightarrow> string \<Rightarrow> TopoShape \<times> DocumentObject option" where
  "topoShapeOwner G ob sub = Feature_getTopoShape G (Some ob) sub False None (resolveLinkDefault G)"

definition subElementShape :: "Graph \<Rightarrow> DocumentObject \<Rightarrow> string \<Rightarrow> TopoShape" where
  "subElementShape G ob sub =
     fst (Feature_getTopoShape G (Some ob) sub True None (resolveLinkDefault G))"

subsection \<open>getElementSource\<close>

text \<open>The loop \<^verbatim>\<open>for(;;++depth)\<close> that follows links from \<open>owner\<close> until an object
  links to itself or the document changes. The loop has no bound of its own; the first
  argument is fuel, and \<open>None\<close> means that the fuel ran out.\<close>

fun followLinks ::
  "nat \<Rightarrow> Graph \<Rightarrow> DocumentObject \<Rightarrow> Document \<Rightarrow> nat \<Rightarrow>
   (DocumentObject \<times> Document \<times> nat) option" where
  "followLinks 0 G owner doc depth = None"
| "followLinks (Suc n) G owner doc depth =
     (let linked = getLinkedObject G owner depth in
      if linked = owner then Some (owner, doc, depth)
      else if getDocument G linked \<noteq> doc then Some (linked, getDocument G linked, depth)
      else followLinks n G linked doc (depth + 1))"

definition elementType :: "TopoShape \<Rightarrow> MappedName \<Rightarrow> char" where
  "elementType sh n = elementTypes sh n"

text \<open>Modelled from the spec: \<^verbatim>\<open>shape.setShape(TopoDS_Shape())\<close> makes the shape null
  and resets its element map; the history of a name is still read from the name and the
  hasher.\<close>

definition setShapeNull :: "TopoShape \<Rightarrow> TopoShape" where
  "setShapeNull sh =
     sh\<lparr>isNull := True, forward := Map.empty, reverse := Map.empty,
        subShapeCount := (\<lambda>k. 0), relatedCache := Map.empty\<rparr>"

text \<open>The part of one round of \<^verbatim>\<open>while(1)\<close> under \<^verbatim>\<open>if(owner)\<close>: the object that has
  the tag, the document it was looked up in, the new depth, and whether the element type
  filter returns \<^verbatim>\<open>ret\<close> at once.\<close>

definition lookupTag ::
  "nat \<Rightarrow> Graph \<Rightarrow> char \<Rightarrow> DocumentObject option \<Rightarrow> TopoShape \<Rightarrow> MappedName \<Rightarrow> int \<Rightarrow>
   MappedName list \<Rightarrow> nat \<Rightarrow> (DocumentObject option \<times> Document option \<times> nat \<times> bool) option" where
  "lookupTag fuel G type owner shape nm tag hist depth =
     (case owner of
        None \<Rightarrow> Some (None, None, depth, False)
      | Some ow \<Rightarrow>
          (case followLinks fuel G ow (getDocument G ow) depth of
             None \<Rightarrow> None
           | Some (ow', doc, depth') \<Rightarrow>
               let doc' = (if isGeoFeature G ow'
                           then (case getElementOwner G ow' nm of
                                   Some eo \<Rightarrow> getDocument G eo
                                 | None \<Rightarrow> doc)
                           else doc);
                   obj = getObjectByID G doc' (if tag < 0 then - tag else tag)
               in Some (obj, Some doc', depth',
                        type \<noteq> CHR 0x00 \<and> list_ex (\<lambda>h. elementType shape h \<noteq> type) hist)))"

text \<open>\<^verbatim>\<open>getElementSource\<close>: the loop \<^verbatim>\<open>while(1)\<close> with fuel. The result is
  \<^verbatim>\<open>ret\<close> and whether the warning \<^verbatim>\<open>circular element mapping\<close> was raised; \<open>None\<close>
  means that the fuel ran out. \<open>tagSet\<close> is the \<^verbatim>\<open>std::set\<close> of document and tag
  pairs; a pair is inserted only when \<^verbatim>\<open>std::abs(tag) != ret.back().first\<close>. When a
  pair is found in the set the loop is left, and the warning is raised only if the log
  level is enabled.\<close>

fun getElementSource_loop ::
  "nat \<Rightarrow> Graph \<Rightarrow> char \<Rightarrow> DocumentObject option \<Rightarrow> TopoShape \<Rightarrow>
   (Document option \<times> int) set \<Rightarrow> (int \<times> MappedName) list \<Rightarrow> nat \<Rightarrow>
   ((int \<times> MappedName) list \<times> bool) option" where
  "getElementSource_loop 0 G type owner shape tagSet ret depth = None"
| "getElementSource_loop (Suc n) G type owner shape tagSet ret depth =
     (case history shape (snd (last ret)) of
        (tag, original, hist) \<Rightarrow>
          if tag = 0 then Some (ret, False)
          else
            (case lookupTag (Suc n) G type owner shape (snd (last ret)) tag hist depth of
               None \<Rightarrow> None
             | Some (obj, doc0, depth', stop) \<Rightarrow>
                 if stop then Some (ret, False)
                 else
                   let (shape', owner', doc) =
                         (case obj of
                            None \<Rightarrow> (setShapeNull shape, None, None)
                          | Some ob \<Rightarrow> (fst (getTopoShape G ob), snd (getTopoShape G ob), doc0))
                   in if type \<noteq> CHR 0x00 \<and> elementType shape' original \<noteq> type
                      then Some (ret, False)
                      else if \<bar>tag\<bar> \<noteq> fst (last ret) \<and> (doc, tag) \<in> tagSet
                      then Some (ret, isLogEnabled G)
                      else getElementSource_loop n G type owner' shape'
                             (if \<bar>tag\<bar> \<noteq> fst (last ret) then insert (doc, tag) tagSet else tagSet)
                             (ret @ [(tag, original)]) depth'))"

definition getElementSource ::
  "nat \<Rightarrow> Graph \<Rightarrow> DocumentObject option \<Rightarrow> TopoShape \<Rightarrow> MappedName \<Rightarrow> char \<Rightarrow>
   ((int \<times> MappedName) list \<times> bool) option" where
  "getElementSource fuel G owner shape nm type =
     getElementSource_loop fuel G type owner shape {} [(0, nm)] 0"

subsection \<open>Feature::getElementHistory\<close>

text \<open>\<^verbatim>\<open>Data::HistoryItem\<close>; the constructor sets the object and the element and leaves
  the index null, the intermediates empty and the tag 0.\<close>

record HistoryItem =
  hi_obj :: "DocumentObject option"
  hi_element :: MappedName
  hi_index :: IndexedName
  hi_intermediates :: "MappedName list"
  hi_tag :: int

definition HistoryItem_new :: "DocumentObject option \<Rightarrow> MappedName \<Rightarrow> HistoryItem" where
  "HistoryItem_new ob el =
     \<lparr>hi_obj = ob, hi_element = el, hi_index = IndexedName_null, hi_intermediates = [], hi_tag = 0\<rparr>"

text \<open>Modelled from the spec: \<^verbatim>\<open>getMappedName(idx, true)\<close> gives the durable name of the
  reverse table and, for an index name without one, the index name itself as a name.\<close>

definition getMappedNameOrIndex :: "Naming \<Rightarrow> TopoShape \<Rightarrow> IndexedName \<Rightarrow> MappedName" where
  "getMappedNameOrIndex N sh i =
     (case reverse sh i of None \<Rightarrow> indexedNameString N i | Some n \<Rightarrow> n)"

text \<open>The item that one round of the \<^verbatim>\<open>do\<close> loop appends for \<open>element\<close>: the index
  is looked up for the element and, failing that, for the previous element.\<close>

definition historyItem ::
  "TopoShape \<Rightarrow> DocumentObject \<Rightarrow> MappedName \<Rightarrow> MappedName \<Rightarrow> MappedName list \<Rightarrow> HistoryItem" where
  "historyItem shape feature element prevElement mids =
     (let it = (HistoryItem_new (Some feature) element)
                 \<lparr>hi_intermediates := mids, hi_index := getIndexedName shape element\<rparr>
      in if \<not> IndexedName_valid (hi_index it) \<and> prevElement \<noteq> []
         then (let it' = it\<lparr>hi_index := getIndexedName shape prevElement\<rparr>
               in if IndexedName_valid (hi_index it')
                  then it'\<lparr>hi_intermediates := element # mids, hi_element := prevElement\<rparr>
                  else it')
         else it)"

text \<open>The block under \<^verbatim>\<open>if (tag)\<close>: the object that has the tag, and the new depth.\<close>

definition tagObject ::
  "nat \<Rightarrow> Graph \<Rightarrow> DocumentObject \<Rightarrow> MappedName \<Rightarrow> int \<Rightarrow> nat \<Rightarrow>
   (DocumentObject option \<times> nat) option" where
  "tagObject fuel G feature element tag depth =
     (if tag \<noteq> 0
      then (case followLinks fuel G feature (getDocument G feature) depth of
              None \<Rightarrow> None
            | Some (feature', doc, depth') \<Rightarrow>
                let doc' = (if isGeoFeature G feature'
                            then (case getElementOwner G feature' element of
                                    Some owner \<Rightarrow> getDocument G owner
                                  | None \<Rightarrow> doc)
                            else doc)
                in Some (getObjectByID G doc' \<bar>tag\<bar>, depth'))
      else Some (None, depth))"

text \<open>The \<^verbatim>\<open>do ... while(feature)\<close> loop of \<^verbatim>\<open>Feature::getElementHistory\<close> with fuel;
  \<open>None\<close> means that the fuel ran out. \<open>feature\<close> is never null when the condition of
  the loop is read, so the loop is left only through \<^verbatim>\<open>return\<close> and \<^verbatim>\<open>break\<close>.\<close>

fun getElementHistory_loop ::
  "nat \<Rightarrow> Graph \<Rightarrow> bool \<Rightarrow> char \<Rightarrow> DocumentObject \<Rightarrow> TopoShape \<Rightarrow> MappedName \<Rightarrow>
   MappedName \<Rightarrow> HistoryItem list \<Rightarrow> nat \<Rightarrow> HistoryItem list option" where
  "getElementHistory_loop 0 G recursive element_type feature shape element prevElement ret depth = None"
| "getElementHistory_loop (Suc n) G recursive element_type feature shape element prevElement ret depth =
     (case history shape element of
        (tag, original, mids) \<Rightarrow>
          (let it = historyItem shape feature element prevElement mids;
               ret' = ret @ [it];
               prevElement' = (if hi_intermediates it \<noteq> [] then last (hi_intermediates it) else [])
           in (case tagObject (Suc n) G feature element tag depth of
                 None \<Rightarrow> None
               | Some (obj, depth') \<Rightarrow>
                   if \<not> recursive
                   then Some (ret' @ [(HistoryItem_new obj original)\<lparr>hi_tag := tag\<rparr>])
                   else
                     (case obj of
                        None \<Rightarrow> Some ret'
                      | Some ob \<Rightarrow>
                          if element_type \<noteq> CHR 0x00 \<and>
                             list_ex (\<lambda>h. elementType shape h \<noteq> element_type) (hi_intermediates it)
                          then Some ret'
                          else
                            (let shape' = fst (getTopoShape G ob) in
                             if element_type \<noteq> CHR 0x00 \<and> elementType shape' original \<noteq> element_type
                             then Some ret'
                             else getElementHistory_loop n G recursive element_type ob shape' original
                                    prevElement' ret' depth')))))"

text \<open>\<^verbatim>\<open>Feature::getElementHistory\<close> for a feature that is not null. An index name is
  turned into its durable name; a name is taken as it is.\<close>

definition getElementHistory ::
  "nat \<Rightarrow> Graph \<Rightarrow> Naming \<Rightarrow> DocumentObject \<Rightarrow> ElementRef \<Rightarrow> bool \<Rightarrow> bool \<Rightarrow>
   HistoryItem list option" where
  "getElementHistory fuel G N feature nm recursive sameType =
     (let shape = fst (getTopoShape G feature);
          element = (case nm of
                       ByIndex idx \<Rightarrow> getMappedNameOrIndex N shape idx
                     | ByName n d \<Rightarrow> n);
          element_type = (if sameType then elementType shape element else CHR 0x00)
      in getElementHistory_loop fuel G recursive element_type feature shape element [] [] 0)"

subsection \<open>Feature::getRelatedElements\<close>

text \<open>Modelled from the spec: results are cached per (element, sameType) pair inside
  the shape's element map. \<^verbatim>\<open>getRelatedElementsCached\<close> reads an entry.\<close>

definition getRelatedElementsCached ::
  "TopoShape \<Rightarrow> MappedName \<Rightarrow> bool \<Rightarrow> MappedElement list option" where
  "getRelatedElementsCached sh n sameType = relatedCache sh (n, sameType)"

text \<open>Modelled from the spec: \<^verbatim>\<open>cacheRelatedElements\<close> writes the entry of an
  (element, sameType) pair.\<close>

definition cacheRelatedElements ::
  "TopoShape \<Rightarrow> MappedName \<Rightarrow> bool \<Rightarrow> MappedElement list \<Rightarrow> TopoShape" where
  "cacheRelatedElements sh n sameType r = sh\<lparr>relatedCache := (relatedCache sh)((n, sameType) \<mapsto> r)\<rparr>"

definition countSubShapes :: "TopoShape \<Rightarrow> TopAbs_ShapeEnum \<Rightarrow> nat" where
  "countSubShapes sh k = subShapeCount sh k"

text \<open>The first loop over \<^verbatim>\<open>source\<close>: the first source name that has an index name in
  the shape.\<close>

fun firstIndexed :: "TopoShape \<Rightarrow> (int \<times> MappedName) list \<Rightarrow> MappedElement option" where
  "firstIndexed sh [] = None"
| "firstIndexed sh (src # rest) =
     (let srcIndex = getIndexedName sh (snd src) in
      if IndexedName_valid srcIndex then Some \<lparr>name = snd src, index = srcIndex\<rparr>
      else firstIndexed sh rest)"

text \<open>The comparison of the two chains from their ends: \<open>rsrc\<close> is \<^verbatim>\<open>src\<close> read
  through its reverse iterator, \<open>idx\<close> runs down from the last position of
  \<^verbatim>\<open>source\<close>.\<close>

fun compareChains :: "(int \<times> MappedName) list \<Rightarrow> (int \<times> MappedName) list \<Rightarrow> int \<Rightarrow> int" where
  "compareChains source [] idx = idx"
| "compareChains source (r # rs) idx =
     (if 0 \<le> idx
      then (if snd r \<noteq> snd (source ! nat idx) then idx + 1
            else compareChains source rs (idx - 1))
      else idx)"

text \<open>\<^verbatim>\<open>std::map<int,QVector<Data::MappedElement>>\<close> as an association list:
  \<^verbatim>\<open>retMap[idx].push_back(related)\<close> and the vector at \<^verbatim>\<open>retMap.begin()\<close>, which has
  the least key.\<close>

fun retMap_push :: "(int \<times> MappedElement list) list \<Rightarrow> int \<Rightarrow> MappedElement \<Rightarrow> (int \<times> MappedElement list) list" where
  "retMap_push [] k x = [(k, [x])]"
| "retMap_push ((k', v) # rest) k x =
     (if k' = k then (k', v @ [x]) # rest else (k', v) # retMap_push rest k x)"

fun retMap_begin :: "(int \<times> MappedElement list) list \<Rightarrow> (int \<times> MappedElement list) option" where
  "retMap_begin [] = None"
| "retMap_begin (e # rest) =
     (case retMap_begin rest of
        None \<Rightarrow> Some e
      | Some e' \<Rightarrow> if fst e' < fst e then Some e' else Some e)"

text \<open>The scan over every element of the same kind, which fills \<^verbatim>\<open>retMap\<close>.\<close>

fun scanRelated ::
  "nat \<Rightarrow> Graph \<Rightarrow> DocumentObject option \<Rightarrow> TopoShape \<Rightarrow> TopAbs_ShapeEnum \<Rightarrow> char \<Rightarrow>
   (int \<times> MappedName) list \<Rightarrow> nat list \<Rightarrow> (int \<times> MappedElement list) list \<Rightarrow>
   (int \<times> MappedElement list) list option" where
  "scanRelated fuel G owner shape type et source [] retMap = Some retMap"
| "scanRelated fuel G owner shape type et source (i # rest) retMap =
     (let related_index = fromConst type (int i);
          related_name = getMappedName shape related_index
      in if related_name = [] then scanRelated fuel G owner shape type et source rest retMap
         else
           (case getElementSource fuel G owner shape related_name et of
              None \<Rightarrow> None
            | Some (src, w) \<Rightarrow>
                let idx = compareChains source (rev src) (int (length source) - 1)
                in scanRelated fuel G owner shape type et source rest
                     (if idx < int (length source)
                      then retMap_push retMap idx \<lparr>name = related_name, index = related_index\<rparr>
                      else retMap)))"

text \<open>\<^verbatim>\<open>Feature::getRelatedElements\<close> for an object that is not null. The result is the
  shape with its cache as the call leaves it, and the list returned; \<open>None\<close> means that
  a call of \<^verbatim>\<open>getElementSource\<close> ran out of fuel. The variable \<^verbatim>\<open>owner\<close> holds
  \<^verbatim>\<open>obj\<close> before the call of \<^verbatim>\<open>getTopoShape\<close>.\<close>

definition getRelatedElements ::
  "nat \<Rightarrow> Graph \<Rightarrow> Naming \<Rightarrow> DocumentObject \<Rightarrow> ElementRef \<Rightarrow> bool \<Rightarrow> bool \<Rightarrow>
   (TopoShape \<times> MappedElement list) option" where
  "getRelatedElements fuel G N obj nm sameType withCache =
     (let shape = fst (getTopoShape G obj);
          owner = snd (Feature_getTopoShape G (Some obj) [] False (Some obj) (resolveLinkDefault G));
          mapped = getElementName shape nm
      in if name mapped = [] then Some (shape, [])
         else
           (case (if withCache then getRelatedElementsCached shape (name mapped) sameType
                  else None) of
              Some cached \<Rightarrow> Some (shape, cached)
            | None \<Rightarrow>
                (let element_type = elementType shape (name mapped);
                     type = shapeTypeOfChar N element_type;
                     et = (if sameType then element_type else CHR 0x00)
                 in if type = TopAbs_SHAPE then Some (shape, [])
                    else
                      (case getElementSource fuel G owner shape (name mapped) et of
                         None \<Rightarrow> None
                       | Some (source, w) \<Rightarrow>
                           (case firstIndexed shape source of
                              Some e \<Rightarrow>
                                Some (cacheRelatedElements shape (name mapped) sameType [e], [e])
                            | None \<Rightarrow>
                                (case scanRelated fuel G owner shape type et source
                                        [1 ..< Suc (countSubShapes shape type)] [] of
                                   None \<Rightarrow> None
                                 | Some retMap \<Rightarrow>
                                     (let ret = (case retMap_begin retMap of
                                                   None \<Rightarrow> []
                                                 | Some e \<Rightarrow> snd e)
                                      in Some (cacheRelatedElements shape (name mapped) sameType ret,
                                               ret))))))))"

subsection \<open>Feature::getElementFromSource\<close>

text \<open>The calls of the shape that the function makes, in order: the trace of the
  shortcut, the geometric search, and the traces of the scan over every element of a
  kind.\<close>

datatype Call = ShortcutTrace MappedName | GeometricSearch | ScanTrace IndexedName

text \<open>The lambda \<^verbatim>\<open>checkHistory\<close>. Its captured state is \<^verbatim>\<open>tagChanges\<close> and
  \<^verbatim>\<open>res\<close>; the result says whether the trace stops. \<^verbatim>\<open>owner->getID()\<close> on a null
  owner is the error \<open>NullOwner\<close>.\<close>

definition checkHistory ::
  "Graph \<Rightarrow> Naming \<Rightarrow> DocumentObject \<Rightarrow> DocumentObject option \<Rightarrow> string \<Rightarrow> MappedElement \<Rightarrow>
   IndexedName \<Rightarrow> int \<times> MappedElement list \<Rightarrow> MappedName \<times> int \<Rightarrow>
   error + (bool \<times> int \<times> MappedElement list)" where
  "checkHistory G N obj owner sub element checkingSubname st step =
     (case owner of
        None \<Rightarrow> Inl NullOwner
      | Some ow \<Rightarrow>
          (let tagChanges = fst st; res = snd st; nm = fst step; tag = snd step in
           if \<bar>tag\<bar> \<noteq> getID G ow \<and> tagChanges \<noteq> 0 \<and> 3 < tagChanges + 1
           then Inr (True, tagChanges + 1, res)
           else
             (let tagChanges' = (if \<bar>tag\<bar> = getID G ow
                                 then (if tagChanges = 0 then 1 else tagChanges)
                                 else (if tagChanges \<noteq> 0 then tagChanges + 1 else tagChanges))
              in if nm = name element
                 then (let objElement = resolveElement G obj (sub @ indexedNameString N checkingSubname) None
                       in if snd objElement \<noteq> []
                          then Inr (True, tagChanges',
                                    res @ [\<lparr>name = fst objElement, index = indexedNameOf N (snd objElement)\<rparr>])
                          else Inr (False, tagChanges', res))
                 else Inr (False, tagChanges', res))))"

text \<open>\<^verbatim>\<open>shape.traceElement(mapped, checkHistory)\<close>: the steps of the history of
  \<^verbatim>\<open>mapped\<close> are handed to the callback one after the other until it returns true.
  The result is the state of the callback and the number of times it was called.\<close>

fun traceElement ::
  "('s \<Rightarrow> MappedName \<times> int \<Rightarrow> error + (bool \<times> 's)) \<Rightarrow> 's \<Rightarrow> (MappedName \<times> int) list \<Rightarrow>
   error + ('s \<times> nat)" where
  "traceElement cb st [] = Inr (st, 0)"
| "traceElement cb st (step # rest) =
     (case cb st step of
        Inl e \<Rightarrow> Inl e
      | Inr (stop, st') \<Rightarrow>
          if stop then Inr (st', 1)
          else (case traceElement cb st' rest of
                  Inl e \<Rightarrow> Inl e
                | Inr (st'', k) \<Rightarrow> Inr (st'', Suc k)))"

text \<open>The element of the source: the index name and the durable name read from the
  resolved names of \<^verbatim>\<open>src\<close> and \<^verbatim>\<open>srcSub\<close>.\<close>

definition sourceElement :: "Graph \<Rightarrow> Naming \<Rightarrow> DocumentObject \<Rightarrow> string \<Rightarrow> MappedElement" where
  "sourceElement G N src srcSub =
     (let objElement = resolveElement G src srcSub (Some False) in
      \<lparr>name = (if fst objElement \<noteq> []
               then (case isMappedElement N (newElementName N (fst objElement)) of
                       Some mapped \<Rightarrow> mapped
                     | None \<Rightarrow> [])
               else []),
       index = indexedNameOf N (snd objElement)\<rparr>)"

text \<open>The kind of the source element, from its old style name after the translation of
  the datum names.\<close>

definition sourceType :: "Graph \<Rightarrow> Naming \<Rightarrow> DocumentObject \<Rightarrow> string \<Rightarrow> TopAbs_ShapeEnum" where
  "sourceType G N src srcSub =
     (let second = snd (resolveElement G src srcSub (Some False));
          second' = (if second = ''Plane'' then ''Face1''
                     else if second = ''Line'' then ''Edge1''
                     else if second = ''Point'' then ''Vertex1''
                     else second)
      in shapeTypeOfName N (findElementName N second'))"

text \<open>The condition of the shortcut.\<close>

definition shortcutApplies :: "Graph \<Rightarrow> Naming \<Rightarrow> DocumentObject \<Rightarrow> string \<Rightarrow> DocumentObject \<Rightarrow> string \<Rightarrow> bool" where
  "shortcutApplies G N obj subname src srcSub =
     (let type = sourceType G N src srcSub in
      type \<noteq> TopAbs_SHAPE \<and> name (sourceElement G N src srcSub) \<noteq> [] \<and>
      countSubShapes (topoShape G obj subname) type =
        countSubShapes (fst (topoShapeOwner G src srcSub)) type)"

text \<open>One trace with \<^verbatim>\<open>checkHistory\<close>, after \<^verbatim>\<open>tagChanges = 0\<close>, for the element
  \<open>checkingSubname\<close> of the target shape.\<close>

definition traceFrom ::
  "Graph \<Rightarrow> Naming \<Rightarrow> DocumentObject \<Rightarrow> string \<Rightarrow> DocumentObject \<Rightarrow> string \<Rightarrow> IndexedName \<Rightarrow>
   MappedElement list \<Rightarrow> error + ((int \<times> MappedElement list) \<times> nat)" where
  "traceFrom G N obj subname src srcSub checkingSubname res =
     (let shape = topoShape G obj subname
      in traceElement
           (checkHistory G N obj (snd (topoShapeOwner G src srcSub)) (noElementName N subname)
              (sourceElement G N src srcSub) checkingSubname)
           (0, res)
           (traceSteps shape (getMappedName shape checkingSubname)))"

text \<open>The last loop, over every element of the kind of the source element.\<close>

fun scanElements ::
  "Graph \<Rightarrow> Naming \<Rightarrow> DocumentObject \<Rightarrow> string \<Rightarrow> DocumentObject \<Rightarrow> string \<Rightarrow> bool \<Rightarrow>
   TopAbs_ShapeEnum \<Rightarrow> nat list \<Rightarrow> MappedElement list \<Rightarrow> Call list \<Rightarrow>
   error + (MappedElement list \<times> Call list)" where
  "scanElements G N obj subname src srcSub single type [] res calls = Inr (res, calls)"
| "scanElements G N obj subname src srcSub single type (i # rest) res calls =
     (let checkingSubname = fromConst type (int i + 1) in
      case traceFrom G N obj subname src srcSub checkingSubname res of
        Inl e \<Rightarrow> Inl e
      | Inr ((tc, res'), k) \<Rightarrow>
          if single \<and> res' \<noteq> [] then Inr (res', calls @ [ScanTrace checkingSubname])
          else scanElements G N obj subname src srcSub single type rest res'
                 (calls @ [ScanTrace checkingSubname]))"

text \<open>The elements returned for the names that the geometric search has found.\<close>

definition searchResults :: "Naming \<Rightarrow> TopoShape \<Rightarrow> bool \<Rightarrow> string list \<Rightarrow> MappedElement list" where
  "searchResults N shape single names =
     map (\<lambda>n. \<lparr>name = getMappedNameOrIndex N shape (indexedNameOf N n), index = indexedNameOf N n\<rparr>)
         (if single then take 1 names else names)"

text \<open>Everything after the shortcut: the geometric search and, when it finds nothing and
  the source element has a durable name and a kind, the scan. \<^verbatim>\<open>res\<close> is empty
  here.\<close>

definition searchAndScan ::
  "Graph \<Rightarrow> Naming \<Rightarrow> DocumentObject \<Rightarrow> string \<Rightarrow> DocumentObject \<Rightarrow> string \<Rightarrow> bool \<Rightarrow>
   Call list \<Rightarrow> error + (MappedElement list \<times> Call list)" where
  "searchAndScan G N obj subname src srcSub single calls =
     (let shape = topoShape G obj subname;
          type = sourceType G N src srcSub;
          names = searchSubShape G shape (subElementShape G src srcSub)
      in if names \<noteq> [] then Inr (searchResults N shape single names, calls @ [GeometricSearch])
         else if name (sourceElement G N src srcSub) = [] \<or> type = TopAbs_SHAPE
         then Inr ([], calls @ [GeometricSearch])
         else scanElements G N obj subname src srcSub single type
                [0 ..< countSubShapes shape type] [] (calls @ [GeometricSearch]))"

text \<open>\<^verbatim>\<open>Feature::getElementFromSource\<close>: the list returned, and the calls made.\<close>

definition getElementFromSource ::
  "Graph \<Rightarrow> Naming \<Rightarrow> DocumentObject option \<Rightarrow> string \<Rightarrow> DocumentObject option \<Rightarrow> string \<Rightarrow>
   bool \<Rightarrow> error + (MappedElement list \<times> Call list)" where
  "getElementFromSource G N obj subname src srcSub single =
     (case (obj, src) of
        (Some ob, Some sr) \<Rightarrow>
          if shortcutApplies G N ob subname sr srcSub
          then
            (let checkingSubname = index (sourceElement G N sr srcSub);
                 mapped = getMappedName (topoShape G ob subname) checkingSubname
             in case traceFrom G N ob subname sr srcSub checkingSubname [] of
                  Inl e \<Rightarrow> Inl e
                | Inr ((tc, res), k) \<Rightarrow>
                    if res \<noteq> [] then Inr (res, [ShortcutTrace mapped])
                    else searchAndScan G N ob subname sr srcSub single [ShortcutTrace mapped])
          else searchAndScan G N ob subname sr srcSub single []
      | _ \<Rightarrow> Inr ([], []))"

subsection \<open>Names used to state the properties\<close>

text \<open>The lower elements \<open>xs\<close> that have a durable name, in the order of \<open>xs\<close>, each
  with its durable name and its ancestors of the kind \<open>kind\<close>.\<close>

definition lowerEntries ::
  "TopoShape \<Rightarrow> TopAbs_ShapeEnum \<Rightarrow> TopAbs_ShapeEnum \<Rightarrow> int list \<Rightarrow> (MappedName \<times> int list) list" where
  "lowerEntries sh kind lower xs =
     filter (\<lambda>e. fst e \<noteq> [])
       (map (\<lambda>ss. (getMappedName sh (fromConst lower ss), findAncestors sh (lower, ss) kind)) xs)"

text \<open>The number of places in a list of tags where the tag differs from the one before
  it.\<close>

fun tagChangeCount :: "int list \<Rightarrow> nat" where
  "tagChangeCount (a # b # rest) = (if a \<noteq> b then 1 else 0) + tagChangeCount (b # rest)"
| "tagChangeCount _ = 0"

subsection \<open>Example shapes and documents\<close>

fun kindName :: "TopAbs_ShapeEnum \<Rightarrow> string" where
  "kindName TopAbs_COMPOUND = ''Compound''"
| "kindName TopAbs_COMPSOLID = ''CompSolid''"
| "kindName TopAbs_SOLID = ''Solid''"
| "kindName TopAbs_SHELL = ''Shell''"
| "kindName TopAbs_FACE = ''Face''"
| "kindName TopAbs_WIRE = ''Wire''"
| "kindName TopAbs_EDGE = ''Edge''"
| "kindName TopAbs_VERTEX = ''Vertex''"
| "kindName TopAbs_SHAPE = []"

definition exampleNaming :: Naming where
  "exampleNaming =
     \<lparr>indexPostfix = '';:I'',
      shapeName = kindName,
      elementNamePair =
        (\<lambda>m. (name m, kindName (getType (index m)) @ to_string (nat (getIndex (index m))))),
      indexedNameString = (\<lambda>i. kindName (getType i) @ to_string (nat (getIndex i))),
      indexedNameOf = (\<lambda>s. if s = ''Face1'' then fromConst TopAbs_FACE 1
                            else if s = ''Face2'' then fromConst TopAbs_FACE 2
                            else if s = ''Edge1'' then fromConst TopAbs_EDGE 1
                            else IndexedName_null),
      shapeTypeOfChar = (\<lambda>c. if c = CHR ''F'' then TopAbs_FACE
                              else if c = CHR ''E'' then TopAbs_EDGE
                              else TopAbs_SHAPE),
      shapeTypeOfName = (\<lambda>s. if take 4 s = ''Face'' then TopAbs_FACE
                              else if take 4 s = ''Edge'' then TopAbs_EDGE
                              else TopAbs_SHAPE),
      noElementName = (\<lambda>s. s),
      newElementName = (\<lambda>s. s),
      isMappedElement = (\<lambda>s. if s = [] then None else Some s),
      findElementName = (\<lambda>s. s),
      NDEBUG = True\<rparr>"

definition emptyShape :: TopoShape where
  "emptyShape =
     \<lparr>isNull = False, forward = Map.empty, reverse = Map.empty,
      subShapeCount = (\<lambda>k. 0), subElements = (\<lambda>k i l. []), ancestors = (\<lambda>l j k. []),
      history = (\<lambda>n. (0, [], [])), elementTypes = (\<lambda>n. CHR 0x00), traceSteps = (\<lambda>n. []),
      comboParts = (\<lambda>i n. ([], [])), relatedCache = Map.empty\<rparr>"

text \<open>The wire of a circle: one wire made of one edge, and the edge has the name E.\<close>

definition circleShape :: TopoShape where
  "circleShape =
     emptyShape
       \<lparr>forward := [''E'' \<mapsto> fromConst TopAbs_EDGE 1],
        reverse := [fromConst TopAbs_EDGE 1 \<mapsto> ''E''],
        subShapeCount := (\<lambda>k. if k = TopAbs_WIRE \<or> k = TopAbs_EDGE then 1 else 0),
        subElements := (\<lambda>k i l. if k = TopAbs_WIRE \<and> i = 1 \<and> l = TopAbs_EDGE then [1] else []),
        ancestors := (\<lambda>l j k. if l = TopAbs_EDGE \<and> j = 1 \<and> k = TopAbs_WIRE then [1] else [])\<rparr>"

text \<open>The wire of a square: one wire made of four edges, named e1 to e4, each of which
  belongs to that wire alone.\<close>

definition squareShape :: TopoShape where
  "squareShape =
     emptyShape
       \<lparr>forward := [''e1'' \<mapsto> fromConst TopAbs_EDGE 1, ''e2'' \<mapsto> fromConst TopAbs_EDGE 2,
                    ''e3'' \<mapsto> fromConst TopAbs_EDGE 3, ''e4'' \<mapsto> fromConst TopAbs_EDGE 4],
        reverse := [fromConst TopAbs_EDGE 1 \<mapsto> ''e1'', fromConst TopAbs_EDGE 2 \<mapsto> ''e2'',
                    fromConst TopAbs_EDGE 3 \<mapsto> ''e3'', fromConst TopAbs_EDGE 4 \<mapsto> ''e4''],
        subShapeCount := (\<lambda>k. if k = TopAbs_WIRE then 1 else if k = TopAbs_EDGE then 4 else 0),
        subElements := (\<lambda>k i l. if k = TopAbs_WIRE \<and> i = 1 \<and> l = TopAbs_EDGE
                               then [1, 2, 3, 4] else []),
        ancestors := (\<lambda>l j k. if l = TopAbs_EDGE \<and> 1 \<le> j \<and> j \<le> 4 \<and> k = TopAbs_WIRE
                              then [1] else [])\<rparr>"

text \<open>A compound in a compound: Compound1 holds Compound2, which holds the one face,
  named F. Both compounds are ancestors of the face.\<close>

definition nestedShape :: TopoShape where
  "nestedShape =
     emptyShape
       \<lparr>forward := [''F'' \<mapsto> fromConst TopAbs_FACE 1],
        reverse := [fromConst TopAbs_FACE 1 \<mapsto> ''F''],
        subShapeCount := (\<lambda>k. if k = TopAbs_COMPOUND then 2 else if k = TopAbs_FACE then 1 else 0),
        subElements := (\<lambda>k i l. if k = TopAbs_COMPOUND \<and> (i = 1 \<or> i = 2) \<and> l = TopAbs_FACE
                               then [1] else []),
        ancestors := (\<lambda>l j k. if l = TopAbs_FACE \<and> j = 1 \<and> k = TopAbs_COMPOUND
                              then [1, 2] else [])\<rparr>"

text \<open>Two compounds with the same ten faces, named a to j: Compound1 holds Compound2,
  which holds the faces, so every face has both compounds as ancestors. The combo name
  \<^verbatim>\<open>abcdefghijCompound;:I1\<close> is not in the element map; it encodes the ten face names
  and the postfix \<^verbatim>\<open>;:I1\<close>.\<close>

definition tenFaceShape :: TopoShape where
  "tenFaceShape =
     emptyShape
       \<lparr>forward := [''a'' \<mapsto> fromConst TopAbs_FACE 1, ''b'' \<mapsto> fromConst TopAbs_FACE 2,
                    ''c'' \<mapsto> fromConst TopAbs_FACE 3, ''d'' \<mapsto> fromConst TopAbs_FACE 4,
                    ''e'' \<mapsto> fromConst TopAbs_FACE 5, ''f'' \<mapsto> fromConst TopAbs_FACE 6,
                    ''g'' \<mapsto> fromConst TopAbs_FACE 7, ''h'' \<mapsto> fromConst TopAbs_FACE 8,
                    ''i'' \<mapsto> fromConst TopAbs_FACE 9, ''j'' \<mapsto> fromConst TopAbs_FACE 10],
        reverse := [fromConst TopAbs_FACE 1 \<mapsto> ''a'', fromConst TopAbs_FACE 2 \<mapsto> ''b'',
                    fromConst TopAbs_FACE 3 \<mapsto> ''c'', fromConst TopAbs_FACE 4 \<mapsto> ''d'',
                    fromConst TopAbs_FACE 5 \<mapsto> ''e'', fromConst TopAbs_FACE 6 \<mapsto> ''f'',
                    fromConst TopAbs_FACE 7 \<mapsto> ''g'', fromConst TopAbs_FACE 8 \<mapsto> ''h'',
                    fromConst TopAbs_FACE 9 \<mapsto> ''i'', fromConst TopAbs_FACE 10 \<mapsto> ''j''],
        subShapeCount := (\<lambda>k. if k = TopAbs_COMPOUND then 2 else if k = TopAbs_FACE then 10 else 0),
        subElements := (\<lambda>k i l. if k = TopAbs_COMPOUND \<and> (i = 1 \<or> i = 2) \<and> l = TopAbs_FACE
                               then [1, 2, 3, 4, 5, 6, 7, 8, 9, 10] else []),
        ancestors := (\<lambda>l j k. if l = TopAbs_FACE \<and> 1 \<le> j \<and> j \<le> 10 \<and> k = TopAbs_COMPOUND
                              then [1, 2] else []),
        comboParts := (\<lambda>i n. if n = ''abcdefghijCompound;:I1''
                              then ([''a'', ''b'', ''c'', ''d'', ''e'', ''f'', ''g'', ''h'', ''i'', ''j''],
                                    '';:I1'')
                              else ([], []))\<rparr>"

text \<open>The two compounds with ten faces again, the faces now with names of twelve
  bytes.\<close>

definition longNameShape :: TopoShape where
  "longNameShape =
     tenFaceShape
       \<lparr>forward := [''face-name-01'' \<mapsto> fromConst TopAbs_FACE 1,
                    ''face-name-02'' \<mapsto> fromConst TopAbs_FACE 2,
                    ''face-name-03'' \<mapsto> fromConst TopAbs_FACE 3,
                    ''face-name-04'' \<mapsto> fromConst TopAbs_FACE 4,
                    ''face-name-05'' \<mapsto> fromConst TopAbs_FACE 5,
                    ''face-name-06'' \<mapsto> fromConst TopAbs_FACE 6,
                    ''face-name-07'' \<mapsto> fromConst TopAbs_FACE 7,
                    ''face-name-08'' \<mapsto> fromConst TopAbs_FACE 8,
                    ''face-name-09'' \<mapsto> fromConst TopAbs_FACE 9,
                    ''face-name-10'' \<mapsto> fromConst TopAbs_FACE 10],
        reverse := [fromConst TopAbs_FACE 1 \<mapsto> ''face-name-01'',
                    fromConst TopAbs_FACE 2 \<mapsto> ''face-name-02'',
                    fromConst TopAbs_FACE 3 \<mapsto> ''face-name-03'',
                    fromConst TopAbs_FACE 4 \<mapsto> ''face-name-04'',
                    fromConst TopAbs_FACE 5 \<mapsto> ''face-name-05'',
                    fromConst TopAbs_FACE 6 \<mapsto> ''face-name-06'',
                    fromConst TopAbs_FACE 7 \<mapsto> ''face-name-07'',
                    fromConst TopAbs_FACE 8 \<mapsto> ''face-name-08'',
                    fromConst TopAbs_FACE 9 \<mapsto> ''face-name-09'',
                    fromConst TopAbs_FACE 10 \<mapsto> ''face-name-10''],
        comboParts := (\<lambda>i n. ([], []))\<rparr>"

text \<open>A shape after a change of the model: the combo name \<^verbatim>\<open>abWire\<close> of a wire made
  of the edges a and b is no longer in the element map. Edge1, named a, is now a free
  edge that belongs to no wire; Edge2, named b, belongs to Wire2; Wire1 has no named
  edge.\<close>

definition changedShape :: TopoShape where
  "changedShape =
     emptyShape
       \<lparr>forward := [''a'' \<mapsto> fromConst TopAbs_EDGE 1, ''b'' \<mapsto> fromConst TopAbs_EDGE 2],
        reverse := [fromConst TopAbs_EDGE 1 \<mapsto> ''a'', fromConst TopAbs_EDGE 2 \<mapsto> ''b''],
        subShapeCount := (\<lambda>k. if k = TopAbs_EDGE \<or> k = TopAbs_WIRE then 2 else 0),
        subElements := (\<lambda>k i l. if k = TopAbs_WIRE \<and> i = 2 \<and> l = TopAbs_EDGE then [2] else []),
        ancestors := (\<lambda>l j k. if l = TopAbs_EDGE \<and> j = 2 \<and> k = TopAbs_WIRE then [2] else []),
        comboParts := (\<lambda>i n. if n = ''abWire'' then ([''a'', ''b''], []) else ([], []))\<rparr>"

text \<open>A document without links in which every object is an attached
  \<^verbatim>\<open>Part::Feature\<close> whose shape, the empty one, is in the cache. A subname is an element
  name and nothing else.\<close>

definition emptyGraph :: Graph where
  "emptyGraph =
     \<lparr>getDocument = (\<lambda>ob. 0), getID = (\<lambda>ob. int ob), getLinkedObject = (\<lambda>ob d. ob),
      getLinkedObjectRecursive = (\<lambda>ob. None),
      isGeoFeature = (\<lambda>ob. True), getElementOwner = (\<lambda>ob n. None),
      getObjectByID = (\<lambda>d i. None),
      getNameInDocument = (\<lambda>ob. True),
      isPartFeature = (\<lambda>ob. True), hasLinkExtension = (\<lambda>ob. False),
      withoutElement = (\<lambda>sub. []), isMappedElementName = (\<lambda>sub. False),
      DocumentObject_getSubObject = (\<lambda>ob sub. None),
      raisesStandardFailure = (\<lambda>ob sub. False),
      propertySubShape = (\<lambda>ob sub. TopoShape_null),
      cachedShape = (\<lambda>ob sub. emptyShape),
      builtShape = (\<lambda>ob sub e. TopoShape_null),
      singleSubShape = (\<lambda>s. s),
      resolveLinkDefault = True, isLogEnabled = True,
      resolveElement = (\<lambda>ob sub a. ([], [])),
      searchSubShape = (\<lambda>a b. [])\<rparr>"

text \<open>A shape whose element e is recorded as made from the element e of the feature
  with the tag \<open>t\<close>.\<close>

definition tagShape :: "int \<Rightarrow> TopoShape" where
  "tagShape t = emptyShape\<lparr>history := (\<lambda>n. if n = ''e'' then (t, ''e'', []) else (0, [], []))\<rparr>"

text \<open>Two features of one document with the tags 1 and 2, whose generation records
  name each other: a cyclic tag.\<close>

definition cyclicGraph :: Graph where
  "cyclicGraph =
     emptyGraph
       \<lparr>getObjectByID := (\<lambda>d i. if i = 1 then Some 1 else if i = 2 then Some 2 else None),
        cachedShape := (\<lambda>ob sub. if ob = 1 then tagShape 2 else tagShape 1)\<rparr>"

text \<open>A target object 1 and a source object 2. Face1 of the target has the name
  \<^verbatim>\<open>f;T\<close>, made by the feature 1 from the face f of the source; the source and the
  target have one face each.\<close>

definition targetShape :: TopoShape where
  "targetShape =
     emptyShape
       \<lparr>forward := [''f;T'' \<mapsto> fromConst TopAbs_FACE 1],
        reverse := [fromConst TopAbs_FACE 1 \<mapsto> ''f;T''],
        subShapeCount := (\<lambda>k. if k = TopAbs_FACE then 1 else 0),
        traceSteps := (\<lambda>n. if n = ''f;T'' then [(''f;T'', 1), (''f'', 2)] else [])\<rparr>"

definition sourceShape :: TopoShape where
  "sourceShape =
     emptyShape
       \<lparr>forward := [''f'' \<mapsto> fromConst TopAbs_FACE 1],
        reverse := [fromConst TopAbs_FACE 1 \<mapsto> ''f''],
        subShapeCount := (\<lambda>k. if k = TopAbs_FACE then 1 else 0)\<rparr>"

text \<open>The document of the target 1 and the source 2: the cache has the shape of either
  object; asked for with its element, the source has a shape only for Edge1.\<close>

definition sourceGraph :: Graph where
  "sourceGraph =
     emptyGraph
       \<lparr>cachedShape := (\<lambda>ob sub. if sub \<noteq> [] then TopoShape_null
                                   else if ob = 1 then targetShape else sourceShape),
        propertySubShape := (\<lambda>ob sub. if sub = ''Edge1'' then sourceShape else TopoShape_null),
        resolveElement := (\<lambda>ob sub a. if sub = ''Face1''
                                      then (if ob = 1 then (''f;T'', ''Face1'') else (''f'', ''Face1''))
                                      else if sub = ''Edge1'' then ([], ''Edge1'')
                                      else ([], [])),
        searchSubShape := (\<lambda>a b. if isNull b then [] else [''Face1'', ''Face2''])\<rparr>"

text \<open>A target with two faces. The history of Face1, named w, starts with the tag 1 of
  the target and comes back to the source several times: its steps carry the tags 1, 2,
  5, 2, 6, 2, 7 and 8, and 2 is the tag of the source; no step has the name f of the face
  of the source. The history of Face2, named v, reaches the face f of the source in its
  second step and goes on with the tag 5.\<close>

definition windingShape :: TopoShape where
  "windingShape =
     emptyShape
       \<lparr>forward := [''w'' \<mapsto> fromConst TopAbs_FACE 1, ''v'' \<mapsto> fromConst TopAbs_FACE 2],
        reverse := [fromConst TopAbs_FACE 1 \<mapsto> ''w'', fromConst TopAbs_FACE 2 \<mapsto> ''v''],
        subShapeCount := (\<lambda>k. if k = TopAbs_FACE then 2 else 0),
        traceSteps := (\<lambda>n. if n = ''w''
                            then [(''w'', 1), (''w1'', 2), (''w2'', 5), (''w3'', 2), (''w4'', 6),
                                  (''w5'', 2), (''w6'', 7), (''w7'', 8)]
                            else if n = ''v'' then [(''v'', 1), (''f'', 2), (''v2'', 5)]
                            else [])\<rparr>"

text \<open>The document of that target, 1, and of the source 2 with its one face f, which
  the shape property of the source gives for Face1; the geometric search does not find
  that face in the target.\<close>

definition windingGraph :: Graph where
  "windingGraph =
     sourceGraph
       \<lparr>cachedShape := (\<lambda>ob sub. if sub \<noteq> [] then TopoShape_null
                                   else if ob = 1 then windingShape else sourceShape),
        propertySubShape := (\<lambda>ob sub. if ob = 2 \<and> sub = ''Face1'' then sourceShape
                                        else TopoShape_null),
        resolveElement := (\<lambda>ob sub a. if sub = ''Face1'' then (if ob = 1 then (''w'', ''Face1'')
                                                               else (''f'', ''Face1''))
                                      else if sub = ''Face2'' \<and> ob = 1 then (''v'', ''Face2'')
                                      else ([], [])),
        searchSubShape := (\<lambda>a b. [])\<rparr>"

text \<open>The document of the target 1 and the source 2 again, with another source: the
  shape of the source is not in the cache, and the geometry kernel raises
  \<^verbatim>\<open>Standard_Failure\<close> when \<^verbatim>\<open>Feature::getSubObject\<close> moves it. The face of the
  source is read from its shape property, and the geometric search does not find it in
  the target.\<close>

definition failingGraph :: Graph where
  "failingGraph =
     sourceGraph
       \<lparr>cachedShape := (\<lambda>ob sub. if ob = 1 \<and> sub = [] then targetShape else TopoShape_null),
        raisesStandardFailure := (\<lambda>ob sub. ob = 2),
        propertySubShape := (\<lambda>ob sub. if ob = 2 \<and> sub = ''Face1'' then sourceShape
                                        else TopoShape_null),
        searchSubShape := (\<lambda>a b. [])\<rparr>"

text \<open>A feature 1 whose shape has one face, named f; the name g belongs to no element
  of the shape.\<close>

definition relatedShape :: TopoShape where
  "relatedShape =
     emptyShape
       \<lparr>forward := [''f'' \<mapsto> fromConst TopAbs_FACE 1],
        reverse := [fromConst TopAbs_FACE 1 \<mapsto> ''f''],
        subShapeCount := (\<lambda>k. if k = TopAbs_FACE then 1 else 0),
        elementTypes := (\<lambda>n. CHR ''F'')\<rparr>"

definition relatedGraph :: Graph where
  "relatedGraph = emptyGraph\<lparr>cachedShape := (\<lambda>ob sub. relatedShape)\<rparr>"

section \<open>Properties\<close>

lemmas shape_simps = circleShape_def nestedShape_def changedShape_def emptyShape_def
  getMappedName_def getIndexedName_def fromConst_def findAncestors_def
  MinLowerTopoNames_def MaxLowerTopoNames_def shapeTypeAndIndex_def subShapeIsNull_def
  IndexedName_valid_def IndexedName_null_def exampleNaming_def Let_def

subsection \<open>Feature::getElementName\<close>

text \<open>C9: for every query type other than Export, and for a feature whose geometry
  property is not a shape property, \<^verbatim>\<open>Feature::getElementName\<close> returns what
  \<^verbatim>\<open>GeoFeature::getElementName\<close> returns and leaves the shape as it is; combo
  names are synthesized only for Export queries on a feature that has a shape.\<close>

theorem Feature_getElementName_base:
  "type \<noteq> Export \<or> prop = None \<Longrightarrow>
   Feature_getElementName N base prop nm type = Inr (prop, base nm type)"
  by (auto simp: Feature_getElementName_def)

theorem Feature_getElementName_base_witness:
  "Feature_getElementName exampleNaming (\<lambda>nm t. ([], ''Wire1'')) (Some circleShape)
     (ByIndex (fromConst TopAbs_WIRE 1)) Normal = Inr (Some circleShape, ([], ''Wire1'')) \<and>
   Feature_getElementName exampleNaming (\<lambda>nm t. ([], ''Wire1'')) None
     (ByIndex (fromConst TopAbs_WIRE 1)) Export = Inr (None, ([], ''Wire1''))"
proof -
  have h1: "Normal \<noteq> Export \<or> Some circleShape = None" by simp
  have h2: "Export \<noteq> Export \<or> (None :: TopoShape option) = None" by simp
  show ?thesis
    using Feature_getElementName_base[OF h1, of exampleNaming "\<lambda>nm t. ([], ''Wire1'')"
        "ByIndex (fromConst TopAbs_WIRE 1)"]
      Feature_getElementName_base[OF h2, of exampleNaming "\<lambda>nm t. ([], ''Wire1'')"
        "ByIndex (fromConst TopAbs_WIRE 1)"]
    by simp
qed

subsection \<open>The names chosen for a combo name\<close>

text \<open>The first loop takes the lower elements that have a durable name in their order
  and stops at the one that is the third with exactly one ancestor, or at the end, and
  not before: \<open>k\<close> is the number of elements taken, \<open>count\<close> the number of
  elements with one ancestor seen before.\<close>

lemma collectLower_run:
  assumes "collectLower sh kind lower xs indices names count = (I, Nm)"
    and "count < MinLowerTopoNames"
  shows "\<exists>k. k \<le> length (lowerEntries sh kind lower xs) \<and>
             Nm = names @ map fst (take k (lowerEntries sh kind lower xs)) \<and>
             (count + length (filter (\<lambda>e. length (snd e) = 1)
                                (take k (lowerEntries sh kind lower xs))) = MinLowerTopoNames \<or>
              k = length (lowerEntries sh kind lower xs) \<and>
              count + length (filter (\<lambda>e. length (snd e) = 1)
                                (take k (lowerEntries sh kind lower xs))) < MinLowerTopoNames) \<and>
             (\<forall>j<k. count + length (filter (\<lambda>e. length (snd e) = 1)
                                      (take j (lowerEntries sh kind lower xs))) < MinLowerTopoNames)"
  using assms
proof (induction xs arbitrary: indices names count)
  case Nil
  then show ?case by (simp add: lowerEntries_def)
next
  case (Cons ss rest)
  let ?nm = "getMappedName sh (fromConst lower ss)"
  let ?anc = "findAncestors sh (lower, ss) kind"
  let ?E = "lowerEntries sh kind lower rest"
  let ?S = "\<lambda>E j. length (filter (\<lambda>e. length (snd e) = 1) (take j E))"
  show ?case
  proof (cases "?nm = []")
    case True
    with Cons.prems have "collectLower sh kind lower rest indices names count = (I, Nm)" by simp
    from Cons.IH[OF this Cons.prems(2)] True show ?thesis by (simp add: lowerEntries_def)
  next
    case False
    have e: "lowerEntries sh kind lower (ss # rest) = (?nm, ?anc) # ?E"
      using False by (simp add: lowerEntries_def)
    show ?thesis
    proof (cases "length ?anc = 1")
      case True
      show ?thesis
      proof (cases "MinLowerTopoNames \<le> count + 1")
        case True
        with Cons.prems False \<open>length ?anc = 1\<close> have "Nm = names @ [?nm]" by (simp add: Let_def)
        moreover have "count + 1 = MinLowerTopoNames" using True Cons.prems(2) by simp
        ultimately show ?thesis
          unfolding e using \<open>length ?anc = 1\<close> Cons.prems(2) by (intro exI[of _ 1]) simp
      next
        case F2: False
        with Cons.prems False True have
          c: "collectLower sh kind lower rest (indices @ [(length ?nm, ?anc)]) (names @ [?nm]) (count + 1) = (I, Nm)"
          by (simp add: Let_def)
        from F2 have "count + 1 < MinLowerTopoNames" by simp
        from Cons.IH[OF c this] obtain k where
          k: "k \<le> length ?E" "Nm = (names @ [?nm]) @ map fst (take k ?E)"
             "count + 1 + ?S ?E k = MinLowerTopoNames \<or>
              k = length ?E \<and> count + 1 + ?S ?E k < MinLowerTopoNames"
             "\<forall>j<k. count + 1 + ?S ?E j < MinLowerTopoNames"
          by blast
        have q: "\<forall>j<Suc k. count + ?S ((?nm, ?anc) # ?E) j < MinLowerTopoNames"
        proof (intro allI impI)
          fix j assume "j < Suc k"
          then show "count + ?S ((?nm, ?anc) # ?E) j < MinLowerTopoNames"
            using k(4) True Cons.prems(2) by (cases j) auto
        qed
        show ?thesis
          unfolding e using k(1,2,3) q True by (intro exI[of _ "Suc k"]) auto
      qed
    next
      case F1: False
      with Cons.prems False have
        c: "collectLower sh kind lower rest (indices @ [(length ?nm, ?anc)]) (names @ [?nm]) count = (I, Nm)"
        by (simp add: Let_def)
      from Cons.IH[OF c Cons.prems(2)] obtain k where
        k: "k \<le> length ?E" "Nm = (names @ [?nm]) @ map fst (take k ?E)"
           "count + ?S ?E k = MinLowerTopoNames \<or>
            k = length ?E \<and> count + ?S ?E k < MinLowerTopoNames"
           "\<forall>j<k. count + ?S ?E j < MinLowerTopoNames"
        by blast
      have q: "\<forall>j<Suc k. count + ?S ((?nm, ?anc) # ?E) j < MinLowerTopoNames"
      proof (intro allI impI)
        fix j assume "j < Suc k"
        then show "count + ?S ((?nm, ?anc) # ?E) j < MinLowerTopoNames"
          using k(4) F1 Cons.prems(2) by (cases j) auto
      qed
      show ?thesis
        unfolding e using k(1,2,3) q F1 by (intro exI[of _ "Suc k"]) auto
    qed
  qed
qed

text \<open>What \<^verbatim>\<open>names\<close> holds at the call of \<^verbatim>\<open>setElementComboName\<close>.\<close>

lemma chooseLower_run:
  assumes "chooseLower N sh kind idx lower = Inr (names, op)"
  shows "\<exists>k. names = map fst (take k (lowerEntries sh kind lower (subElements sh kind idx lower))) \<and>
             k \<le> length (lowerEntries sh kind lower (subElements sh kind idx lower)) \<and>
             k \<le> MaxLowerTopoNames \<and>
             min MinLowerTopoNames (length (lowerEntries sh kind lower (subElements sh kind idx lower))) \<le> k \<and>
             (k < length (lowerEntries sh kind lower (subElements sh kind idx lower)) \<and>
              k < MaxLowerTopoNames \<longrightarrow>
              length (filter (\<lambda>e. length (snd e) = 1)
                        (take k (lowerEntries sh kind lower (subElements sh kind idx lower)))) =
                MinLowerTopoNames) \<and>
             (\<forall>j<k. length (filter (\<lambda>e. length (snd e) = 1)
                        (take j (lowerEntries sh kind lower (subElements sh kind idx lower)))) <
                MinLowerTopoNames)"
proof -
  let ?E = "lowerEntries sh kind lower (subElements sh kind idx lower)"
  let ?S = "\<lambda>k. length (filter (\<lambda>e. length (snd e) = 1) (take k ?E))"
  obtain I Nm where c: "collectLower sh kind lower (subElements sh kind idx lower) [] [] 0 = (I, Nm)"
    by (cases "collectLower sh kind lower (subElements sh kind idx lower) [] [] 0")
  have "0 < MinLowerTopoNames" by (simp add: MinLowerTopoNames_def)
  from collectLower_run[OF c this] obtain k where
    k: "k \<le> length ?E" "Nm = map fst (take k ?E)"
       "?S k = MinLowerTopoNames \<or> k = length ?E \<and> ?S k < MinLowerTopoNames"
       "\<forall>j<k. ?S j < MinLowerTopoNames"
    by auto
  have l: "length Nm = k" using k(1,2) by simp
  have n: "names = take (min (length Nm) MaxLowerTopoNames) Nm"
    using assms c unfolding chooseLower_def
    by (auto simp: Let_def split: sum.splits if_splits option.splits prod.splits)
  let ?k = "min k MaxLowerTopoNames"
  have n1: "names = map fst (take ?k ?E)"
    using n l k(2) by (simp add: take_map min.commute)
  have sk: "?S k \<le> k"
    by (rule order_trans[OF length_filter_le]) simp
  have n2: "min MinLowerTopoNames (length ?E) \<le> ?k"
    using k(1,3) sk by (auto simp: MinLowerTopoNames_def MaxLowerTopoNames_def)
  have n3: "?k < length ?E \<and> ?k < MaxLowerTopoNames \<longrightarrow> ?S ?k = MinLowerTopoNames"
    using k(3) by (auto simp: min_def)
  have n4: "\<forall>j<?k. ?S j < MinLowerTopoNames" using k(4) by simp
  from n1 n2 n3 n4 k(1) show ?thesis
    by (intro exI[of _ ?k]) auto
qed

text \<open>The sorting pass, the only part that can fail, is entered only with
  \<^verbatim>\<open>MaxLowerTopoNames\<close> names or more.\<close>

lemma chooseLower_returns:
  assumes "length (lowerEntries sh kind lower (subElements sh kind idx lower)) < MaxLowerTopoNames"
  shows "\<exists>names op. chooseLower N sh kind idx lower = Inr (names, op)"
proof -
  let ?E = "lowerEntries sh kind lower (subElements sh kind idx lower)"
  obtain I Nm where c: "collectLower sh kind lower (subElements sh kind idx lower) [] [] 0 = (I, Nm)"
    by (cases "collectLower sh kind lower (subElements sh kind idx lower) [] [] 0")
  have "0 < MinLowerTopoNames" by (simp add: MinLowerTopoNames_def)
  from collectLower_run[OF c this] obtain k where
    k: "k \<le> length ?E" "Nm = map fst (take k ?E)" by auto
  then have "length Nm < MaxLowerTopoNames" using assms by simp
  then show ?thesis
    using c by (simp add: chooseLower_def Let_def)
qed

lemma lowerKind_cases:
  "lowerKind k \<noteq> TopAbs_SHAPE \<Longrightarrow>
   lowerKind k = (if k = TopAbs_WIRE then TopAbs_EDGE else TopAbs_FACE) \<and>
   k \<in> {TopAbs_WIRE, TopAbs_SHELL, TopAbs_SOLID, TopAbs_COMPOUND, TopAbs_COMPSOLID}"
  by (cases k) simp_all

text \<open>The branch that synthesizes a name, for an index name without a durable name.\<close>

lemma exportMappedElement_synthesis:
  assumes "getMappedName sh i = []" and "0 < getIndex i"
    and "\<not> subShapeIsNull sh (getType i) (getIndex i)"
    and "lowerKind (getType i) \<noteq> TopAbs_SHAPE"
  shows "exportMappedElement N sh (ByIndex i) =
           (case chooseLower N sh (getType i) (getIndex i) (lowerKind (getType i)) of
              Inl e \<Rightarrow> Inl e
            | Inr (names, op) \<Rightarrow>
                if names = [] then Inr (sh, \<lparr>name = [], index = i\<rparr>)
                else Inr (fst (setElementComboName sh i names (shapeName N (getType i)) op),
                          \<lparr>name = comboName names (shapeName N (getType i)) op, index = i\<rparr>))"
proof -
  have k: "getType i \<noteq> TopAbs_SHAPE" using assms(4) by auto
  then have r: "shapeTypeAndIndex i = (getType i, getIndex i)"
    using assms(2) by (simp add: shapeTypeAndIndex_def)
  show ?thesis
    using assms r
    by (simp add: exportMappedElement_def Let_def setElementComboName_def
        split: sum.splits prod.splits)
qed

text \<open>C3, as stated, fails on the wire of a circle: the wire has a valid index name and
  no durable name, and its combo name is made from the name of its single edge, fewer
  than \<^verbatim>\<open>MinLowerTopoNames\<close> names.\<close>

theorem combo_name_single_edge:
  "getMappedName circleShape (fromConst TopAbs_WIRE 1) = [] \<and>
   chooseLower exampleNaming circleShape TopAbs_WIRE 1 TopAbs_EDGE = Inr ([''E''], []) \<and>
   exportMappedElement exampleNaming circleShape (ByIndex (fromConst TopAbs_WIRE 1)) =
     Inr (fst (setElementComboName circleShape (fromConst TopAbs_WIRE 1) [''E''] ''Wire'' []),
          \<lparr>name = ''EWire'', index = fromConst TopAbs_WIRE 1\<rparr>) \<and>
   length [''E''] < MinLowerTopoNames"
  by (simp add: chooseLower_def exportMappedElement_def setElementComboName_def comboName_def
      shape_simps)

text \<open>The wire of a square: the first three of its four edges are taken.\<close>

lemma square_entries:
  "lowerEntries squareShape TopAbs_WIRE TopAbs_EDGE (subElements squareShape TopAbs_WIRE 1 TopAbs_EDGE) =
     [(''e1'', [1]), (''e2'', [1]), (''e3'', [1]), (''e4'', [1])]"
  by (simp add: lowerEntries_def squareShape_def emptyShape_def getMappedName_def fromConst_def
      findAncestors_def)

lemma square_export:
  "exportMappedElement exampleNaming squareShape (ByIndex (fromConst TopAbs_WIRE 1)) =
     Inr (fst (setElementComboName squareShape (fromConst TopAbs_WIRE 1) [''e1'', ''e2'', ''e3'']
                 ''Wire'' []),
          \<lparr>name = ''e1e2e3Wire'', index = fromConst TopAbs_WIRE 1\<rparr>)"
  by (simp add: chooseLower_def exportMappedElement_def setElementComboName_def comboName_def
      squareShape_def shape_simps)

text \<open>C3, amended: for a higher-level element (wire, shell, solid, compound, comp-solid)
  that exists in the shape, has a valid index name and no durable name yet,
  \<^verbatim>\<open>getElementName\<close> takes the lower elements of the kind edge for a wire and face
  otherwise. The call returns whenever fewer than \<^verbatim>\<open>MaxLowerTopoNames\<close> (10) of them
  have a durable name. A call that returns has combined the durable names of the first
  \<open>k\<close> lower elements that have one, in the order of the sub-shapes, where \<open>k\<close> is at
  least the smaller of \<^verbatim>\<open>MinLowerTopoNames\<close> (3) and the number \<open>n\<close> of lower
  elements with a durable name, and at most \<^verbatim>\<open>MaxLowerTopoNames\<close>. The run is the
  minimum one: when \<open>k\<close> is less than both \<open>n\<close> and \<^verbatim>\<open>MaxLowerTopoNames\<close>,
  exactly \<^verbatim>\<open>MinLowerTopoNames\<close> of the \<open>k\<close> elements have exactly one ancestor of
  the kind of the element, and of the first \<open>j\<close> elements, for every \<open>j\<close> less than
  \<open>k\<close>, fewer than \<^verbatim>\<open>MinLowerTopoNames\<close> have. The durable name returned is the
  combo name of these names, and it is empty when \<open>k\<close> is 0.\<close>

theorem combo_name_lower_count:
  assumes "getMappedName sh i = []" and "0 < getIndex i"
    and "\<not> subShapeIsNull sh (getType i) (getIndex i)"
    and "lowerKind (getType i) \<noteq> TopAbs_SHAPE"
  shows "let L = lowerKind (getType i);
             E = lowerEntries sh (getType i) L (subElements sh (getType i) (getIndex i) L)
         in L = (if getType i = TopAbs_WIRE then TopAbs_EDGE else TopAbs_FACE) \<and>
            (length E < MaxLowerTopoNames \<longrightarrow>
               (\<exists>sh' m. exportMappedElement N sh (ByIndex i) = Inr (sh', m))) \<and>
            (\<forall>sh' m. exportMappedElement N sh (ByIndex i) = Inr (sh', m) \<longrightarrow>
               (\<exists>k op. min MinLowerTopoNames (length E) \<le> k \<and> k \<le> MaxLowerTopoNames \<and>
                  k \<le> length E \<and>
                  (k < length E \<and> k < MaxLowerTopoNames \<longrightarrow>
                     length (filter (\<lambda>e. length (snd e) = 1) (take k E)) = MinLowerTopoNames) \<and>
                  (\<forall>j<k. length (filter (\<lambda>e. length (snd e) = 1) (take j E)) < MinLowerTopoNames) \<and>
                  name m = (if k = 0 then []
                            else comboName (map fst (take k E)) (shapeName N (getType i)) op)))"
proof -
  let ?L = "lowerKind (getType i)"
  let ?E = "lowerEntries sh (getType i) ?L (subElements sh (getType i) (getIndex i) ?L)"
  note syn = exportMappedElement_synthesis[OF assms, of N]
  have a: "?L = (if getType i = TopAbs_WIRE then TopAbs_EDGE else TopAbs_FACE)"
    using lowerKind_cases[OF assms(4)] by blast
  have b: "\<exists>sh' m. exportMappedElement N sh (ByIndex i) = Inr (sh', m)"
    if "length ?E < MaxLowerTopoNames"
  proof -
    from chooseLower_returns[OF that, of N] obtain names op where
      "chooseLower N sh (getType i) (getIndex i) ?L = Inr (names, op)" by blast
    then show ?thesis unfolding syn by simp
  qed
  have c: "\<exists>k op. min MinLowerTopoNames (length ?E) \<le> k \<and> k \<le> MaxLowerTopoNames \<and>
                  k \<le> length ?E \<and>
                  (k < length ?E \<and> k < MaxLowerTopoNames \<longrightarrow>
                     length (filter (\<lambda>e. length (snd e) = 1) (take k ?E)) = MinLowerTopoNames) \<and>
                  (\<forall>j<k. length (filter (\<lambda>e. length (snd e) = 1) (take j ?E)) < MinLowerTopoNames) \<and>
                  name m = (if k = 0 then []
                            else comboName (map fst (take k ?E)) (shapeName N (getType i)) op)"
    if r: "exportMappedElement N sh (ByIndex i) = Inr (sh', m)" for sh' m
  proof -
    obtain names op where ch: "chooseLower N sh (getType i) (getIndex i) ?L = Inr (names, op)"
      using r syn by (cases "chooseLower N sh (getType i) (getIndex i) ?L") auto
    have m: "name m = (if names = [] then [] else comboName names (shapeName N (getType i)) op)"
      using r syn ch by (auto split: if_splits)
    from chooseLower_run[OF ch] obtain k where
      k: "names = map fst (take k ?E)" "k \<le> length ?E" "k \<le> MaxLowerTopoNames"
         "min MinLowerTopoNames (length ?E) \<le> k"
         "k < length ?E \<and> k < MaxLowerTopoNames \<longrightarrow>
            length (filter (\<lambda>e. length (snd e) = 1) (take k ?E)) = MinLowerTopoNames"
         "\<forall>j<k. length (filter (\<lambda>e. length (snd e) = 1) (take j ?E)) < MinLowerTopoNames"
      by blast
    have "names = [] \<longleftrightarrow> k = 0" using k(1,2) by auto
    with m k(1) have "name m = (if k = 0 then []
                            else comboName (map fst (take k ?E)) (shapeName N (getType i)) op)"
      by simp
    with k show ?thesis by blast
  qed
  from a b c show ?thesis unfolding Let_def by blast
qed

theorem combo_name_lower_count_witness:
  "lowerEntries squareShape TopAbs_WIRE TopAbs_EDGE (subElements squareShape TopAbs_WIRE 1 TopAbs_EDGE) =
     [(''e1'', [1]), (''e2'', [1]), (''e3'', [1]), (''e4'', [1])] \<and>
   (\<exists>sh' m. exportMappedElement exampleNaming squareShape (ByIndex (fromConst TopAbs_WIRE 1)) =
              Inr (sh', m)) \<and>
   exportMappedElement exampleNaming squareShape (ByIndex (fromConst TopAbs_WIRE 1)) =
     Inr (fst (setElementComboName squareShape (fromConst TopAbs_WIRE 1) [''e1'', ''e2'', ''e3'']
                 ''Wire'' []),
          \<lparr>name = ''e1e2e3Wire'', index = fromConst TopAbs_WIRE 1\<rparr>) \<and>
   (\<exists>k op. k = 3 \<and> min MinLowerTopoNames 4 \<le> k \<and> k \<le> MaxLowerTopoNames \<and> k < 4 \<and>
      length (filter (\<lambda>e. length (snd e) = 1)
                (take k [(''e1'', [1::int]), (''e2'', [1]), (''e3'', [1]), (''e4'', [1])])) =
        MinLowerTopoNames \<and>
      length (filter (\<lambda>e. length (snd e) = 1)
                (take 2 [(''e1'', [1::int]), (''e2'', [1]), (''e3'', [1]), (''e4'', [1])])) <
        MinLowerTopoNames \<and>
      ''e1e2e3Wire'' =
        comboName (map fst (take k [(''e1'', [1::int]), (''e2'', [1]), (''e3'', [1]), (''e4'', [1])]))
          ''Wire'' op)"
proof -
  let ?i = "fromConst TopAbs_WIRE 1"
  let ?E = "[(''e1'', [1::int]), (''e2'', [1]), (''e3'', [1]), (''e4'', [1])]"
  have h1: "getMappedName squareShape ?i = []"
    by (simp add: squareShape_def emptyShape_def getMappedName_def fromConst_def)
  have h2: "0 < getIndex ?i" by (simp add: fromConst_def)
  have h3: "\<not> subShapeIsNull squareShape (getType ?i) (getIndex ?i)"
    by (simp add: squareShape_def emptyShape_def subShapeIsNull_def fromConst_def)
  have h4: "lowerKind (getType ?i) \<noteq> TopAbs_SHAPE" by (simp add: fromConst_def)
  have t: "getType ?i = TopAbs_WIRE" "getIndex ?i = 1" "lowerKind TopAbs_WIRE = TopAbs_EDGE"
    "shapeName exampleNaming TopAbs_WIRE = ''Wire''"
    by (simp_all add: fromConst_def exampleNaming_def)
  note T = combo_name_lower_count[OF h1 h2 h3 h4, of exampleNaming, unfolded Let_def t square_entries]
  have l: "length ?E < MaxLowerTopoNames" by (simp add: MaxLowerTopoNames_def)
  from T l have r: "\<exists>sh' m. exportMappedElement exampleNaming squareShape (ByIndex ?i) = Inr (sh', m)"
    by blast
  have len: "length ?E = 4" by simp
  have nm: "name \<lparr>name = ''e1e2e3Wire'', index = ?i\<rparr> = ''e1e2e3Wire''" by simp
  from T square_export have
    "\<exists>k op. min MinLowerTopoNames (length ?E) \<le> k \<and> k \<le> MaxLowerTopoNames \<and> k \<le> length ?E \<and>
       (k < length ?E \<and> k < MaxLowerTopoNames \<longrightarrow>
          length (filter (\<lambda>e. length (snd e) = 1) (take k ?E)) = MinLowerTopoNames) \<and>
       (\<forall>j<k. length (filter (\<lambda>e. length (snd e) = 1) (take j ?E)) < MinLowerTopoNames) \<and>
       name \<lparr>name = ''e1e2e3Wire'', index = ?i\<rparr> =
         (if k = 0 then [] else comboName (map fst (take k ?E)) ''Wire'' op)"
    by blast
  then obtain k op where
    k: "min MinLowerTopoNames 4 \<le> k" "k \<le> MaxLowerTopoNames" "k \<le> 4"
       "k < 4 \<and> k < MaxLowerTopoNames \<longrightarrow>
          length (filter (\<lambda>e. length (snd e) = 1) (take k ?E)) = MinLowerTopoNames"
       "\<forall>j<k. length (filter (\<lambda>e. length (snd e) = 1) (take j ?E)) < MinLowerTopoNames"
       "''e1e2e3Wire'' = (if k = 0 then [] else comboName (map fst (take k ?E)) ''Wire'' op)"
    unfolding len nm by blast
  from k(3) have "k = 0 \<or> k = 1 \<or> k = 2 \<or> k = 3 \<or> k = 4" by arith
  with k(6) have k3: "k = 3" by (auto simp: comboName_def)
  then have k4: "k < 4" "k < MaxLowerTopoNames" "2 < k" by (simp_all add: MaxLowerTopoNames_def)
  with k(4) have f: "length (filter (\<lambda>e. length (snd e) = 1) (take k ?E)) = MinLowerTopoNames"
    by blast
  from k(5) k4(3) have f2: "length (filter (\<lambda>e. length (snd e) = 1) (take 2 ?E)) < MinLowerTopoNames"
    by blast
  from k(6) k3 have n: "''e1e2e3Wire'' = comboName (map fst (take k ?E)) ''Wire'' op" by simp
  from k(1,2) k3 k4(1) f f2 n have
    c: "\<exists>k op. k = 3 \<and> min MinLowerTopoNames 4 \<le> k \<and> k \<le> MaxLowerTopoNames \<and> k < 4 \<and>
          length (filter (\<lambda>e. length (snd e) = 1) (take k ?E)) = MinLowerTopoNames \<and>
          length (filter (\<lambda>e. length (snd e) = 1) (take 2 ?E)) < MinLowerTopoNames \<and>
          ''e1e2e3Wire'' = comboName (map fst (take k ?E)) ''Wire'' op"
    by blast
  from square_entries r square_export c show ?thesis by blast
qed

subsection \<open>The round trip of a durable name\<close>

text \<open>C2 at the compound in a compound: \<^verbatim>\<open>getElementName\<close> is called for
  Compound1, for Compound2 and for Compound1 again, each time on the shape as the call
  before has left it. Right after the first call the name \<^verbatim>\<open>FCompound\<close> resolves back
  to Compound1. The second call gives Compound2 the same name. The third call returns
  \<^verbatim>\<open>FCompound\<close> for Compound1, the name it finds for that index name, and on the same
  shape that name resolves to Compound2.\<close>

theorem round_trip_lost_to_second_compound:
  "getMappedName nestedShape (fromConst TopAbs_COMPOUND 1) = [] \<and>
   getMappedName nestedShape (fromConst TopAbs_COMPOUND 2) = [] \<and>
   exportMappedElement exampleNaming nestedShape (ByIndex (fromConst TopAbs_COMPOUND 1)) =
     Inr (fst (setElementComboName nestedShape (fromConst TopAbs_COMPOUND 1) [''F''] ''Compound'' []),
          \<lparr>name = ''FCompound'', index = fromConst TopAbs_COMPOUND 1\<rparr>) \<and>
   getIndexedName
     (fst (setElementComboName nestedShape (fromConst TopAbs_COMPOUND 1) [''F''] ''Compound'' []))
     ''FCompound'' = fromConst TopAbs_COMPOUND 1 \<and>
   exportMappedElement exampleNaming
       (fst (setElementComboName nestedShape (fromConst TopAbs_COMPOUND 1) [''F''] ''Compound'' []))
       (ByIndex (fromConst TopAbs_COMPOUND 2)) =
     Inr (fst (setElementComboName
                 (fst (setElementComboName nestedShape (fromConst TopAbs_COMPOUND 1) [''F''] ''Compound'' []))
                 (fromConst TopAbs_COMPOUND 2) [''F''] ''Compound'' []),
          \<lparr>name = ''FCompound'', index = fromConst TopAbs_COMPOUND 2\<rparr>) \<and>
   getMappedName
     (fst (setElementComboName
             (fst (setElementComboName nestedShape (fromConst TopAbs_COMPOUND 1) [''F''] ''Compound'' []))
             (fromConst TopAbs_COMPOUND 2) [''F''] ''Compound'' []))
     (fromConst TopAbs_COMPOUND 1) = ''FCompound'' \<and>
   exportMappedElement exampleNaming
       (fst (setElementComboName
               (fst (setElementComboName nestedShape (fromConst TopAbs_COMPOUND 1) [''F''] ''Compound'' []))
               (fromConst TopAbs_COMPOUND 2) [''F''] ''Compound'' []))
       (ByIndex (fromConst TopAbs_COMPOUND 1)) =
     Inr (fst (setElementComboName
                 (fst (setElementComboName nestedShape (fromConst TopAbs_COMPOUND 1) [''F''] ''Compound'' []))
                 (fromConst TopAbs_COMPOUND 2) [''F''] ''Compound'' []),
          \<lparr>name = ''FCompound'', index = fromConst TopAbs_COMPOUND 1\<rparr>) \<and>
   getIndexedName
     (fst (setElementComboName
             (fst (setElementComboName nestedShape (fromConst TopAbs_COMPOUND 1) [''F''] ''Compound'' []))
             (fromConst TopAbs_COMPOUND 2) [''F''] ''Compound'' []))
     ''FCompound'' = fromConst TopAbs_COMPOUND 2 \<and>
   getIndexedName
     (fst (setElementComboName
             (fst (setElementComboName nestedShape (fromConst TopAbs_COMPOUND 1) [''F''] ''Compound'' []))
             (fromConst TopAbs_COMPOUND 2) [''F''] ''Compound'' []))
     ''FCompound'' \<noteq> fromConst TopAbs_COMPOUND 1"
proof -
  let ?c1 = "fromConst TopAbs_COMPOUND 1"
  let ?c2 = "fromConst TopAbs_COMPOUND 2"
  let ?sh1 = "fst (setElementComboName nestedShape ?c1 [''F''] ''Compound'' [])"
  let ?sh2 = "fst (setElementComboName ?sh1 ?c2 [''F''] ''Compound'' [])"
  have a: "getMappedName nestedShape ?c1 = []" "getMappedName nestedShape ?c2 = []"
    by (simp_all add: shape_simps)
  have c: "exportMappedElement exampleNaming nestedShape (ByIndex ?c1) =
         Inr (?sh1, \<lparr>name = ''FCompound'', index = ?c1\<rparr>)"
    by (simp add: chooseLower_def exportMappedElement_def setElementComboName_def comboName_def
      shape_simps)
  have d: "getIndexedName ?sh1 ''FCompound'' = ?c1"
    by (simp add: setElementComboName_def comboName_def shape_simps)
  have e: "exportMappedElement exampleNaming ?sh1 (ByIndex ?c2) =
         Inr (?sh2, \<lparr>name = ''FCompound'', index = ?c2\<rparr>)"
    by (simp add: chooseLower_def exportMappedElement_def setElementComboName_def comboName_def
      shape_simps)
  have r: "getMappedName ?sh2 ?c1 = ''FCompound''"
    by (simp add: setElementComboName_def comboName_def shape_simps)
  have f: "exportMappedElement exampleNaming ?sh2 (ByIndex ?c1) =
         Inr (?sh2, \<lparr>name = ''FCompound'', index = ?c1\<rparr>)"
    by (simp add: exportMappedElement_def setElementComboName_def comboName_def shape_simps)
  have g: "getIndexedName ?sh2 ''FCompound'' = ?c2"
    by (simp add: setElementComboName_def comboName_def shape_simps)
  have h: "getIndexedName ?sh2 ''FCompound'' \<noteq> ?c1"
    unfolding g by (simp add: fromConst_def)
  from a c d e r f g h show ?thesis by blast
qed

subsection \<open>Disambiguation\<close>

text \<open>C4 at the compound in a compound: the face F has the two compounds as ancestors, so
  the names chosen for either compound do not identify it; both calls pass an empty
  postfix, both compounds get the combo name \<^verbatim>\<open>FCompound\<close>, and after the second
  call that name belongs to Compound2.\<close>

theorem nested_compounds_same_name:
  "findAncestors nestedShape (TopAbs_FACE, 1) TopAbs_COMPOUND = [1, 2] \<and>
   chooseLower exampleNaming nestedShape TopAbs_COMPOUND 1 TopAbs_FACE = Inr ([''F''], []) \<and>
   chooseLower exampleNaming nestedShape TopAbs_COMPOUND 2 TopAbs_FACE = Inr ([''F''], []) \<and>
   exportMappedElement exampleNaming nestedShape (ByIndex (fromConst TopAbs_COMPOUND 1)) =
     Inr (fst (setElementComboName nestedShape (fromConst TopAbs_COMPOUND 1) [''F''] ''Compound'' []),
          \<lparr>name = ''FCompound'', index = fromConst TopAbs_COMPOUND 1\<rparr>) \<and>
   exportMappedElement exampleNaming
       (fst (setElementComboName nestedShape (fromConst TopAbs_COMPOUND 1) [''F''] ''Compound'' []))
       (ByIndex (fromConst TopAbs_COMPOUND 2)) =
     Inr (fst (setElementComboName
                 (fst (setElementComboName nestedShape (fromConst TopAbs_COMPOUND 1) [''F''] ''Compound'' []))
                 (fromConst TopAbs_COMPOUND 2) [''F''] ''Compound'' []),
          \<lparr>name = ''FCompound'', index = fromConst TopAbs_COMPOUND 2\<rparr>) \<and>
   getIndexedName
     (fst (setElementComboName
             (fst (setElementComboName nestedShape (fromConst TopAbs_COMPOUND 1) [''F''] ''Compound'' []))
             (fromConst TopAbs_COMPOUND 2) [''F''] ''Compound'' []))
     ''FCompound'' = fromConst TopAbs_COMPOUND 2"
  by (simp add: chooseLower_def exportMappedElement_def setElementComboName_def comboName_def
      shape_simps)

text \<open>The loop over the sorted entries reads \<^verbatim>\<open>names\<close> at the length of a durable
  name. When ten or more names were collected and each is at least as long as their
  number, the first read is outside the vector.\<close>

lemma sortLoop_out_of_range:
  "length names \<le> fst v \<Longrightarrow> sortLoop names (v # vs) anc srt pos = Inl OutOfRange"
  by (simp add: Let_def)

lemma chooseLower_out_of_range:
  assumes "collectLower sh kind lower (subElements sh kind idx lower) [] [] 0 = (I, Nm)"
    and "MaxLowerTopoNames \<le> length Nm"
    and "I \<noteq> []"
    and "\<forall>v\<in>set I. length Nm \<le> fst v"
  shows "chooseLower N sh kind idx lower = Inl OutOfRange"
proof -
  let ?S = "sort_key (\<lambda>v. length (snd v)) I"
  have "?S \<noteq> []" using assms(3) by (metis length_sort list.size(3) length_0_conv)
  then obtain v vs where s: "?S = v # vs" by (cases ?S) auto
  then have "v \<in> set I" by (metis list.set_intros(1) set_sort)
  with assms(4) have "length Nm \<le> fst v" by blast
  then have "sortLoop Nm ?S [] [] 0 = Inl OutOfRange"
    unfolding s by (rule sortLoop_out_of_range)
  then show ?thesis
    using assms(1,2) by (simp add: chooseLower_def)
qed


text \<open>The two compounds with ten faces whose names have twelve bytes: the call for
  Compound2 reads \<^verbatim>\<open>names[12]\<close> in a vector of ten names.\<close>

lemma long_names:
  "getMappedName longNameShape (fromConst TopAbs_FACE 1) = ''face-name-01''"
  "getMappedName longNameShape (fromConst TopAbs_FACE 2) = ''face-name-02''"
  "getMappedName longNameShape (fromConst TopAbs_FACE 3) = ''face-name-03''"
  "getMappedName longNameShape (fromConst TopAbs_FACE 4) = ''face-name-04''"
  "getMappedName longNameShape (fromConst TopAbs_FACE 5) = ''face-name-05''"
  "getMappedName longNameShape (fromConst TopAbs_FACE 6) = ''face-name-06''"
  "getMappedName longNameShape (fromConst TopAbs_FACE 7) = ''face-name-07''"
  "getMappedName longNameShape (fromConst TopAbs_FACE 8) = ''face-name-08''"
  "getMappedName longNameShape (fromConst TopAbs_FACE 9) = ''face-name-09''"
  "getMappedName longNameShape (fromConst TopAbs_FACE 10) = ''face-name-10''"
  by (simp_all add: longNameShape_def getMappedName_def fromConst_def)

lemma long_anc:
  "1 \<le> j \<Longrightarrow> j \<le> 10 \<Longrightarrow> findAncestors longNameShape (TopAbs_FACE, j) TopAbs_COMPOUND = [1, 2]"
  by (simp add: longNameShape_def tenFaceShape_def emptyShape_def findAncestors_def)

lemma long_collect:
  "collectLower longNameShape TopAbs_COMPOUND TopAbs_FACE [1, 2, 3, 4, 5, 6, 7, 8, 9, 10] [] [] 0 =
     ([(12, [1, 2]), (12, [1, 2]), (12, [1, 2]), (12, [1, 2]), (12, [1, 2]),
       (12, [1, 2]), (12, [1, 2]), (12, [1, 2]), (12, [1, 2]), (12, [1, 2])],
      [''face-name-01'', ''face-name-02'', ''face-name-03'', ''face-name-04'', ''face-name-05'',
       ''face-name-06'', ''face-name-07'', ''face-name-08'', ''face-name-09'', ''face-name-10''])"
  by (simp add: long_names long_anc MinLowerTopoNames_def Let_def)

lemma long_names_out_of_range:
  "chooseLower exampleNaming longNameShape TopAbs_COMPOUND 2 TopAbs_FACE = Inl OutOfRange \<and>
   exportMappedElement exampleNaming longNameShape (ByIndex (fromConst TopAbs_COMPOUND 2)) =
     Inl OutOfRange"
proof -
  have s: "subElements longNameShape TopAbs_COMPOUND 2 TopAbs_FACE = [1, 2, 3, 4, 5, 6, 7, 8, 9, 10]"
    by (simp add: longNameShape_def tenFaceShape_def emptyShape_def)
  have c: "chooseLower exampleNaming longNameShape TopAbs_COMPOUND 2 TopAbs_FACE = Inl OutOfRange"
    by (rule chooseLower_out_of_range[OF long_collect[folded s]])
       (simp_all add: MaxLowerTopoNames_def)
  have "exportMappedElement exampleNaming longNameShape (ByIndex (fromConst TopAbs_COMPOUND 2)) =
     Inl OutOfRange"
    using c
    by (simp add: exportMappedElement_def Let_def shapeTypeAndIndex_def fromConst_def
        getMappedName_def subShapeIsNull_def longNameShape_def tenFaceShape_def emptyShape_def)
  with c show ?thesis by simp
qed

subsection \<open>Decoding a combo name\<close>

text \<open>The decoding branch, for a durable name that has no index name in the shape and
  comes with a valid index name after the dot.\<close>

lemma exportMappedElement_decode:
  assumes "getIndexedName sh n = IndexedName_null" and "n \<noteq> []"
    and "shapeTypeAndIndex d = (k, i)" and "0 < i"
    and "comboParts sh (fromConst k i) n = (names, postfix)"
  shows "exportMappedElement N sh (ByName n (Some d)) =
           (if length (applyOrdinal N postfix (decodeLoop sh k names [])) = 1
            then Inr (sh, \<lparr>name = n,
                           index = fromConst k (hd (applyOrdinal N postfix (decodeLoop sh k names [])))\<rparr>)
            else Inr (sh, \<lparr>name = n, index = IndexedName_null\<rparr>))"
  using assms
  by (simp add: exportMappedElement_def Let_def shapeTypeAndIndex_def IndexedName_null_def
      fromConst_def)


text \<open>A name among the encoded ones that does not resolve leaves no candidate.\<close>

lemma decodeLoop_unresolved:
  "\<exists>nm\<in>set names. \<not> IndexedName_valid (getIndexedName sh nm) \<Longrightarrow>
   decodeLoop sh kind names anc = []"
  by (induction names arbitrary: anc) (auto simp: Let_def)

text \<open>The shape of two compounds with ten faces: what the loops compute.\<close>

lemma ten_names:
  "getMappedName tenFaceShape (fromConst TopAbs_FACE 1) = ''a''"
  "getMappedName tenFaceShape (fromConst TopAbs_FACE 2) = ''b''"
  "getMappedName tenFaceShape (fromConst TopAbs_FACE 3) = ''c''"
  "getMappedName tenFaceShape (fromConst TopAbs_FACE 4) = ''d''"
  "getMappedName tenFaceShape (fromConst TopAbs_FACE 5) = ''e''"
  "getMappedName tenFaceShape (fromConst TopAbs_FACE 6) = ''f''"
  "getMappedName tenFaceShape (fromConst TopAbs_FACE 7) = ''g''"
  "getMappedName tenFaceShape (fromConst TopAbs_FACE 8) = ''h''"
  "getMappedName tenFaceShape (fromConst TopAbs_FACE 9) = ''i''"
  "getMappedName tenFaceShape (fromConst TopAbs_FACE 10) = ''j''"
  by (simp_all add: tenFaceShape_def emptyShape_def getMappedName_def fromConst_def)

lemma ten_anc:
  "1 \<le> j \<Longrightarrow> j \<le> 10 \<Longrightarrow> findAncestors tenFaceShape (TopAbs_FACE, j) TopAbs_COMPOUND = [1, 2]"
  by (simp add: tenFaceShape_def emptyShape_def findAncestors_def)

lemma ten_collect:
  "collectLower tenFaceShape TopAbs_COMPOUND TopAbs_FACE [1, 2, 3, 4, 5, 6, 7, 8, 9, 10] [] [] 0 =
     ([(1, [1, 2]), (1, [1, 2]), (1, [1, 2]), (1, [1, 2]), (1, [1, 2]),
       (1, [1, 2]), (1, [1, 2]), (1, [1, 2]), (1, [1, 2]), (1, [1, 2])],
      [''a'', ''b'', ''c'', ''d'', ''e'', ''f'', ''g'', ''h'', ''i'', ''j''])"
  by (simp add: ten_names ten_anc MinLowerTopoNames_def Let_def)

lemma ten_sort:
  "sort_key (\<lambda>v. length (snd v))
        [(1, [1, 2]), (1, [1, 2]), (1, [1, 2]), (1, [1, 2]), (1, [1, 2]),
         (1, [1, 2]), (1, [1, 2]), (1, [1, 2]), (1, [1, 2]), (1::nat, [1, 2::int])] =
        [(1, [1, 2]), (1, [1, 2]), (1, [1, 2]), (1, [1, 2]), (1, [1, 2]),
         (1, [1, 2]), (1, [1, 2]), (1, [1, 2]), (1, [1, 2]), (1::nat, [1, 2::int])]"
  by simp

lemma ten_sorted:
  "sortLoop [''a'', ''b'', ''c'', ''d'', ''e'', ''f'', ''g'', ''h'', ''i'', ''j'']
        [(1, [1, 2]), (1, [1, 2]), (1, [1, 2]), (1, [1, 2]), (1, [1, 2]),
         (1, [1, 2]), (1, [1, 2]), (1, [1, 2]), (1, [1, 2]), (1::nat, [1, 2::int])] [] [] 0 =
   Inr ([1, 2], [''b'', ''b'', ''b'', ''b'', ''b'', ''b'', ''b'', ''b'', ''b'', ''b''])"
  by (simp add: MinLowerTopoNames_def Let_def)

lemma to_string_1: "to_string 1 = ''1''" "to_string 0 = ''0''"
  by simp_all

lemma ten_choose:
  "chooseLower exampleNaming tenFaceShape TopAbs_COMPOUND 2 TopAbs_FACE =
     Inr ([''a'', ''b'', ''c'', ''d'', ''e'', ''f'', ''g'', ''h'', ''i'', ''j''], '';:I1'')"
proof -
  have s: "subElements tenFaceShape TopAbs_COMPOUND 2 TopAbs_FACE = [1, 2, 3, 4, 5, 6, 7, 8, 9, 10]"
    by (simp add: tenFaceShape_def emptyShape_def)
  have l: "MaxLowerTopoNames \<le> length [''a'', ''b'', ''c'', ''d'', ''e'', ''f'', ''g'', ''h'', ''i'', ''j'']"
    by (simp add: MaxLowerTopoNames_def)
  have t: "take (min (length [''a'', ''b'', ''c'', ''d'', ''e'', ''f'', ''g'', ''h'', ''i'', ''j'']) MaxLowerTopoNames)
             [''a'', ''b'', ''c'', ''d'', ''e'', ''f'', ''g'', ''h'', ''i'', ''j''] =
           [''a'', ''b'', ''c'', ''d'', ''e'', ''f'', ''g'', ''h'', ''i'', ''j'']"
    by (simp add: MaxLowerTopoNames_def)
  have p: "find_pos [1, 2] 2 = Some 1" by simp
  have i: "indexPostfix exampleNaming @ to_string 1 = '';:I1''" by (simp add: exampleNaming_def)
  have n: "[''a'', ''b'', ''c'', ''d'', ''e'', ''f'', ''g'', ''h'', ''i'', ''j''] \<noteq> []"
    "(1::nat) < length [1, 2::int]" by simp_all
  show ?thesis
    unfolding chooseLower_def s ten_collect
    by (simp only: Let_def prod.case l if_True ten_sort ten_sorted sum.case t n if_False p
        option.case i)
qed

lemma ten_index:
  "getIndexedName tenFaceShape ''a'' = fromConst TopAbs_FACE 1"
  "getIndexedName tenFaceShape ''b'' = fromConst TopAbs_FACE 2"
  "getIndexedName tenFaceShape ''c'' = fromConst TopAbs_FACE 3"
  "getIndexedName tenFaceShape ''d'' = fromConst TopAbs_FACE 4"
  "getIndexedName tenFaceShape ''e'' = fromConst TopAbs_FACE 5"
  "getIndexedName tenFaceShape ''f'' = fromConst TopAbs_FACE 6"
  "getIndexedName tenFaceShape ''g'' = fromConst TopAbs_FACE 7"
  "getIndexedName tenFaceShape ''h'' = fromConst TopAbs_FACE 8"
  "getIndexedName tenFaceShape ''i'' = fromConst TopAbs_FACE 9"
  "getIndexedName tenFaceShape ''j'' = fromConst TopAbs_FACE 10"
  "getIndexedName tenFaceShape ''abcdefghijCompound;:I1'' = IndexedName_null"
  by (simp_all add: tenFaceShape_def emptyShape_def getIndexedName_def)

lemma ten_exists:
  "1 \<le> j \<Longrightarrow> j \<le> 10 \<Longrightarrow> \<not> subShapeIsNull tenFaceShape TopAbs_FACE j"
  by (simp add: tenFaceShape_def emptyShape_def subShapeIsNull_def)

lemma ten_decode:
  "decodeLoop tenFaceShape TopAbs_COMPOUND
     [''a'', ''b'', ''c'', ''d'', ''e'', ''f'', ''g'', ''h'', ''i'', ''j''] [] = [1, 2]"
  by (simp add: ten_index ten_exists ten_anc fromConst_def shapeTypeAndIndex_def
      IndexedName_valid_def Let_def findAncestors_def[symmetric])

lemma ten_encode:
  "exportMappedElement exampleNaming tenFaceShape (ByIndex (fromConst TopAbs_COMPOUND 2)) =
     Inr (fst (setElementComboName tenFaceShape (fromConst TopAbs_COMPOUND 2)
                 [''a'', ''b'', ''c'', ''d'', ''e'', ''f'', ''g'', ''h'', ''i'', ''j'']
                 ''Compound'' '';:I1''),
          \<lparr>name = ''abcdefghijCompound;:I1'', index = fromConst TopAbs_COMPOUND 2\<rparr>)"
proof -
  let ?i = "fromConst TopAbs_COMPOUND 2"
  have h1: "getMappedName tenFaceShape ?i = []"
    by (simp add: tenFaceShape_def emptyShape_def getMappedName_def fromConst_def)
  have h2: "0 < getIndex ?i" by (simp add: fromConst_def)
  have h3: "\<not> subShapeIsNull tenFaceShape (getType ?i) (getIndex ?i)"
    by (simp add: tenFaceShape_def emptyShape_def subShapeIsNull_def fromConst_def)
  have h4: "lowerKind (getType ?i) \<noteq> TopAbs_SHAPE" by (simp add: fromConst_def)
  have t: "getType ?i = TopAbs_COMPOUND" "getIndex ?i = 2" "lowerKind TopAbs_COMPOUND = TopAbs_FACE"
    "shapeName exampleNaming TopAbs_COMPOUND = ''Compound''"
    by (simp_all add: fromConst_def exampleNaming_def)
  have c: "comboName [''a'', ''b'', ''c'', ''d'', ''e'', ''f'', ''g'', ''h'', ''i'', ''j''] ''Compound'' '';:I1''
             = ''abcdefghijCompound;:I1''"
    by (simp add: comboName_def)
  show ?thesis
    unfolding exportMappedElement_synthesis[OF h1 h2 h3 h4] t ten_choose
    by (simp add: c)
qed

text \<open>C5 at the two compounds with ten faces: \<^verbatim>\<open>getElementName\<close> gives Compound2 the
  combo name \<^verbatim>\<open>abcdefghijCompound;:I1\<close> (lemma \<open>ten_encode\<close>). On the shape
  without that name in its element map, the ten encoded names resolve, the candidates
  left are the compounds 1 and 2, the ordinal 1 of the postfix is read, and the index
  name returned is Compound1, the first candidate, not the candidate at the ordinal.\<close>

theorem ordinal_decodes_to_first:
  "getIndexedName tenFaceShape ''abcdefghijCompound;:I1'' = IndexedName_null \<and>
   comboParts tenFaceShape (fromConst TopAbs_COMPOUND 2) ''abcdefghijCompound;:I1'' =
     ([''a'', ''b'', ''c'', ''d'', ''e'', ''f'', ''g'', ''h'', ''i'', ''j''], '';:I1'') \<and>
   decodeLoop tenFaceShape TopAbs_COMPOUND
     [''a'', ''b'', ''c'', ''d'', ''e'', ''f'', ''g'', ''h'', ''i'', ''j''] [] = [1, 2] \<and>
   read_int ''1'' = Some 1 \<and>
   applyOrdinal exampleNaming '';:I1'' [1, 2] = [1] \<and>
   exportMappedElement exampleNaming tenFaceShape
     (ByName ''abcdefghijCompound;:I1'' (Some (fromConst TopAbs_COMPOUND 2))) =
     Inr (tenFaceShape, \<lparr>name = ''abcdefghijCompound;:I1'', index = fromConst TopAbs_COMPOUND 1\<rparr>)"
proof -
  let ?n = "''abcdefghijCompound;:I1''"
  have c3: "getIndexedName tenFaceShape ?n = IndexedName_null" by (rule ten_index)
  have p: "comboParts tenFaceShape (fromConst TopAbs_COMPOUND 2) ?n =
             ([''a'', ''b'', ''c'', ''d'', ''e'', ''f'', ''g'', ''h'', ''i'', ''j''], '';:I1'')"
    by (simp add: tenFaceShape_def emptyShape_def)
  have c5: "read_int ''1'' = Some 1"
    by (simp add: read_int_def isspace_def isdigit_def digits_value_def Let_def)
  have a: "applyOrdinal exampleNaming '';:I1'' [1, 2] = [1]"
    by (simp add: applyOrdinal_def starts_with_def exampleNaming_def c5)
  have r: "shapeTypeAndIndex (fromConst TopAbs_COMPOUND 2) = (TopAbs_COMPOUND, 2)"
    by (simp add: shapeTypeAndIndex_def fromConst_def)
  have ne: "?n \<noteq> []" by simp
  have pos: "(0::int) < 2" by simp
  have c6: "exportMappedElement exampleNaming tenFaceShape
     (ByName ?n (Some (fromConst TopAbs_COMPOUND 2))) =
     Inr (tenFaceShape, \<lparr>name = ?n, index = fromConst TopAbs_COMPOUND 1\<rparr>)"
    unfolding exportMappedElement_decode[OF c3 ne r pos p] ten_decode a
    by simp
  from c3 p ten_decode c5 a c6 show ?thesis by blast
qed

text \<open>A second input for C5, the changed shape: the combo name \<^verbatim>\<open>abWire\<close> does not
  resolve, it encodes the edges a and b, the edge a has no ancestor among the wires, so
  no wire has both edges; the call still returns the index name Wire2.\<close>

lemma decode_free_edge:
  "getIndexedName changedShape ''abWire'' = IndexedName_null \<and>
   comboParts changedShape (fromConst TopAbs_WIRE 1) ''abWire'' = ([''a'', ''b''], []) \<and>
   findAncestors changedShape (TopAbs_EDGE, 1) TopAbs_WIRE = [] \<and>
   findAncestors changedShape (TopAbs_EDGE, 2) TopAbs_WIRE = [2] \<and>
   exportMappedElement exampleNaming changedShape (ByName ''abWire'' (Some (fromConst TopAbs_WIRE 1))) =
     Inr (changedShape, \<lparr>name = ''abWire'', index = fromConst TopAbs_WIRE 2\<rparr>)"
  by (simp add: exportMappedElement_def applyOrdinal_def starts_with_def shape_simps)

subsection \<open>Feature::getElementFromSource\<close>

text \<open>\<^verbatim>\<open>getTopoShape(src, srcSub, false, nullptr, &owner)\<close> leaves the owner null
  exactly when the source is not attached to a document, a sub-object on the path of
  the subname is missing or not attached, or \<^verbatim>\<open>getSubObject\<close> returns null; and
  \<^verbatim>\<open>Feature::getSubObject\<close> returns null for the feature itself exactly when it
  is called with a \<^verbatim>\<open>pyObj\<close> and the kernel raises \<^verbatim>\<open>Standard_Failure\<close>.\<close>

lemma topoShapeOwner_null:
  "snd (topoShapeOwner G src srcSub) = None \<longleftrightarrow>
     \<not> getNameInDocument G src \<or> \<not> checkLinkVisibility G (Some src) srcSub \<or>
     getSubObject G src (withoutElement G srcSub)
       (isNull (cachedShape G src (withoutElement G srcSub))) = None"
  by (auto simp: topoShapeOwner_def Feature_getTopoShape_def underscore_getTopoShape_def Let_def
      split: option.splits)

lemma Feature_getSubObject_null:
  assumes "isMappedElementName G (dropWhile (\<lambda>c. c = CHR ''.'') sub) \<or>
           CHR ''.'' \<notin> set (dropWhile (\<lambda>c. c = CHR ''.'') sub)"
  shows "Feature_getSubObject G this sub pyObj = None \<longleftrightarrow>
           pyObj \<and> raisesStandardFailure G this (dropWhile (\<lambda>c. c = CHR ''.'') sub)"
  using assms by (auto simp: Feature_getSubObject_def Let_def)

text \<open>The shapes and owners of the example documents.\<close>

lemma sourceGraph_shapes:
  "getTopoShape emptyGraph ob = (emptyShape, Some ob)"
  "topoShape sourceGraph ob sub = (if ob = 1 then targetShape else sourceShape)"
  "topoShapeOwner sourceGraph ob sub = (if ob = 1 then targetShape else sourceShape, Some ob)"
  "sub \<noteq> [] \<Longrightarrow>
     subElementShape sourceGraph ob sub = (if sub = ''Edge1'' then sourceShape else TopoShape_null)"
  by (auto simp add: getTopoShape_def topoShape_def topoShapeOwner_def subElementShape_def
      Feature_getTopoShape_def underscore_getTopoShape_def checkLinkVisibility_def
      getSubObject_def Feature_getSubObject_def Let_def
      sourceGraph_def emptyGraph_def TopoShape_null_def sourceShape_def emptyShape_def
      targetShape_def)

lemma sourceGraph_fields:
  "resolveElement sourceGraph ob sub a =
     (if sub = ''Face1'' then (if ob = 1 then (''f;T'', ''Face1'') else (''f'', ''Face1''))
      else if sub = ''Edge1'' then ([], ''Edge1'') else ([], []))"
  "searchSubShape sourceGraph s b = (if isNull b then [] else [''Face1'', ''Face2''])"
  "getID sourceGraph ob = int ob"
  by (simp_all add: sourceGraph_def emptyGraph_def)

lemmas graph_simps = sourceGraph_shapes sourceGraph_fields TopoShape_null_def
  targetShape_def sourceShape_def emptyShape_def
  exampleNaming_def fromConst_def IndexedName_null_def
  IndexedName_valid_def getMappedName_def getIndexedName_def countSubShapes_def Let_def

text \<open>The function for a target and a source that are not null, and the part after the
  shortcut, with the local variables written out.\<close>

lemma getElementFromSource_Some:
  "getElementFromSource G N (Some ob) subname (Some sr) srcSub single =
     (if shortcutApplies G N ob subname sr srcSub
      then (case traceFrom G N ob subname sr srcSub (index (sourceElement G N sr srcSub)) [] of
              Inl e \<Rightarrow> Inl e
            | Inr ((tc, res), k) \<Rightarrow>
                if res \<noteq> []
                then Inr (res, [ShortcutTrace (getMappedName (topoShape G ob subname)
                                                (index (sourceElement G N sr srcSub)))])
                else searchAndScan G N ob subname sr srcSub single
                       [ShortcutTrace (getMappedName (topoShape G ob subname)
                                         (index (sourceElement G N sr srcSub)))])
      else searchAndScan G N ob subname sr srcSub single [])"
  by (simp add: getElementFromSource_def Let_def)

lemma searchAndScan_scan:
  assumes "searchSubShape G (topoShape G ob subname) (subElementShape G sr srcSub) = []"
    and "name (sourceElement G N sr srcSub) \<noteq> []"
    and "sourceType G N sr srcSub \<noteq> TopAbs_SHAPE"
  shows "searchAndScan G N ob subname sr srcSub single calls =
           scanElements G N ob subname sr srcSub single (sourceType G N sr srcSub)
             [0 ..< countSubShapes (topoShape G ob subname) (sourceType G N sr srcSub)] []
             (calls @ [GeometricSearch])"
  using assms by (simp add: searchAndScan_def Let_def)

lemma windingGraph_shapes:
  "topoShape windingGraph ob sub = (if ob = 1 then windingShape else sourceShape)"
  "topoShapeOwner windingGraph ob sub = (if ob = 1 then windingShape else sourceShape, Some ob)"
  "subElementShape windingGraph 2 ''Face1'' = sourceShape"
  "resolveElement windingGraph ob sub a =
     (if sub = ''Face1'' then (if ob = 1 then (''w'', ''Face1'') else (''f'', ''Face1''))
      else if sub = ''Face2'' \<and> ob = 1 then (''v'', ''Face2'') else ([], []))"
  "searchSubShape windingGraph s b = []"
  "getID windingGraph ob = int ob"
  by (auto simp add: topoShape_def topoShapeOwner_def subElementShape_def
      Feature_getTopoShape_def underscore_getTopoShape_def checkLinkVisibility_def
      getSubObject_def Feature_getSubObject_def Let_def
      windingGraph_def sourceGraph_def emptyGraph_def TopoShape_null_def sourceShape_def
      emptyShape_def windingShape_def)

lemma failingGraph_shapes:
  "topoShape failingGraph ob sub = (if ob = 1 then targetShape else TopoShape_null)"
  "topoShapeOwner failingGraph ob sub =
     (if ob = 1 then (targetShape, Some ob)
      else (TopoShape_null, if ob = 2 then None else Some ob))"
  "subElementShape failingGraph 2 ''Face1'' = sourceShape"
  "resolveElement failingGraph ob sub a = resolveElement sourceGraph ob sub a"
  "searchSubShape failingGraph s b = []"
  by (auto simp add: topoShape_def topoShapeOwner_def subElementShape_def
      Feature_getTopoShape_def underscore_getTopoShape_def checkLinkVisibility_def
      getSubObject_def Feature_getSubObject_def Let_def
      failingGraph_def sourceGraph_def emptyGraph_def TopoShape_null_def sourceShape_def
      emptyShape_def targetShape_def)

lemma scanElements_calls:
  "scanElements G N obj subname src srcSub single type is res calls = Inr (r, c) \<Longrightarrow>
   \<exists>cs. c = calls @ cs \<and> (\<forall>x\<in>set cs. \<exists>i. x = ScanTrace i)"
proof (induction "is" arbitrary: res calls)
  case Nil
  then show ?case by simp
next
  case (Cons i rest)
  let ?chk = "fromConst type (int i + 1)"
  from Cons.prems obtain tc res' k where
    t: "traceFrom G N obj subname src srcSub ?chk res = Inr ((tc, res'), k)"
    by (auto simp: Let_def split: sum.splits)
  show ?case
  proof (cases "single \<and> res' \<noteq> []")
    case True
    with Cons.prems t have "c = calls @ [ScanTrace ?chk]" by (auto simp: Let_def)
    then show ?thesis by auto
  next
    case False
    with Cons.prems t have
      "scanElements G N obj subname src srcSub single type rest res' (calls @ [ScanTrace ?chk]) = Inr (r, c)"
      by (auto simp: Let_def)
    from Cons.IH[OF this] obtain cs where "c = (calls @ [ScanTrace ?chk]) @ cs"
      "\<forall>x\<in>set cs. \<exists>i. x = ScanTrace i" by blast
    then have "c = calls @ (ScanTrace ?chk # cs) \<and> (\<forall>x\<in>set (ScanTrace ?chk # cs). \<exists>i. x = ScanTrace i)"
      by auto
    then show ?thesis by blast
  qed
qed

lemma searchAndScan_calls:
  assumes "searchAndScan G N obj subname src srcSub single calls = Inr (r, c)"
  shows "\<exists>cs. c = calls @ GeometricSearch # cs \<and> (\<forall>x\<in>set cs. \<exists>i. x = ScanTrace i)"
proof -
  let ?names = "searchSubShape G (topoShape G obj subname) (subElementShape G src srcSub)"
  show ?thesis
  proof (cases "?names \<noteq> [] \<or> name (sourceElement G N src srcSub) = [] \<or> sourceType G N src srcSub = TopAbs_SHAPE")
    case True
    with assms have "c = calls @ [GeometricSearch]"
      by (auto simp: searchAndScan_def Let_def split: if_splits)
    then show ?thesis by simp
  next
    case False
    with assms have "scanElements G N obj subname src srcSub single (sourceType G N src srcSub)
        [0 ..< countSubShapes (topoShape G obj subname) (sourceType G N src srcSub)] []
        (calls @ [GeometricSearch]) = Inr (r, c)"
      by (auto simp: searchAndScan_def Let_def split: if_splits)
    from scanElements_calls[OF this] show ?thesis by auto
  qed
qed

text \<open>C6: the trace of the shortcut is made only when the target and the source shape
  have the same number of sub-shapes of the kind of the source element, and when that
  trace finds a match the function returns its result at once: neither the geometric
  search nor a trace of the scan over the elements is among the calls made.\<close>

theorem shortcut_returns_at_once:
  assumes "getElementFromSource G N (Some obj) subname (Some src) srcSub single = Inr (res, calls)"
  shows "(\<forall>m. ShortcutTrace m \<in> set calls \<longrightarrow>
            countSubShapes (topoShape G obj subname) (sourceType G N src srcSub) =
            countSubShapes (fst (topoShapeOwner G src srcSub)) (sourceType G N src srcSub)) \<and>
         (\<forall>tc r k. shortcutApplies G N obj subname src srcSub \<and>
            traceFrom G N obj subname src srcSub (index (sourceElement G N src srcSub)) [] =
              Inr ((tc, r), k) \<and> r \<noteq> [] \<longrightarrow>
            res = r \<and> GeometricSearch \<notin> set calls \<and> (\<forall>i. ScanTrace i \<notin> set calls))"
proof (intro conjI allI impI)
  fix m assume m: "ShortcutTrace m \<in> set calls"
  have "shortcutApplies G N obj subname src srcSub"
  proof (rule ccontr)
    assume "\<not> shortcutApplies G N obj subname src srcSub"
    with assms have "searchAndScan G N obj subname src srcSub single [] = Inr (res, calls)"
      by (simp add: getElementFromSource_def)
    from searchAndScan_calls[OF this] m show False by auto
  qed
  then show "countSubShapes (topoShape G obj subname) (sourceType G N src srcSub) =
            countSubShapes (fst (topoShapeOwner G src srcSub)) (sourceType G N src srcSub)"
    by (simp add: shortcutApplies_def Let_def)
next
  fix tc r k
  assume a: "shortcutApplies G N obj subname src srcSub \<and>
            traceFrom G N obj subname src srcSub (index (sourceElement G N src srcSub)) [] =
              Inr ((tc, r), k) \<and> r \<noteq> []"
  with assms have "(res, calls) = (r, [ShortcutTrace (getMappedName (topoShape G obj subname)
                        (index (sourceElement G N src srcSub)))])"
    by (simp add: getElementFromSource_def Let_def)
  then have rc: "res = r" "calls = [ShortcutTrace (getMappedName (topoShape G obj subname)
                        (index (sourceElement G N src srcSub)))]" by auto
  show "res = r" by (rule rc(1))
  show "GeometricSearch \<notin> set calls" using rc(2) by simp
  fix i show "ScanTrace i \<notin> set calls" using rc(2) by simp
qed

theorem shortcut_returns_at_once_witness:
  "getElementFromSource sourceGraph exampleNaming (Some 1) [] (Some 2) ''Face1'' False =
     Inr ([\<lparr>name = ''f;T'', index = fromConst TopAbs_FACE 1\<rparr>], [ShortcutTrace ''f;T'']) \<and>
   countSubShapes (topoShape sourceGraph 1 []) (sourceType sourceGraph exampleNaming 2 ''Face1'') =
   countSubShapes (fst (topoShapeOwner sourceGraph 2 ''Face1'')) (sourceType sourceGraph exampleNaming 2 ''Face1'') \<and>
   GeometricSearch \<notin> set [ShortcutTrace ''f;T''] \<and>
   (\<forall>i. ScanTrace i \<notin> set [ShortcutTrace ''f;T''])"
proof -
  let ?r = "[\<lparr>name = ''f;T'', index = fromConst TopAbs_FACE 1\<rparr>]"
  have a: "shortcutApplies sourceGraph exampleNaming 1 [] 2 ''Face1''"
    by (simp add: shortcutApplies_def sourceType_def sourceElement_def graph_simps)
  have t: "traceFrom sourceGraph exampleNaming 1 [] 2 ''Face1''
             (index (sourceElement sourceGraph exampleNaming 2 ''Face1'')) [] = Inr ((1, ?r), 2)"
    by (simp add: traceFrom_def checkHistory_def sourceElement_def graph_simps)
  have h: "getElementFromSource sourceGraph exampleNaming (Some 1) [] (Some 2) ''Face1'' False =
     Inr (?r, [ShortcutTrace ''f;T''])"
    using a t by (simp add: getElementFromSource_Some sourceElement_def graph_simps)
  have m: "ShortcutTrace ''f;T'' \<in> set [ShortcutTrace ''f;T'']" by simp
  from shortcut_returns_at_once[OF h] have
    c1: "\<forall>m. ShortcutTrace m \<in> set [ShortcutTrace ''f;T''] \<longrightarrow>
            countSubShapes (topoShape sourceGraph 1 []) (sourceType sourceGraph exampleNaming 2 ''Face1'') =
            countSubShapes (fst (topoShapeOwner sourceGraph 2 ''Face1'')) (sourceType sourceGraph exampleNaming 2 ''Face1'')"
    and c2: "\<forall>tc r k. shortcutApplies sourceGraph exampleNaming 1 [] 2 ''Face1'' \<and>
            traceFrom sourceGraph exampleNaming 1 [] 2 ''Face1''
              (index (sourceElement sourceGraph exampleNaming 2 ''Face1'')) [] = Inr ((tc, r), k) \<and> r \<noteq> [] \<longrightarrow>
            ?r = r \<and> GeometricSearch \<notin> set [ShortcutTrace ''f;T''] \<and>
            (\<forall>i. ScanTrace i \<notin> set [ShortcutTrace ''f;T''])"
    by blast+
  from c1 m have "countSubShapes (topoShape sourceGraph 1 []) (sourceType sourceGraph exampleNaming 2 ''Face1'') =
            countSubShapes (fst (topoShapeOwner sourceGraph 2 ''Face1'')) (sourceType sourceGraph exampleNaming 2 ''Face1'')"
    by blast
  moreover from c2 a t have "GeometricSearch \<notin> set [ShortcutTrace ''f;T''] \<and>
            (\<forall>i. ScanTrace i \<notin> set [ShortcutTrace ''f;T''])"
    by blast
  ultimately show ?thesis using h by blast
qed

lemma traceElement_count: "traceElement cb st steps = Inr (st', k) \<Longrightarrow> k \<le> length steps"
proof (induction steps arbitrary: st k)
  case Nil
  then show ?case by simp
next
  case (Cons s rest)
  then show ?case
    by (fastforce split: sum.splits prod.splits if_splits)
qed

text \<open>One call of \<^verbatim>\<open>checkHistory\<close> with an owner, for a counter between 0 and 3. A
  step with the tag of the source sets a counter that is 0 to 1 and leaves any other
  counter as it is; a step with another tag leaves the counter 0 as it is and adds 1 to
  any other counter. The call returns true either with the counter at 4, on a step with
  another tag and without a new result, or with one new result.\<close>

lemma checkHistory_step:
  assumes "checkHistory G N obj (Some owner) sub element chk (tc0, r0) (n, t) = Inr (stop, tc1, r1)"
    and "0 \<le> tc0" and "tc0 \<le> 3"
  shows "tc1 = (if \<bar>t\<bar> = getID G owner then (if tc0 = 0 then 1 else tc0)
                else (if tc0 = 0 then 0 else tc0 + 1))"
    and "\<not> stop \<Longrightarrow> r1 = r0 \<and> tc1 \<le> 3"
    and "stop \<Longrightarrow> (tc1 = 4 \<and> r1 = r0 \<and> \<bar>t\<bar> \<noteq> getID G owner) \<or> (tc1 \<le> 3 \<and> (\<exists>x. r1 = r0 @ [x]))"
  using assms
  by (auto simp: checkHistory_def Let_def split: if_splits)

text \<open>Once the counter is set, it grows by one with every step of another tag that is
  handed over. The trace ends with the counter at 4, on a step with another tag and
  without a result, or before the end of the history with one new result, or at the end
  of the history.\<close>

lemma trace_after_match:
  assumes "traceElement (checkHistory G N obj (Some owner) sub element chk) (tc0, r0) steps = Inr ((tc, r), k)"
    and "1 \<le> tc0" and "tc0 \<le> 3"
  shows "tc = tc0 + int (length (filter (\<lambda>s. \<bar>snd s\<bar> \<noteq> getID G owner) (take k steps))) \<and>
         tc \<le> 4 \<and>
         (tc = 4 \<longrightarrow> 0 < k \<and> \<bar>snd (steps ! (k - 1))\<bar> \<noteq> getID G owner \<and> r = r0) \<and>
         (tc < 4 \<and> k < length steps \<longrightarrow> (\<exists>x. r = r0 @ [x]))"
  using assms
proof (induction steps arbitrary: tc0 r0 k)
  case Nil
  then show ?case by simp
next
  case (Cons s rest)
  obtain n t where s: "s = (n, t)" by (cases s)
  from Cons.prems(1) obtain stop tc1 r1 where
    c: "checkHistory G N obj (Some owner) sub element chk (tc0, r0) (n, t) = Inr (stop, tc1, r1)"
    unfolding s by (auto split: sum.splits)
  have z: "0 \<le> tc0" using Cons.prems(2) by simp
  note st = checkHistory_step[OF c z Cons.prems(3)]
  have t1: "tc1 = tc0 + (if \<bar>t\<bar> = getID G owner then 0 else 1)"
    using st(1) Cons.prems(2) by auto
  show ?case
  proof (cases stop)
    case True
    with Cons.prems(1) c s have k: "k = 1" "tc = tc1" "r = r1" by auto
    from st(3)[OF True] t1 show ?thesis
      unfolding k by (auto simp: s)
  next
    case False
    with Cons.prems(1) c s obtain k' where
      k: "traceElement (checkHistory G N obj (Some owner) sub element chk) (tc1, r1) rest = Inr ((tc, r), k')"
         "k = Suc k'"
      by (auto split: sum.splits)
    from st(2)[OF False] have r: "r1 = r0" "tc1 \<le> 3" by simp_all
    have "1 \<le> tc1" using t1 Cons.prems(2) by auto
    from Cons.IH[OF k(1) this r(2)] have
      ih: "tc = tc1 + int (length (filter (\<lambda>s. \<bar>snd s\<bar> \<noteq> getID G owner) (take k' rest)))"
          "tc \<le> 4"
          "tc = 4 \<longrightarrow> 0 < k' \<and> \<bar>snd (rest ! (k' - 1))\<bar> \<noteq> getID G owner \<and> r = r1"
          "tc < 4 \<and> k' < length rest \<longrightarrow> (\<exists>x. r = r1 @ [x])"
      by blast+
    have e: "tc = tc0 + int (length (filter (\<lambda>s. \<bar>snd s\<bar> \<noteq> getID G owner) (take k (s # rest))))"
      using ih(1) t1 k(2) by (auto simp: s)
    have n: "0 < k' \<Longrightarrow> (s # rest) ! (k - 1) = rest ! (k' - 1)"
      using k(2) by (cases k') auto
    show ?thesis
      using e ih(2,3,4) n k(2) r(1) by auto
  qed
qed

text \<open>A trace from the start, where the counter is 0: \<open>j\<close> is the first step with the
  tag of the source.\<close>

lemma trace_cut_after_tag_match:
  assumes "traceElement (checkHistory G N obj (Some owner) sub element chk) (0, res0) steps =
             Inr ((tc, res), k)"
    and "j < k" and "\<bar>snd (steps ! j)\<bar> = getID G owner"
    and "\<forall>i<j. \<bar>snd (steps ! i)\<bar> \<noteq> getID G owner"
  shows "tc = 1 + int (length (filter (\<lambda>s. \<bar>snd s\<bar> \<noteq> getID G owner) (drop (Suc j) (take k steps)))) \<and>
         tc \<le> 4 \<and>
         (tc = 4 \<longrightarrow> \<bar>snd (steps ! (k - 1))\<bar> \<noteq> getID G owner \<and> res = res0) \<and>
         (tc < 4 \<and> k < length steps \<longrightarrow> (\<exists>x. res = res0 @ [x]))"
  using assms
proof (induction steps arbitrary: k j)
  case Nil
  then show ?case by simp
next
  case (Cons s rest)
  obtain n t where s: "s = (n, t)" by (cases s)
  from Cons.prems(1) obtain stop tc1 r1 where
    c: "checkHistory G N obj (Some owner) sub element chk (0, res0) (n, t) = Inr (stop, tc1, r1)"
    unfolding s by (auto split: sum.splits)
  note st = checkHistory_step[OF c]
  have t1: "tc1 = (if \<bar>t\<bar> = getID G owner then 1 else 0)" using st(1) by simp
  show ?case
  proof (cases j)
    case 0
    with Cons.prems(3) s have o: "\<bar>t\<bar> = getID G owner" by simp
    with t1 have tc1: "tc1 = 1" by simp
    show ?thesis
    proof (cases stop)
      case True
      with Cons.prems(1) c s have k: "k = 1" "tc = tc1" "res = r1" by auto
      from st(3)[OF _ _ True] tc1 show ?thesis
        unfolding k using 0 by (auto simp: s)
    next
      case False
      with Cons.prems(1) c s obtain k' where
        k: "traceElement (checkHistory G N obj (Some owner) sub element chk) (tc1, r1) rest = Inr ((tc, res), k')"
           "k = Suc k'"
        by (auto split: sum.splits)
      from st(2)[OF _ _ False] have r: "r1 = res0" by simp
      from trace_after_match[OF k(1)[unfolded tc1]] have
        a: "tc = 1 + int (length (filter (\<lambda>s. \<bar>snd s\<bar> \<noteq> getID G owner) (take k' rest)))"
           "tc \<le> 4"
           "tc = 4 \<longrightarrow> 0 < k' \<and> \<bar>snd (rest ! (k' - 1))\<bar> \<noteq> getID G owner \<and> res = r1"
           "tc < 4 \<and> k' < length rest \<longrightarrow> (\<exists>x. res = r1 @ [x])"
        by simp_all
      have d: "drop (Suc j) (take k (s # rest)) = take k' rest" using 0 k(2) by simp
      have n: "0 < k' \<Longrightarrow> (s # rest) ! (k - 1) = rest ! (k' - 1)"
        using k(2) by (cases k') auto
      show ?thesis
        unfolding d using a n k(2) r by auto
    qed
  next
    case (Suc j')
    from Cons.prems(4) Suc have f: "\<bar>t\<bar> \<noteq> getID G owner" by (auto simp: s)
    with t1 have tc1: "tc1 = 0" by simp
    have ns: "\<not> stop"
    proof
      assume stop
      with Cons.prems(1) c s have "k = 1" by auto
      with Cons.prems(2) Suc show False by simp
    qed
    with Cons.prems(1) c s obtain k' where
      k: "traceElement (checkHistory G N obj (Some owner) sub element chk) (tc1, r1) rest = Inr ((tc, res), k')"
         "k = Suc k'"
      by (auto split: sum.splits)
    from st(2)[OF _ _ ns] have r: "r1 = res0" by simp
    from Cons.prems(2,3,4) Suc k(2) have
      j: "j' < k'" "\<bar>snd (rest ! j')\<bar> = getID G owner"
         "\<forall>i<j'. \<bar>snd (rest ! i)\<bar> \<noteq> getID G owner"
      by auto
    have d: "drop (Suc j) (take k (s # rest)) = drop (Suc j') (take k' rest)"
      using Suc k(2) by simp
    have n: "(s # rest) ! (k - 1) = rest ! (k' - 1)"
      using k(2) j(1) by (cases k') auto
    have l: "k < length (s # rest) \<longleftrightarrow> k' < length rest" using k(2) by simp
    from Cons.IH[OF k(1)[unfolded tc1 r] j] show ?thesis unfolding d n l .
  qed
qed

text \<open>The target with the two faces: the histories of Face1 and Face2, the element of
  the source, and what the two traces of the scan yield.\<close>

lemma winding_steps:
  "traceSteps (topoShape windingGraph 1 [])
     (getMappedName (topoShape windingGraph 1 []) (fromConst TopAbs_FACE 1)) =
   [(''w'', 1), (''w1'', 2), (''w2'', 5), (''w3'', 2), (''w4'', 6), (''w5'', 2), (''w6'', 7),
    (''w7'', 8)]"
  "traceSteps (topoShape windingGraph 1 [])
     (getMappedName (topoShape windingGraph 1 []) (fromConst TopAbs_FACE 2)) =
   [(''v'', 1), (''f'', 2), (''v2'', 5)]"
  by (simp_all add: windingGraph_shapes windingShape_def emptyShape_def getMappedName_def
      fromConst_def)

lemma winding_source:
  "sourceElement windingGraph exampleNaming 2 ''Face1'' = \<lparr>name = ''f'', index = fromConst TopAbs_FACE 1\<rparr>"
  "sourceType windingGraph exampleNaming 2 ''Face1'' = TopAbs_FACE"
  by (simp_all add: sourceElement_def sourceType_def windingGraph_shapes
      exampleNaming_def fromConst_def)

lemma winding_trace:
  "traceFrom windingGraph exampleNaming 1 [] 2 ''Face1'' (fromConst TopAbs_FACE 1) [] =
     Inr ((4, []), 7)"
  "traceFrom windingGraph exampleNaming 1 [] 2 ''Face1'' (fromConst TopAbs_FACE 2) [] =
     Inr ((1, [\<lparr>name = ''v'', index = fromConst TopAbs_FACE 2\<rparr>]), 2)"
  unfolding traceFrom_def Let_def winding_steps winding_source
  by (simp_all add: checkHistory_def windingGraph_shapes exampleNaming_def fromConst_def)

lemma winding_run:
  "\<not> shortcutApplies windingGraph exampleNaming 1 [] 2 ''Face1''"
  "getElementFromSource windingGraph exampleNaming (Some 1) [] (Some 2) ''Face1'' False =
     Inr ([\<lparr>name = ''v'', index = fromConst TopAbs_FACE 2\<rparr>],
          [GeometricSearch, ScanTrace (fromConst TopAbs_FACE 1), ScanTrace (fromConst TopAbs_FACE 2)])"
proof -
  show a: "\<not> shortcutApplies windingGraph exampleNaming 1 [] 2 ''Face1''"
    unfolding shortcutApplies_def Let_def winding_source
    by (simp add: windingGraph_shapes countSubShapes_def windingShape_def sourceShape_def)
  have n: "searchSubShape windingGraph (topoShape windingGraph 1 [])
             (subElementShape windingGraph 2 ''Face1'') = []"
    by (simp add: windingGraph_shapes TopoShape_null_def)
  have cnt: "countSubShapes (topoShape windingGraph 1 []) TopAbs_FACE = 2"
    by (simp add: windingGraph_shapes countSubShapes_def windingShape_def)
  have up: "[0 ..< 2] = [0, Suc 0]" by (simp add: upt_rec)
  have i: "fromConst TopAbs_FACE (int 0 + 1) = fromConst TopAbs_FACE 1"
    "fromConst TopAbs_FACE (int (Suc 0) + 1) = fromConst TopAbs_FACE 2"
    by simp_all
  have sc: "scanElements windingGraph exampleNaming 1 [] 2 ''Face1'' False TopAbs_FACE [0, Suc 0] []
              [GeometricSearch] =
            Inr ([\<lparr>name = ''v'', index = fromConst TopAbs_FACE 2\<rparr>],
                 [GeometricSearch, ScanTrace (fromConst TopAbs_FACE 1),
                  ScanTrace (fromConst TopAbs_FACE 2)])"
    by (simp add: Let_def i winding_trace[unfolded One_nat_def])
  have ne: "name (sourceElement windingGraph exampleNaming 2 ''Face1'') \<noteq> []"
    "sourceType windingGraph exampleNaming 2 ''Face1'' \<noteq> TopAbs_SHAPE"
    unfolding winding_source by simp_all
  have sa: "searchAndScan windingGraph exampleNaming 1 [] 2 ''Face1'' False [] =
            Inr ([\<lparr>name = ''v'', index = fromConst TopAbs_FACE 2\<rparr>],
                 [GeometricSearch, ScanTrace (fromConst TopAbs_FACE 1),
                  ScanTrace (fromConst TopAbs_FACE 2)])"
    unfolding searchAndScan_scan[OF n ne] winding_source cnt up using sc by simp
  show "getElementFromSource windingGraph exampleNaming (Some 1) [] (Some 2) ''Face1'' False =
     Inr ([\<lparr>name = ''v'', index = fromConst TopAbs_FACE 2\<rparr>],
          [GeometricSearch, ScanTrace (fromConst TopAbs_FACE 1), ScanTrace (fromConst TopAbs_FACE 2)])"
    unfolding getElementFromSource_Some using a sa by simp
qed

text \<open>C7, as stated, fails on that target: the source has the tag 2 and one face, the
  target has two, so the function runs the scan, and the scan traces Face1 of the
  target. The second step of its history is the first with the tag of the source. Five
  further steps are handed to \<^verbatim>\<open>checkHistory\<close>, and the tag changes five times
  among them, before the step with the tag 7 cuts the trace off.\<close>

theorem trace_passes_five_tag_changes:
  "snd (topoShapeOwner windingGraph 2 ''Face1'') = Some 2 \<and>
   getID windingGraph 2 = 2 \<and>
   traceSteps (topoShape windingGraph 1 [])
     (getMappedName (topoShape windingGraph 1 []) (fromConst TopAbs_FACE 1)) =
     [(''w'', 1), (''w1'', 2), (''w2'', 5), (''w3'', 2), (''w4'', 6), (''w5'', 2), (''w6'', 7),
      (''w7'', 8)] \<and>
   traceFrom windingGraph exampleNaming 1 [] 2 ''Face1'' (fromConst TopAbs_FACE 1) [] =
     Inr ((4, []), 7) \<and>
   getElementFromSource windingGraph exampleNaming (Some 1) [] (Some 2) ''Face1'' False =
     Inr ([\<lparr>name = ''v'', index = fromConst TopAbs_FACE 2\<rparr>],
          [GeometricSearch, ScanTrace (fromConst TopAbs_FACE 1), ScanTrace (fromConst TopAbs_FACE 2)]) \<and>
   map snd (drop 1 (take 7
     [(''w'', 1::int), (''w1'', 2), (''w2'', 5), (''w3'', 2), (''w4'', 6), (''w5'', 2), (''w6'', 7),
      (''w7'', 8)])) = [2, 5, 2, 6, 2, 7] \<and>
   length (drop 2 (take 7
     [(''w'', 1::int), (''w1'', 2), (''w2'', 5), (''w3'', 2), (''w4'', 6), (''w5'', 2), (''w6'', 7),
      (''w7'', 8)])) = 5 \<and>
   tagChangeCount [2, 5, 2, 6, 2, 7] = 5 \<and>
   \<not> tagChangeCount [2, 5, 2, 6, 2, 7] \<le> 3"
proof -
  have c: "snd (topoShapeOwner windingGraph 2 ''Face1'') = Some 2" "getID windingGraph 2 = 2"
    by (simp_all add: windingGraph_shapes)
  have t: "map snd (drop 1 (take 7
     [(''w'', 1::int), (''w1'', 2), (''w2'', 5), (''w3'', 2), (''w4'', 6), (''w5'', 2), (''w6'', 7),
      (''w7'', 8)])) = [2, 5, 2, 6, 2, 7]"
    "length (drop 2 (take 7
     [(''w'', 1::int), (''w1'', 2), (''w2'', 5), (''w3'', 2), (''w4'', 6), (''w5'', 2), (''w6'', 7),
      (''w7'', 8)])) = 5"
    "tagChangeCount [2, 5, 2, 6, 2, 7] = 5"
    by simp_all
  have u: "\<not> tagChangeCount [2, 5, 2, 6, 2, 7] \<le> 3"
    unfolding t by simp
  from c winding_steps(1) winding_trace(1) winding_run(2) t u show ?thesis by blast
qed

text \<open>Steps that carry the tag of the source and another name than the source element
  are all handed over, however many they are: they do not move the counter.\<close>

lemma trace_source_tag_uncounted:
  assumes "\<forall>s\<in>set steps. \<bar>snd s\<bar> = getID G owner \<and> fst s \<noteq> name element"
  shows "\<exists>tc. traceElement (checkHistory G N obj (Some owner) sub element chk) (tc0, res) steps =
                Inr ((tc, res), length steps)"
  using assms
proof (induction steps arbitrary: tc0)
  case Nil
  then show ?case by simp
next
  case (Cons s rest)
  obtain n t where s: "s = (n, t)" by (cases s)
  from Cons.prems have a: "\<bar>t\<bar> = getID G owner" "n \<noteq> name element" by (simp_all add: s)
  then obtain tc1 where
    c: "checkHistory G N obj (Some owner) sub element chk (tc0, res) (n, t) = Inr (False, tc1, res)"
    by (simp add: checkHistory_def Let_def)
  from Cons.IH[of tc1] Cons.prems obtain tc where
    "traceElement (checkHistory G N obj (Some owner) sub element chk) (tc1, res) rest =
       Inr ((tc, res), length rest)" by auto
  with c show ?case by (simp add: s)
qed

text \<open>C7, amended: during a history trace of \<^verbatim>\<open>getElementFromSource\<close> for a source
  whose owner \<^verbatim>\<open>getTopoShape\<close> has found, once the generator tag has first matched
  the identity of the source object, at step \<open>j\<close>, the trace continues through at most 3
  further steps whose tag is not that of the source before it is cut off: \<open>k\<close> steps of
  the history are handed to \<^verbatim>\<open>checkHistory\<close>, \<open>later\<close> are those after step \<open>j\<close>
  with another tag, and \<^verbatim>\<open>tagChanges\<close> ends as 1 plus their number. The third of
  them is the last step of the trace, and the trace adds no result then; a trace that
  ends before the end of the history with fewer than three of them has added one result.
  Steps that carry the tag of the source again are not counted, so the constant bounds
  neither the number of tag changes nor the depth of the search.\<close>

theorem trace_cut:
  assumes "traceFrom G N obj subname src srcSub chk res0 = Inr ((tc, res), k)"
    and "snd (topoShapeOwner G src srcSub) = Some owner"
    and "j < k"
    and "\<bar>snd (traceSteps (topoShape G obj subname) (getMappedName (topoShape G obj subname) chk) ! j)\<bar>
           = getID G owner"
    and "\<forall>i<j. \<bar>snd (traceSteps (topoShape G obj subname)
                         (getMappedName (topoShape G obj subname) chk) ! i)\<bar> \<noteq> getID G owner"
  shows "let steps = traceSteps (topoShape G obj subname) (getMappedName (topoShape G obj subname) chk);
             later = filter (\<lambda>s. \<bar>snd s\<bar> \<noteq> getID G owner) (drop (Suc j) (take k steps))
         in k \<le> length steps \<and> length later \<le> 3 \<and> tc = 1 + int (length later) \<and>
            (length later = 3 \<longrightarrow> \<bar>snd (steps ! (k - 1))\<bar> \<noteq> getID G owner \<and> res = res0) \<and>
            (length later < 3 \<and> k < length steps \<longrightarrow> (\<exists>x. res = res0 @ [x]))"
proof -
  let ?steps = "traceSteps (topoShape G obj subname) (getMappedName (topoShape G obj subname) chk)"
  have t: "traceElement (checkHistory G N obj (Some owner) (noElementName N subname)
              (sourceElement G N src srcSub) chk) (0, res0) ?steps = Inr ((tc, res), k)"
    using assms(1,2) by (simp add: traceFrom_def Let_def)
  from trace_cut_after_tag_match[OF t assms(3,4,5)] traceElement_count[OF t]
  show ?thesis unfolding Let_def by auto
qed

theorem trace_cut_witness:
  "traceFrom windingGraph exampleNaming 1 [] 2 ''Face1'' (fromConst TopAbs_FACE 1) [] =
     Inr ((4, []), 7) \<and>
   snd (topoShapeOwner windingGraph 2 ''Face1'') = Some 2 \<and>
   \<bar>snd ([(''w'', 1::int), (''w1'', 2), (''w2'', 5), (''w3'', 2), (''w4'', 6), (''w5'', 2),
          (''w6'', 7), (''w7'', 8)] ! 1)\<bar> = 2 \<and>
   \<bar>snd ([(''w'', 1::int), (''w1'', 2), (''w2'', 5), (''w3'', 2), (''w4'', 6), (''w5'', 2),
          (''w6'', 7), (''w7'', 8)] ! 0)\<bar> \<noteq> 2 \<and>
   filter (\<lambda>s. \<bar>snd s\<bar> \<noteq> 2) (drop (Suc 1) (take 7
     [(''w'', 1::int), (''w1'', 2), (''w2'', 5), (''w3'', 2), (''w4'', 6), (''w5'', 2), (''w6'', 7),
      (''w7'', 8)])) = [(''w2'', 5), (''w4'', 6), (''w6'', 7)] \<and>
   7 \<le> length [(''w'', 1::int), (''w1'', 2), (''w2'', 5), (''w3'', 2), (''w4'', 6), (''w5'', 2),
                (''w6'', 7), (''w7'', 8)] \<and>
   length [(''w2'', 5::int), (''w4'', 6), (''w6'', 7)] \<le> 3 \<and>
   (4::int) = 1 + int (length [(''w2'', 5::int), (''w4'', 6), (''w6'', 7)]) \<and>
   length [(''w2'', 5::int), (''w4'', 6), (''w6'', 7)] = 3 \<and>
   \<bar>snd ([(''w'', 1::int), (''w1'', 2), (''w2'', 5), (''w3'', 2), (''w4'', 6), (''w5'', 2),
          (''w6'', 7), (''w7'', 8)] ! (7 - 1))\<bar> \<noteq> 2 \<and>
   traceFrom windingGraph exampleNaming 1 [] 2 ''Face1'' (fromConst TopAbs_FACE 2) [] =
     Inr ((1, [\<lparr>name = ''v'', index = fromConst TopAbs_FACE 2\<rparr>]), 2) \<and>
   filter (\<lambda>s. \<bar>snd s\<bar> \<noteq> 2) (drop (Suc 1) (take 2 [(''v'', 1::int), (''f'', 2), (''v2'', 5)])) = [] \<and>
   (2::nat) < length [(''v'', 1::int), (''f'', 2), (''v2'', 5)] \<and>
   (\<exists>x. [\<lparr>name = ''v'', index = fromConst TopAbs_FACE 2\<rparr>] = [] @ [x])"
proof -
  let ?w = "[(''w'', 1::int), (''w1'', 2), (''w2'', 5), (''w3'', 2), (''w4'', 6), (''w5'', 2),
             (''w6'', 7), (''w7'', 8)]"
  let ?v = "[(''v'', 1::int), (''f'', 2), (''v2'', 5)]"
  let ?l = "[(''w2'', 5::int), (''w4'', 6), (''w6'', 7)]"
  have h2: "snd (topoShapeOwner windingGraph 2 ''Face1'') = Some 2"
    by (simp add: windingGraph_shapes)
  have g: "getID windingGraph 2 = 2" by (simp add: windingGraph_shapes)
  have w3: "(1::nat) < 7" by simp
  have w4: "\<bar>snd (traceSteps (topoShape windingGraph 1 [])
                    (getMappedName (topoShape windingGraph 1 []) (fromConst TopAbs_FACE 1)) ! 1)\<bar>
           = getID windingGraph 2"
    unfolding winding_steps g by simp
  have w5: "\<forall>i<1. \<bar>snd (traceSteps (topoShape windingGraph 1 [])
                    (getMappedName (topoShape windingGraph 1 []) (fromConst TopAbs_FACE 1)) ! i)\<bar>
           \<noteq> getID windingGraph 2"
    unfolding winding_steps g by simp
  have v3: "(1::nat) < 2" by simp
  have v4: "\<bar>snd (traceSteps (topoShape windingGraph 1 [])
                    (getMappedName (topoShape windingGraph 1 []) (fromConst TopAbs_FACE 2)) ! 1)\<bar>
           = getID windingGraph 2"
    unfolding winding_steps g by simp
  have v5: "\<forall>i<1. \<bar>snd (traceSteps (topoShape windingGraph 1 [])
                    (getMappedName (topoShape windingGraph 1 []) (fromConst TopAbs_FACE 2)) ! i)\<bar>
           \<noteq> getID windingGraph 2"
    unfolding winding_steps g by simp
  have e1: "\<bar>snd (?w ! 1)\<bar> = 2" "\<bar>snd (?w ! 0)\<bar> \<noteq> 2" by simp_all
  have lw: "filter (\<lambda>s. \<bar>snd s\<bar> \<noteq> 2) (drop (Suc 1) (take 7 ?w)) = ?l" by simp
  have lv: "filter (\<lambda>s. \<bar>snd s\<bar> \<noteq> 2) (drop (Suc 1) (take 2 ?v)) = []" by simp
  have l3: "length ?l = 3" by simp
  have l0: "length ([] :: (string \<times> int) list) < 3" "(2::nat) < length ?v" by simp_all
  note W = trace_cut[OF winding_trace(1) h2 w3 w4 w5, unfolded winding_steps g Let_def lw]
  note V = trace_cut[OF winding_trace(2) h2 v3 v4 v5, unfolded winding_steps g Let_def lv]
  from W have t1: "7 \<le> length ?w" and t2: "length ?l \<le> 3" and t3: "(4::int) = 1 + int (length ?l)"
    and t4: "length ?l = 3 \<longrightarrow> \<bar>snd (?w ! (7 - 1))\<bar> \<noteq> 2 \<and> ([]::MappedElement list) = []"
    by blast+
  from t4 l3 have t5: "\<bar>snd (?w ! (7 - 1))\<bar> \<noteq> 2" by blast
  from V have "length ([] :: (string \<times> int) list) < 3 \<and> 2 < length ?v \<longrightarrow>
                 (\<exists>x. [\<lparr>name = ''v'', index = fromConst TopAbs_FACE 2\<rparr>] = [] @ [x])"
    by blast
  with l0 have t6: "\<exists>x. [\<lparr>name = ''v'', index = fromConst TopAbs_FACE 2\<rparr>] = [] @ [x]" by blast
  from winding_trace(1) h2 e1 lw t1 t2 t3 l3 t5 winding_trace(2) lv l0(2) t6 show ?thesis by blast
qed

lemma checkHistory_owner:
  "\<exists>r. checkHistory G N obj (Some owner) sub element chk st step = Inr r"
  by (auto simp: checkHistory_def Let_def)

lemma traceElement_total:
  assumes "\<And>st step. \<exists>r. cb st step = Inr r"
  shows "\<exists>r. traceElement cb st steps = Inr r"
proof (induction steps arbitrary: st)
  case Nil
  then show ?case by simp
next
  case (Cons s rest)
  from assms obtain stop st' where c: "cb st s = Inr (stop, st')" by (metis surj_pair)
  from Cons.IH[of st'] obtain st'' k where "traceElement cb st' rest = Inr (st'', k)"
    by (metis surj_pair)
  with c show ?case by simp
qed

lemma traceFrom_total:
  assumes "snd (topoShapeOwner G src srcSub) \<noteq> None"
  shows "\<exists>tc r k. traceFrom G N obj subname src srcSub chk res = Inr ((tc, r), k)"
proof -
  from assms obtain owner where o: "snd (topoShapeOwner G src srcSub) = Some owner" by auto
  have "\<exists>r. traceElement
           (checkHistory G N obj (Some owner) (noElementName N subname)
              (sourceElement G N src srcSub) chk)
           (0, res)
           (traceSteps (topoShape G obj subname) (getMappedName (topoShape G obj subname) chk)) = Inr r"
    by (rule traceElement_total) (rule checkHistory_owner)
  then obtain tc r k where "traceElement
           (checkHistory G N obj (Some owner) (noElementName N subname)
              (sourceElement G N src srcSub) chk)
           (0, res)
           (traceSteps (topoShape G obj subname) (getMappedName (topoShape G obj subname) chk)) =
           Inr ((tc, r), k)"
    by (metis surj_pair)
  then show ?thesis by (simp add: traceFrom_def Let_def o)
qed

lemma scanElements_total:
  assumes "snd (topoShapeOwner G src srcSub) \<noteq> None"
  shows "\<exists>r c. scanElements G N obj subname src srcSub single type is res calls = Inr (r, c)"
proof (induction "is" arbitrary: res calls)
  case Nil
  then show ?case by simp
next
  case (Cons i rest)
  from traceFrom_total[OF assms] obtain tc r k where
    t: "traceFrom G N obj subname src srcSub (fromConst type (int i + 1)) res = Inr ((tc, r), k)"
    by blast
  show ?case using t Cons.IH[of r "calls @ [ScanTrace (fromConst type (int i + 1))]"]
    by (auto simp: Let_def)
qed

lemma searchAndScan_total:
  assumes "snd (topoShapeOwner G src srcSub) \<noteq> None \<or> name (sourceElement G N src srcSub) = []"
  shows "\<exists>r c. searchAndScan G N obj subname src srcSub single calls = Inr (r, c)"
proof (cases "name (sourceElement G N src srcSub) = []")
  case True
  then show ?thesis by (simp add: searchAndScan_def Let_def)
next
  case False
  with assms have o: "snd (topoShapeOwner G src srcSub) \<noteq> None" by simp
  show ?thesis
    using scanElements_total[OF o]
    by (simp add: searchAndScan_def Let_def)
qed

lemma getElementFromSource_total:
  assumes "snd (topoShapeOwner G src srcSub) \<noteq> None \<or> name (sourceElement G N src srcSub) = []"
  shows "\<exists>r c. getElementFromSource G N (Some obj) subname (Some src) srcSub single = Inr (r, c)"
proof (cases "shortcutApplies G N obj subname src srcSub")
  case False
  then show ?thesis using searchAndScan_total[OF assms]
    by (simp add: getElementFromSource_def)
next
  case True
  then have "name (sourceElement G N src srcSub) \<noteq> []" by (simp add: shortcutApplies_def Let_def)
  with assms have o: "snd (topoShapeOwner G src srcSub) \<noteq> None" by simp
  from traceFrom_total[OF o] obtain tc r k where
    t: "traceFrom G N obj subname src srcSub (index (sourceElement G N src srcSub)) [] = Inr ((tc, r), k)"
    by blast
  show ?thesis
    using True t searchAndScan_total[OF assms]
    by (simp add: getElementFromSource_def Let_def)
qed

text \<open>When no trace finds the source element, the scan returns the empty list.\<close>

lemma scanElements_nothing:
  assumes "\<And>chk. \<exists>tc k. traceFrom G N obj subname src srcSub chk [] = Inr ((tc, []), k)"
  shows "\<exists>c. scanElements G N obj subname src srcSub single type is [] calls = Inr ([], c)"
proof (induction "is" arbitrary: calls)
  case Nil
  then show ?case by simp
next
  case (Cons i rest)
  from assms obtain tc k where
    t: "traceFrom G N obj subname src srcSub (fromConst type (int i + 1)) [] = Inr ((tc, []), k)"
    by blast
  show ?case using t Cons.IH by (simp add: Let_def)
qed

lemma getElementFromSource_nothing:
  assumes "\<And>chk. \<exists>tc k. traceFrom G N obj subname src srcSub chk [] = Inr ((tc, []), k)"
    and "searchSubShape G (topoShape G obj subname) (subElementShape G src srcSub) = []"
  shows "\<exists>c. getElementFromSource G N (Some obj) subname (Some src) srcSub single = Inr ([], c)"
proof -
  have s: "\<exists>c. searchAndScan G N obj subname src srcSub single calls = Inr ([], c)" for calls
    using scanElements_nothing[OF assms(1)] assms(2)
    by (simp add: searchAndScan_def Let_def)
  from assms(1) obtain tc k where
    t: "traceFrom G N obj subname src srcSub (index (sourceElement G N src srcSub)) [] = Inr ((tc, []), k)"
    by blast
  show ?thesis using s t by (simp add: getElementFromSource_def Let_def)
qed

lemma getElementFromSource_search:
  assumes "getElementFromSource G N (Some obj) subname (Some src) srcSub single = Inr (res, calls)"
    and "GeometricSearch \<in> set calls"
    and "searchSubShape G (topoShape G obj subname) (subElementShape G src srcSub) \<noteq> []"
  shows "res = searchResults N (topoShape G obj subname) single
                 (searchSubShape G (topoShape G obj subname) (subElementShape G src srcSub))"
proof -
  have s: "searchAndScan G N obj subname src srcSub single c0 = Inr (res, calls) \<Longrightarrow> ?thesis" for c0
    using assms(3) by (simp add: searchAndScan_def Let_def)
  show ?thesis
  proof (cases "shortcutApplies G N obj subname src srcSub")
    case False
    with assms(1) s show ?thesis by (simp add: getElementFromSource_def)
  next
    case True
    with assms(1) obtain tc r k where
      t: "traceFrom G N obj subname src srcSub (index (sourceElement G N src srcSub)) [] = Inr ((tc, r), k)"
      by (auto simp: getElementFromSource_def Let_def split: sum.splits)
    show ?thesis
    proof (cases "r = []")
      case True
      with assms(1) t \<open>shortcutApplies G N obj subname src srcSub\<close> s show ?thesis
        by (simp add: getElementFromSource_def Let_def)
    next
      case False
      with assms(1) t \<open>shortcutApplies G N obj subname src srcSub\<close>
      have "calls = [ShortcutTrace (getMappedName (topoShape G obj subname)
                        (index (sourceElement G N src srcSub)))]"
        by (simp add: getElementFromSource_def Let_def)
      with assms(2) show ?thesis by simp
    qed
  qed
qed

text \<open>What holds of \<^verbatim>\<open>getElementFromSource\<close> when the owner of the source is found:
  it returns the empty list for a null target or source object; with an owner of the
  source, or a source element without a durable name, it always returns a list; it
  returns the empty list for a source element that does not resolve and that the
  geometric search does not find, and whenever neither a trace nor the geometric search
  finds the element; and when the geometric search is reached and finds names, it
  returns the elements of all of them, or of the first one only when \<^verbatim>\<open>single\<close> is
  set.\<close>

lemma getElementFromSource_returns:
  "(obj = None \<or> src = None \<longrightarrow>
      getElementFromSource G N obj subname src srcSub single = Inr ([], [])) \<and>
   (\<forall>ob sr. obj = Some ob \<and> src = Some sr \<and>
      (snd (topoShapeOwner G sr srcSub) \<noteq> None \<or> name (sourceElement G N sr srcSub) = []) \<longrightarrow>
      (\<exists>res calls. getElementFromSource G N obj subname src srcSub single = Inr (res, calls))) \<and>
   (\<forall>ob sr. obj = Some ob \<and> src = Some sr \<and> name (sourceElement G N sr srcSub) = [] \<and>
      searchSubShape G (topoShape G ob subname) (subElementShape G sr srcSub) = [] \<longrightarrow>
      getElementFromSource G N obj subname src srcSub single = Inr ([], [GeometricSearch])) \<and>
   (\<forall>ob sr. obj = Some ob \<and> src = Some sr \<and>
      (\<forall>chk. \<exists>tc k. traceFrom G N ob subname sr srcSub chk [] = Inr ((tc, []), k)) \<and>
      searchSubShape G (topoShape G ob subname) (subElementShape G sr srcSub) = [] \<longrightarrow>
      (\<exists>calls. getElementFromSource G N obj subname src srcSub single = Inr ([], calls))) \<and>
   (\<forall>ob sr res calls. obj = Some ob \<and> src = Some sr \<and>
      getElementFromSource G N obj subname src srcSub single = Inr (res, calls) \<and>
      GeometricSearch \<in> set calls \<and>
      searchSubShape G (topoShape G ob subname) (subElementShape G sr srcSub) \<noteq> [] \<longrightarrow>
      res = map (\<lambda>n. \<lparr>name = getMappedNameOrIndex N (topoShape G ob subname) (indexedNameOf N n),
                       index = indexedNameOf N n\<rparr>)
                (if single
                 then [hd (searchSubShape G (topoShape G ob subname) (subElementShape G sr srcSub))]
                 else searchSubShape G (topoShape G ob subname) (subElementShape G sr srcSub)))"
proof (intro conjI allI impI)
  assume "obj = None \<or> src = None"
  then show "getElementFromSource G N obj subname src srcSub single = Inr ([], [])"
    by (auto simp: getElementFromSource_def split: option.splits)
next
  fix ob sr
  assume "obj = Some ob \<and> src = Some sr \<and>
      (snd (topoShapeOwner G sr srcSub) \<noteq> None \<or> name (sourceElement G N sr srcSub) = [])"
  then show "\<exists>res calls. getElementFromSource G N obj subname src srcSub single = Inr (res, calls)"
    using getElementFromSource_total[of G sr srcSub N ob subname single] by auto
next
  fix ob sr
  assume a: "obj = Some ob \<and> src = Some sr \<and> name (sourceElement G N sr srcSub) = [] \<and>
      searchSubShape G (topoShape G ob subname) (subElementShape G sr srcSub) = []"
  then have "\<not> shortcutApplies G N ob subname sr srcSub" by (simp add: shortcutApplies_def Let_def)
  with a show "getElementFromSource G N obj subname src srcSub single = Inr ([], [GeometricSearch])"
    by (simp add: getElementFromSource_def searchAndScan_def Let_def)
next
  fix ob sr
  assume a: "obj = Some ob \<and> src = Some sr \<and>
      (\<forall>chk. \<exists>tc k. traceFrom G N ob subname sr srcSub chk [] = Inr ((tc, []), k)) \<and>
      searchSubShape G (topoShape G ob subname) (subElementShape G sr srcSub) = []"
  then show "\<exists>calls. getElementFromSource G N obj subname src srcSub single = Inr ([], calls)"
    using getElementFromSource_nothing[of G N ob subname sr srcSub single] by auto
next
  fix ob sr res calls
  assume a: "obj = Some ob \<and> src = Some sr \<and>
      getElementFromSource G N obj subname src srcSub single = Inr (res, calls) \<and>
      GeometricSearch \<in> set calls \<and>
      searchSubShape G (topoShape G ob subname) (subElementShape G sr srcSub) \<noteq> []"
  let ?names = "searchSubShape G (topoShape G ob subname) (subElementShape G sr srcSub)"
  from a have "res = searchResults N (topoShape G ob subname) single ?names"
    using getElementFromSource_search[of G N ob subname sr srcSub single res calls] by auto
  moreover have "take 1 ?names = [hd ?names]" using a by (cases ?names) auto
  ultimately show "res = map (\<lambda>n. \<lparr>name = getMappedNameOrIndex N (topoShape G ob subname) (indexedNameOf N n),
                       index = indexedNameOf N n\<rparr>)
                (if single then [hd ?names] else ?names)"
    by (simp add: searchResults_def)
qed

text \<open>The document of the target 1 and the source 2, both attached.\<close>

lemma getElementFromSource_returns_example:
  "getElementFromSource sourceGraph exampleNaming None [] (Some 2) ''Face1'' False = Inr ([], []) \<and>
   (\<exists>res calls. getElementFromSource sourceGraph exampleNaming (Some 1) [] (Some 2) ''Face1'' False =
                  Inr (res, calls)) \<and>
   getElementFromSource sourceGraph exampleNaming (Some 1) [] (Some 2) ''Vertex1'' False =
     Inr ([], [GeometricSearch]) \<and>
   getElementFromSource sourceGraph exampleNaming (Some 1) [] (Some 2) ''Edge1'' False =
     Inr ([\<lparr>name = ''f;T'', index = fromConst TopAbs_FACE 1\<rparr>,
           \<lparr>name = ''Face2'', index = fromConst TopAbs_FACE 2\<rparr>], [GeometricSearch]) \<and>
   getElementFromSource sourceGraph exampleNaming (Some 1) [] (Some 2) ''Edge1'' True =
     Inr ([\<lparr>name = ''f;T'', index = fromConst TopAbs_FACE 1\<rparr>], [GeometricSearch])"
proof -
  note T = getElementFromSource_returns
  note T1 = T[THEN conjunct1, rule_format]
  note T2 = T[THEN conjunct2, THEN conjunct1, rule_format]
  note T3 = T[THEN conjunct2, THEN conjunct2, THEN conjunct1, rule_format]
  note T5 = T[THEN conjunct2, THEN conjunct2, THEN conjunct2, THEN conjunct2, rule_format]
  have o: "snd (topoShapeOwner sourceGraph 2 ''Face1'') \<noteq> None" by (simp add: graph_simps)
  have n: "name (sourceElement sourceGraph exampleNaming 2 ''Vertex1'') = []"
    "name (sourceElement sourceGraph exampleNaming 2 ''Edge1'') = []"
    by (simp_all add: sourceElement_def graph_simps)
  have ts: "topoShape sourceGraph 1 [] = targetShape" by (simp add: graph_simps)
  have s0: "searchSubShape sourceGraph (topoShape sourceGraph 1 []) (subElementShape sourceGraph 2 ''Vertex1'') = []"
    by (simp add: graph_simps)
  have s1: "searchSubShape sourceGraph (topoShape sourceGraph 1 []) (subElementShape sourceGraph 2 ''Edge1'') =
              [''Face1'', ''Face2'']"
    by (simp add: graph_simps)
  have na: "\<not> shortcutApplies sourceGraph exampleNaming 1 [] 2 ''Edge1''"
    using n(2) by (simp add: shortcutApplies_def Let_def)
  have e: "getElementFromSource sourceGraph exampleNaming (Some 1) [] (Some 2) ''Edge1'' single =
             Inr (searchResults exampleNaming targetShape single [''Face1'', ''Face2''], [GeometricSearch])" for single
    using na s1 ts by (simp add: getElementFromSource_def searchAndScan_def Let_def)
  have i: "indexedNameOf exampleNaming ''Face1'' = fromConst TopAbs_FACE 1"
     "indexedNameOf exampleNaming ''Face2'' = fromConst TopAbs_FACE 2"
    by (simp_all add: exampleNaming_def fromConst_def IndexedName_null_def)
  have m: "getMappedNameOrIndex exampleNaming targetShape (fromConst TopAbs_FACE 1) = ''f;T''"
     "getMappedNameOrIndex exampleNaming targetShape (fromConst TopAbs_FACE 2) = ''Face2''"
    by (simp_all add: getMappedNameOrIndex_def targetShape_def emptyShape_def exampleNaming_def
        fromConst_def)
  have c1: "getElementFromSource sourceGraph exampleNaming None [] (Some 2) ''Face1'' False = Inr ([], [])"
    by (rule T1) simp
  have c2: "\<exists>res calls. getElementFromSource sourceGraph exampleNaming (Some 1) [] (Some 2) ''Face1'' False =
                  Inr (res, calls)"
    using o by (intro T2[of _ 1 _ 2]) simp
  have c3: "getElementFromSource sourceGraph exampleNaming (Some 1) [] (Some 2) ''Vertex1'' False =
     Inr ([], [GeometricSearch])"
    using n(1) s0 by (intro T3[of _ 1 _ 2]) simp
  have g: "GeometricSearch \<in> set [GeometricSearch]" by simp
  have ne: "searchSubShape sourceGraph (topoShape sourceGraph 1 []) (subElementShape sourceGraph 2 ''Edge1'') \<noteq> []"
    using s1 by simp
  have c4: "searchResults exampleNaming targetShape False [''Face1'', ''Face2''] =
        [\<lparr>name = ''f;T'', index = fromConst TopAbs_FACE 1\<rparr>,
         \<lparr>name = ''Face2'', index = fromConst TopAbs_FACE 2\<rparr>]"
    using T5[of "Some 1" 1 "Some 2" 2 sourceGraph exampleNaming "[]" "''Edge1''" False, OF conjI[OF refl conjI[OF refl conjI[OF e[of False] conjI[OF g ne]]]]]
    unfolding ts s1[unfolded ts] by (simp add: i m)
  have c5: "searchResults exampleNaming targetShape True [''Face1'', ''Face2''] =
        [\<lparr>name = ''f;T'', index = fromConst TopAbs_FACE 1\<rparr>]"
    using T5[of "Some 1" 1 "Some 2" 2 sourceGraph exampleNaming "[]" "''Edge1''" True, OF conjI[OF refl conjI[OF refl conjI[OF e[of True] conjI[OF g ne]]]]]
    unfolding ts s1[unfolded ts] by (simp add: i m)
  from c1 c2 c3 e[of False] e[of True] c4 c5 show ?thesis by simp
qed

text \<open>C8 at a source whose shape makes the kernel fail: the source is an attached
  \<^verbatim>\<open>Part::Feature\<close> whose shape is not in the cache, so \<^verbatim>\<open>_getTopoShape\<close> calls
  \<^verbatim>\<open>getSubObject\<close> with a \<^verbatim>\<open>pyObj\<close>; the kernel raises \<^verbatim>\<open>Standard_Failure\<close>,
  \<^verbatim>\<open>Feature::getSubObject\<close> returns null, and \<^verbatim>\<open>getTopoShape\<close> returns the
  null shape with \<^verbatim>\<open>owner\<close> still null. The source element has the durable name f
  and the kind face; the target has one face and the null shape none, so the shortcut is
  not taken; the geometric search does not find the face of the source; the scan traces
  Face1 of the target, and the first step of its history calls \<^verbatim>\<open>owner->getID()\<close> on
  the null owner.\<close>

theorem getElementFromSource_null_owner:
  "getNameInDocument failingGraph 2 \<and>
   isPartFeature failingGraph 2 \<and>
   withoutElement failingGraph ''Face1'' = [] \<and>
   isNull (cachedShape failingGraph 2 []) \<and>
   raisesStandardFailure failingGraph 2 [] \<and>
   Feature_getSubObject failingGraph 2 [] False = Some 2 \<and>
   Feature_getSubObject failingGraph 2 [] True = None \<and>
   topoShapeOwner failingGraph 2 ''Face1'' = (TopoShape_null, None) \<and>
   subElementShape failingGraph 2 ''Face1'' = sourceShape \<and>
   sourceElement failingGraph exampleNaming 2 ''Face1'' =
     \<lparr>name = ''f'', index = fromConst TopAbs_FACE 1\<rparr> \<and>
   sourceType failingGraph exampleNaming 2 ''Face1'' = TopAbs_FACE \<and>
   countSubShapes (topoShape failingGraph 1 []) TopAbs_FACE = 1 \<and>
   countSubShapes (fst (topoShapeOwner failingGraph 2 ''Face1'')) TopAbs_FACE = 0 \<and>
   searchSubShape failingGraph (topoShape failingGraph 1 [])
     (subElementShape failingGraph 2 ''Face1'') = [] \<and>
   traceSteps (topoShape failingGraph 1 [])
     (getMappedName (topoShape failingGraph 1 []) (fromConst TopAbs_FACE 1)) =
     [(''f;T'', 1), (''f'', 2)] \<and>
   traceFrom failingGraph exampleNaming 1 [] 2 ''Face1'' (fromConst TopAbs_FACE 1) [] =
     Inl NullOwner \<and>
   getElementFromSource failingGraph exampleNaming (Some 1) [] (Some 2) ''Face1'' False =
     Inl NullOwner"
proof -
  have a: "getNameInDocument failingGraph 2" "isPartFeature failingGraph 2"
    "withoutElement failingGraph ''Face1'' = []"
    "isNull (cachedShape failingGraph 2 [])" "raisesStandardFailure failingGraph 2 []"
    by (simp_all add: failingGraph_def sourceGraph_def emptyGraph_def TopoShape_null_def)
  have a2: "Feature_getSubObject failingGraph 2 [] False = Some 2"
    "Feature_getSubObject failingGraph 2 [] True = None"
    by (simp_all add: Feature_getSubObject_def failingGraph_def sourceGraph_def emptyGraph_def)
  have b: "topoShapeOwner failingGraph 2 ''Face1'' = (TopoShape_null, None)"
    "subElementShape failingGraph 2 ''Face1'' = sourceShape"
    "topoShape failingGraph 1 [] = targetShape"
    by (simp_all add: failingGraph_shapes)
  have c: "sourceElement failingGraph exampleNaming 2 ''Face1'' =
             \<lparr>name = ''f'', index = fromConst TopAbs_FACE 1\<rparr>"
    "sourceType failingGraph exampleNaming 2 ''Face1'' = TopAbs_FACE"
    by (simp_all add: sourceElement_def sourceType_def failingGraph_shapes sourceGraph_fields
      exampleNaming_def fromConst_def)
  have d: "countSubShapes (topoShape failingGraph 1 []) TopAbs_FACE = 1"
    "countSubShapes (fst (topoShapeOwner failingGraph 2 ''Face1'')) TopAbs_FACE = 0"
    unfolding b by (simp_all add: countSubShapes_def targetShape_def TopoShape_null_def)
  have e: "searchSubShape failingGraph (topoShape failingGraph 1 [])
     (subElementShape failingGraph 2 ''Face1'') = []"
    by (simp add: failingGraph_shapes)
  have f: "traceSteps (topoShape failingGraph 1 [])
     (getMappedName (topoShape failingGraph 1 []) (fromConst TopAbs_FACE 1)) =
     [(''f;T'', 1), (''f'', 2)]"
    unfolding b by (simp add: targetShape_def emptyShape_def getMappedName_def fromConst_def)
  have g: "traceFrom failingGraph exampleNaming 1 [] 2 ''Face1'' (fromConst TopAbs_FACE 1) [] =
     Inl NullOwner"
    unfolding traceFrom_def Let_def f[unfolded b] b by (simp add: checkHistory_def)
  have na: "\<not> shortcutApplies failingGraph exampleNaming 1 [] 2 ''Face1''"
    unfolding shortcutApplies_def Let_def c d by simp
  have sc: "scanElements failingGraph exampleNaming 1 [] 2 ''Face1'' False TopAbs_FACE [0] []
              [GeometricSearch] = Inl NullOwner"
    using g by (simp add: Let_def)
  have ne: "name (sourceElement failingGraph exampleNaming 2 ''Face1'') \<noteq> []"
    "sourceType failingGraph exampleNaming 2 ''Face1'' \<noteq> TopAbs_SHAPE"
    unfolding c by simp_all
  have h: "getElementFromSource failingGraph exampleNaming (Some 1) [] (Some 2) ''Face1'' False =
     Inl NullOwner"
    unfolding getElementFromSource_Some searchAndScan_scan[OF e ne] c d using na sc by simp
  from a a2 b(1,2) c d e f g h show ?thesis by blast
qed

subsection \<open>Feature::getElementHistory and getElementSource\<close>

text \<open>The document with the cyclic tag: what the calls of the loops yield.\<close>

lemma cyclicGraph_fields:
  "getTopoShape cyclicGraph ob = (if ob = 1 then tagShape 2 else tagShape 1, Some ob)"
  "getDocument cyclicGraph ob = 0"
  "getLinkedObject cyclicGraph ob d = ob"
  "isGeoFeature cyclicGraph ob"
  "getElementOwner cyclicGraph ob n = None"
  "getObjectByID cyclicGraph doc i = (if i = 1 then Some 1 else if i = 2 then Some 2 else None)"
  "isLogEnabled cyclicGraph"
  by (simp_all add: getTopoShape_def Feature_getTopoShape_def underscore_getTopoShape_def
      checkLinkVisibility_def getSubObject_def Feature_getSubObject_def
      cyclicGraph_def emptyGraph_def tagShape_def emptyShape_def)

lemma cyclic_loop:
  "getElementHistory_loop n cyclicGraph True (CHR 0x00) (if b then 1 else 2)
     (tagShape (if b then 2 else 1)) ''e'' prev ret depth = None"
proof (induction n arbitrary: b prev ret depth)
  case 0
  then show ?case by simp
next
  case (Suc n)
  have h: "history (tagShape t) ''e'' = (t, ''e'', [])" for t
    by (simp add: tagShape_def emptyShape_def)
  have t: "tagObject (Suc n) cyclicGraph (if b then 1 else 2) ''e'' (if b then 2 else 1) depth =
             Some (Some (if b then 2 else 1), depth)"
    by (simp add: tagObject_def cyclicGraph_fields)
  have s: "fst (getTopoShape cyclicGraph (if b then 2 else 1)) = tagShape (if \<not> b then 2 else 1)"
    by (simp add: cyclicGraph_fields)
  have "getElementHistory_loop (Suc n) cyclicGraph True (CHR 0x00) (if b then 1 else 2)
     (tagShape (if b then 2 else 1)) ''e'' prev ret depth =
        getElementHistory_loop n cyclicGraph True (CHR 0x00) (if \<not> b then 1 else 2)
          (tagShape (if \<not> b then 2 else 1)) ''e''
          (if hi_intermediates (historyItem (tagShape (if b then 2 else 1)) (if b then 1 else 2) ''e'' prev []) \<noteq> []
           then last (hi_intermediates (historyItem (tagShape (if b then 2 else 1)) (if b then 1 else 2) ''e'' prev []))
           else [])
          (ret @ [historyItem (tagShape (if b then 2 else 1)) (if b then 1 else 2) ''e'' prev []]) depth"
    by (simp add: h t s Let_def)
  then show ?case using Suc.IH[of "\<not> b"] by simp
qed

text \<open>C1 at the cyclic tag: in the document of two features whose generation records name
  each other, the recursive walk of \<^verbatim>\<open>Feature::getElementHistory\<close> from the element e
  of the feature 1 does not return, whatever the fuel; the loop keeps no set of visited
  tags and raises no warning.\<close>

theorem getElementHistory_cyclic_never_returns:
  "getElementHistory fuel cyclicGraph exampleNaming 1 (ByName ''e'' None) True False = None"
proof -
  have "fst (getTopoShape cyclicGraph 1) = tagShape 2"
    by (simp add: cyclicGraph_fields)
  then show ?thesis
    using cyclic_loop[of fuel True "[]" "[]" 0]
    by (simp add: getElementHistory_def)
qed

text \<open>On the same document \<^verbatim>\<open>getElementSource\<close>, which keeps the set of document and
  tag pairs, stops in the third round with the warning.\<close>

lemma getElementSource_cyclic_stops:
  "getElementSource 3 cyclicGraph (Some 1) (tagShape 2) ''e'' (CHR 0x00) =
     Some ([(0, ''e''), (2, ''e''), (1, ''e'')], True)"
  by (simp add: getElementSource_def lookupTag_def cyclicGraph_fields tagShape_def
      emptyShape_def numeral_3_eq_3 Let_def)


subsection \<open>Feature::getRelatedElements\<close>

text \<open>The document of the feature with one face.\<close>

lemma relatedGraph_fields:
  "getTopoShape relatedGraph ob = (relatedShape, Some ob)"
  "Feature_getTopoShape relatedGraph (Some ob) [] False (Some ob) (resolveLinkDefault relatedGraph) =
     (relatedShape, Some ob)"
  by (simp_all add: getTopoShape_def Feature_getTopoShape_def underscore_getTopoShape_def
      checkLinkVisibility_def getSubObject_def Feature_getSubObject_def
      relatedGraph_def emptyGraph_def relatedShape_def emptyShape_def)

text \<open>C10: a query of \<^verbatim>\<open>getRelatedElements\<close> that completes returns the empty list
  and leaves the cache alone when the name resolves to no durable name; returns the cached
  list, and writes nothing, when \<^verbatim>\<open>withCache\<close> is set and the cache has an entry for
  the element and \<^verbatim>\<open>sameType\<close>; and otherwise does what the call without
  \<^verbatim>\<open>withCache\<close> does: it returns the empty list without touching the cache when the
  element kind is not valid, and else writes the list it returns, empty or not, into the
  cache under the element and \<^verbatim>\<open>sameType\<close>.\<close>

theorem getRelatedElements_cache:
  assumes "getRelatedElements fuel G N obj nm sameType withCache = Some (shape', ret)"
  shows
   "(name (getElementName (fst (getTopoShape G obj)) nm) = [] \<longrightarrow>
       ret = [] \<and> shape' = fst (getTopoShape G obj)) \<and>
    (name (getElementName (fst (getTopoShape G obj)) nm) \<noteq> [] \<and> withCache \<and>
     relatedCache (fst (getTopoShape G obj))
       (name (getElementName (fst (getTopoShape G obj)) nm), sameType) \<noteq> None \<longrightarrow>
       relatedCache (fst (getTopoShape G obj))
         (name (getElementName (fst (getTopoShape G obj)) nm), sameType) = Some ret \<and>
       shape' = fst (getTopoShape G obj)) \<and>
    (name (getElementName (fst (getTopoShape G obj)) nm) \<noteq> [] \<and>
     \<not> (withCache \<and>
        relatedCache (fst (getTopoShape G obj))
          (name (getElementName (fst (getTopoShape G obj)) nm), sameType) \<noteq> None) \<longrightarrow>
       getRelatedElements fuel G N obj nm sameType False = Some (shape', ret) \<and>
       (if shapeTypeOfChar N (elementType (fst (getTopoShape G obj))
             (name (getElementName (fst (getTopoShape G obj)) nm))) = TopAbs_SHAPE
        then ret = [] \<and> shape' = fst (getTopoShape G obj)
        else shape' = cacheRelatedElements (fst (getTopoShape G obj))
                        (name (getElementName (fst (getTopoShape G obj)) nm)) sameType ret \<and>
             relatedCache shape'
               (name (getElementName (fst (getTopoShape G obj)) nm), sameType) = Some ret))"
proof -
  let ?shape = "fst (getTopoShape G obj)"
  let ?n = "name (getElementName ?shape nm)"
  show ?thesis
  proof (cases "?n = []")
    case True
    with assms show ?thesis by (simp add: getRelatedElements_def Let_def)
  next
    case n: False
    show ?thesis
    proof (cases "withCache \<and> relatedCache ?shape (?n, sameType) \<noteq> None")
      case True
      with assms n show ?thesis
        by (auto simp: getRelatedElements_def Let_def getRelatedElementsCached_def)
    next
      case False
      then have c: "(if withCache then getRelatedElementsCached ?shape ?n sameType else None) = None"
        by (auto simp: getRelatedElementsCached_def)
      have e: "getRelatedElements fuel G N obj nm sameType withCache =
               getRelatedElements fuel G N obj nm sameType False"
        using n c by (simp add: getRelatedElements_def Let_def)
      show ?thesis
      proof (cases "shapeTypeOfChar N (elementType ?shape ?n) = TopAbs_SHAPE")
        case True
        with assms n c e False show ?thesis
          by (simp add: getRelatedElements_def Let_def)
      next
        case t: False
        have "shape' = cacheRelatedElements ?shape ?n sameType ret"
          using assms n c t
          by (auto simp: getRelatedElements_def Let_def split: option.splits)
        then have "shape' = cacheRelatedElements ?shape ?n sameType ret \<and>
                   relatedCache shape' (?n, sameType) = Some ret"
          by (simp add: cacheRelatedElements_def)
        with assms n e False t show ?thesis by (simp add: cacheRelatedElements_def)
      qed
    qed
  qed
qed

theorem getRelatedElements_cache_witness:
  "getRelatedElements (Suc 0) relatedGraph exampleNaming 1 (ByName ''g'' None) False True =
     Some (cacheRelatedElements relatedShape ''g'' False [], []) \<and>
   getRelatedElements (Suc 0) relatedGraph exampleNaming 1 (ByName ''g'' None) False False =
     Some (cacheRelatedElements relatedShape ''g'' False [], []) \<and>
   relatedCache (cacheRelatedElements relatedShape ''g'' False []) (''g'', False) = Some []"
proof -
  let ?sh' = "cacheRelatedElements relatedShape ''g'' False []"
  have h: "getRelatedElements (Suc 0) relatedGraph exampleNaming 1 (ByName ''g'' None) False True =
             Some (?sh', [])"
    by (simp add: getRelatedElements_def getRelatedElementsCached_def getElementSource_def
        lookupTag_def elementType_def relatedGraph_fields relatedShape_def graph_simps)
  have p: "fst (getTopoShape relatedGraph 1) = relatedShape"
    "name (getElementName relatedShape (ByName ''g'' None)) = ''g''"
    "relatedCache relatedShape (''g'', False) = None"
    "shapeTypeOfChar exampleNaming (elementType relatedShape ''g'') = TopAbs_FACE"
    by (simp_all add: elementType_def relatedGraph_fields relatedShape_def graph_simps)
  from getRelatedElements_cache[OF h] h show ?thesis
    unfolding p by simp
qed

end
